theory Spec2Isabelle
  imports Main "HOL-Library.Sublist" "HOL-Library.AList"
begin

section \<open>Strings as the program uses them\<close>

text \<open>
  The server in \<^verbatim>\<open>src/playwright/index.ts\<close> works on JavaScript strings. They are
  modelled as \<^typ>\<open>string\<close>; the string methods the handlers call are written out below.
  \<^verbatim>\<open>toLowerCase\<close> is modelled on the ASCII letters (other characters stay as they are).
\<close>

definition toLowerChar :: "char \<Rightarrow> char" where
  "toLowerChar c =
     (case map_of (zip ''ABCDEFGHIJKLMNOPQRSTUVWXYZ'' ''abcdefghijklmnopqrstuvwxyz'') c of
        Some l \<Rightarrow> l
      | None \<Rightarrow> c)"

definition toLowerCase :: "string \<Rightarrow> string" where
  "toLowerCase s = map toLowerChar s"

definition startsWith :: "string \<Rightarrow> string \<Rightarrow> bool" where
  "startsWith s p = prefix p s"

definition endsWith :: "string \<Rightarrow> string \<Rightarrow> bool" where
  "endsWith s p = prefix (rev p) (rev s)"

fun str_includes :: "string \<Rightarrow> string \<Rightarrow> bool" where
  "str_includes [] sub = (sub = [])"
| "str_includes (c # cs) sub = (prefix sub (c # cs) \<or> str_includes cs sub)"

text \<open>
  \<^verbatim>\<open>s.split(sep)\<close>: the pieces of \<open>s\<close> between the occurrences of \<open>sep\<close>, found from
  the left and not overlapping; with the empty separator, the characters of \<open>s\<close>.
\<close>

function js_split_from :: "string \<Rightarrow> string \<Rightarrow> string \<Rightarrow> string list" where
  "js_split_from sep acc [] = [rev acc]"
| "js_split_from sep acc (c # cs) =
     (if sep \<noteq> [] \<and> prefix sep (c # cs)
      then rev acc # js_split_from sep [] (drop (length sep) (c # cs))
      else js_split_from sep (c # acc) cs)"
  by pat_completeness auto
termination
  by (relation "measure (\<lambda>(sep, acc, s). length s)") auto

definition js_split :: "string \<Rightarrow> string \<Rightarrow> string list" where
  "js_split s sep = (if sep = [] then map (\<lambda>c. [c]) s else js_split_from sep [] s)"

text \<open>\<^verbatim>\<open>xs[i]\<close> on an array: \<^verbatim>\<open>undefined\<close> out of range.\<close>

definition at_index :: "'a list \<Rightarrow> nat \<Rightarrow> 'a option" where
  "at_index xs i = (if i < length xs then Some (xs ! i) else None)"

text \<open>\<^verbatim>\<open>xs.pop()\<close>: the last element, \<^verbatim>\<open>undefined\<close> on the empty array.\<close>

definition js_pop :: "'a list \<Rightarrow> 'a option" where
  "js_pop xs = (case rev xs of [] \<Rightarrow> None | x # _ \<Rightarrow> Some x)"

section \<open>The artifact store and the resource reader\<close>

text \<open>
  The two process-wide maps \<^verbatim>\<open>screenshots\<close> (name to base64 payload) and
  \<^verbatim>\<open>fileTypeMappings\<close> (name to MIME type) are JavaScript \<^verbatim>\<open>Map\<close>s: insertion
  ordered, one entry per key. They are association lists here; \<^verbatim>\<open>Map.set\<close> is
  \<^const>\<open>AList.update\<close> (it replaces the value in place or appends a new entry) and
  \<^verbatim>\<open>Map.get\<close> is \<^const>\<open>map_of\<close>. \<^verbatim>\<open>consoleLogs\<close> is the buffer of the page's
  console messages.
\<close>

record store =
  screenshots :: "(string \<times> string) list"
  fileTypeMappings :: "(string \<times> string) list"
  consoleLogs :: "string list"

definition empty_store :: store where
  "empty_store = \<lparr>screenshots = [], fileTypeMappings = [], consoleLogs = []\<rparr>"

text \<open>
  The write the acquisition handlers perform on success, as in
  \<^verbatim>\<open>BrowserCaptureRequest\<close>:
  \<^verbatim>\<open>screenshots.set(args.fileName, pdfBytes); fileTypeMappings.set(args.fileName, mime)\<close>.
\<close>

definition save_artifact :: "string \<Rightarrow> string \<Rightarrow> string \<Rightarrow> store \<Rightarrow> store" where
  "save_artifact name bytes mimeType st =
     st\<lparr>screenshots := AList.update name bytes (screenshots st),
        fileTypeMappings := AList.update name mimeType (fileTypeMappings st)\<rparr>"

text \<open>
  The write of \<^verbatim>\<open>BrowserDownloadPDF\<close> (and of \<^verbatim>\<open>BrowserScreenshot\<close>):
  \<^verbatim>\<open>screenshots.set(args.fileName, pdfBytes)\<close> only, no MIME type is recorded.
\<close>

definition save_bytes_only :: "string \<Rightarrow> string \<Rightarrow> store \<Rightarrow> store" where
  "save_bytes_only name bytes st = st\<lparr>screenshots := AList.update name bytes (screenshots st)\<rparr>"

datatype resource_contents =
  TextResource string string string
  | BlobResource (res_uri: string) (res_mimeType: string) (res_blob: string)

text \<open>The URI under which \<^verbatim>\<open>ListResources\<close> publishes a stored name.\<close>

definition resource_uri :: "string \<Rightarrow> string" where
  "resource_uri name = ''screenshot://'' @ name"

fun join_lines :: "string list \<Rightarrow> string" where
  "join_lines [] = []"
| "join_lines [l] = l"
| "join_lines (l # ls) = l @ [CHR 0x0A] @ join_lines ls"

text \<open>
  The \<^verbatim>\<open>ReadResourceRequestSchema\<close> handler. \<open>Inl\<close> is the thrown
  \<^verbatim>\<open>Error(`Resource not found: ${uri}`)\<close>. The tests \<^verbatim>\<open>if (screenshot)\<close> and
  \<^verbatim>\<open>fileTypeMappings.get(name) || ...\<close> are JavaScript truthiness tests: a missing
  entry and the empty string both fail them.
\<close>

definition read_mime :: "store \<Rightarrow> string \<Rightarrow> string" where
  "read_mime st name =
     (case map_of (fileTypeMappings st) name of
        Some m \<Rightarrow> if m \<noteq> [] then m
                  else if endsWith (toLowerCase name) ''.pdf'' then ''application/pdf'' else ''image/png''
      | None \<Rightarrow> if endsWith (toLowerCase name) ''.pdf'' then ''application/pdf'' else ''image/png'')"

definition ReadResource :: "store \<Rightarrow> string \<Rightarrow> string + resource_contents" where
  "ReadResource st uri =
     (if uri = ''console://logs''
      then Inr (TextResource uri ''text/plain'' (join_lines (consoleLogs st)))
      else if startsWith uri ''screenshot://''
      then (case at_index (js_split uri ''://'') 1 of
              None \<Rightarrow> Inl (''Resource not found: '' @ uri)
            | Some name \<Rightarrow>
                (case map_of (screenshots st) name of
                   None \<Rightarrow> Inl (''Resource not found: '' @ uri)
                 | Some screenshot \<Rightarrow>
                     if screenshot \<noteq> []
                     then Inr (BlobResource uri (read_mime st name) screenshot)
                     else Inl (''Resource not found: '' @ uri)))
      else Inl (''Resource not found: '' @ uri))"

section \<open>MIME type of a native download\<close>

text \<open>
  \<^verbatim>\<open>BrowserForceDownload\<close>, strategy 1:
  \<^verbatim>\<open>suggestedName.split('.').pop()?.toLowerCase() || ''\<close> and the chain of tests
  that follows it.
\<close>

definition extension_of :: "string \<Rightarrow> string" where
  "extension_of suggestedName =
     (case js_pop (js_split suggestedName ''.'') of None \<Rightarrow> [] | Some e \<Rightarrow> toLowerCase e)"

definition mime_of_extension :: "string \<Rightarrow> string" where
  "mime_of_extension extension =
     (if extension = ''pdf'' then ''application/pdf''
      else if extension \<in> set [''doc'', ''docx''] then ''application/msword''
      else if extension \<in> set [''xls'', ''xlsx''] then ''application/vnd.ms-excel''
      else if extension \<in> set [''ppt'', ''pptx''] then ''application/vnd.ms-powerpoint''
      else ''application/octet-stream'')"

definition download_mime :: "string \<Rightarrow> string" where
  "download_mime suggestedName = mime_of_extension (extension_of suggestedName)"


section \<open>Effects: outcomes, events and programs\<close>

text \<open>
  Every \<^verbatim>\<open>await\<close> on the browser driver or on the file system either returns a value
  or rejects with an \<^verbatim>\<open>Error\<close>; the handlers only ever read the error's
  \<^verbatim>\<open>message\<close>. What the browser and the file system answer is not decided by the
  server: each handler below takes a record (its environment) that fixes the outcome of
  each call the handler makes.
\<close>

datatype 'a outcome = Returned 'a | Threw string

text \<open>
  What a handler does to the outside world is recorded as a list of events, in the order
  the handler performs them.
  \<^item> \<open>Armed\<close>: an observer was registered (\<^verbatim>\<open>page.on\<close>, \<^verbatim>\<open>context.once('page')\<close>,
    \<^verbatim>\<open>page.waitForEvent('download')\<close>, the injected navigation hooks, the exposed
    callback) on the primary page or its context, or on a page of an auxiliary context;
  \<^item> \<open>Click\<close>: a click was issued on a surface: on all matches of the locator (strict),
    on the first match, or on the page body;
  \<^item> \<open>ContextOpened\<close>, \<open>ContextClosed\<close>: \<^verbatim>\<open>browser.newContext()\<close> returned,
    \<^verbatim>\<open>context.close()\<close> was called;
  \<^item> \<open>Log\<close>: a line written with \<^verbatim>\<open>console.log\<close> or \<^verbatim>\<open>console.error\<close>
    (recorded for the lines a property speaks of);
  \<^item> \<open>Notified\<close>: \<^verbatim>\<open>notifications/resources/list_changed\<close> was sent;
  \<^item> \<open>Mkdir\<close>, \<open>WriteFile\<close>, \<open>Unlink\<close>: the file-system call succeeded;
  \<^item> \<open>Waited\<close>: the handler was suspended for that many milliseconds in a race against
    its deadline timer.
\<close>

datatype surface = Primary | Auxiliary

datatype observer =
  DownloadWait | NewPageListener | RequestListener | ResponseListener
  | NavigationHook | HookCallback

datatype click_target = AllMatches | FirstMatch | Body

datatype event =
  Armed observer surface
  | Click surface click_target
  | ContextOpened
  | ContextClosed
  | Log string
  | Notified
  | Mkdir string
  | WriteFile string string
  | Unlink string
  | Waited nat

type_synonym 'a prog = "store \<Rightarrow> 'a outcome \<times> store \<times> event list"

definition ret :: "'a \<Rightarrow> 'a prog" where
  "ret x st = (Returned x, st, [])"

definition throw :: "string \<Rightarrow> 'a prog" where
  "throw m st = (Threw m, st, [])"

text \<open>\<open>await r\<close>: a call to the outside whose outcome \<open>r\<close> the environment fixes.\<close>

definition await :: "'a outcome \<Rightarrow> 'a prog" where
  "await r st = (r, st, [])"

definition emit :: "event \<Rightarrow> unit prog" where
  "emit e st = (Returned (), st, [e])"

definition modify :: "(store \<Rightarrow> store) \<Rightarrow> unit prog" where
  "modify f st = (Returned (), f st, [])"

text \<open>Sequencing: a rejection ends the block, as an exception does.\<close>

definition bnd :: "'a prog \<Rightarrow> ('a \<Rightarrow> 'b prog) \<Rightarrow> 'b prog" where
  "bnd m f st =
     (case m st of
        (Returned x, st', es) \<Rightarrow> (case f x st' of (r, st'', es') \<Rightarrow> (r, st'', es @ es'))
      | (Threw e, st', es) \<Rightarrow> (Threw e, st', es))"

text \<open>\<^verbatim>\<open>try { m } catch (error) { h (error.message) }\<close>\<close>

definition try_catch :: "'a prog \<Rightarrow> (string \<Rightarrow> 'a prog) \<Rightarrow> 'a prog" where
  "try_catch m h st =
     (case m st of
        (Returned x, st', es) \<Rightarrow> (Returned x, st', es)
      | (Threw e, st', es) \<Rightarrow> (case h e st' of (r, st'', es') \<Rightarrow> (r, st'', es @ es')))"

definition result_of :: "'a outcome \<times> store \<times> event list \<Rightarrow> 'a outcome" where
  "result_of run = fst run"

definition store_of :: "'a outcome \<times> store \<times> event list \<Rightarrow> store" where
  "store_of run = fst (snd run)"

definition trace_of :: "'a outcome \<times> store \<times> event list \<Rightarrow> event list" where
  "trace_of run = snd (snd run)"

definition log :: "string \<Rightarrow> unit prog" where
  "log line = emit (Log line)"

definition click :: "surface \<Rightarrow> click_target \<Rightarrow> unit outcome \<Rightarrow> unit prog" where
  "click s t r = bnd (emit (Click s t)) (\<lambda>_. await r)"

definition arm :: "observer \<Rightarrow> surface \<Rightarrow> unit prog" where
  "arm ob s = emit (Armed ob s)"

text \<open>
  \<^verbatim>\<open>context.close()\<close> is taken to resolve (the driver resolves it also for a context
  that is already closed).
\<close>

definition close_context :: "unit prog" where
  "close_context = emit ContextClosed"

definition new_context :: "unit outcome \<Rightarrow> unit prog" where
  "new_context r = bnd (await r) (\<lambda>_. emit ContextOpened)"

definition notify_list_changed :: "unit prog" where
  "notify_list_changed = emit Notified"

text \<open>The auxiliary contexts a trace leaves open: opened and not closed.\<close>

definition open_contexts :: "event list \<Rightarrow> nat" where
  "open_contexts es = length (filter (\<lambda>e. e = ContextOpened) es) - length (filter (\<lambda>e. e = ContextClosed) es)"

definition is_click :: "event \<Rightarrow> bool" where
  "is_click e = (case e of Click _ _ \<Rightarrow> True | _ \<Rightarrow> False)"


section \<open>Tool results and arguments\<close>

datatype content_item = TextContent string | ImageContent string string

record CallToolResult =
  content :: "content_item list"
  isError :: bool

definition text_result :: "string \<Rightarrow> bool \<Rightarrow> CallToolResult" where
  "text_result t e = \<lparr>content = [TextContent t], isError = e\<rparr>"

text \<open>
  The argument bag \<^verbatim>\<open>args: any\<close>. The fields the tool schemas require are strings;
  the optional ones are \<open>None\<close> when absent. \<^verbatim>\<open>args.x || d\<close> takes the default also
  for a falsy value (the empty string, the number 0).
\<close>

record tool_args =
  arg_url :: string
  arg_name :: string
  arg_selector :: "string option"
  arg_fullPage :: "string option"
  arg_text :: string
  arg_value :: string
  arg_script :: string
  arg_buttonText :: string
  arg_fileName :: string
  arg_waitTime :: "nat option"
  arg_fileTypes :: "string option"
  arg_closeNewTabs :: "bool option"
  arg_blockWindowOpen :: "bool option"

definition or_default_str :: "string option \<Rightarrow> string \<Rightarrow> string" where
  "or_default_str v d = (case v of None \<Rightarrow> d | Some s \<Rightarrow> if s = [] then d else s)"

definition or_default_nat :: "nat option \<Rightarrow> nat \<Rightarrow> nat" where
  "or_default_nat v d = (case v of None \<Rightarrow> d | Some n \<Rightarrow> if n = 0 then d else n)"

text \<open>An optional argument inside a template literal: \<^verbatim>\<open>`${args.x}`\<close>.\<close>

definition show_opt :: "string option \<Rightarrow> string" where
  "show_opt v = (case v of None \<Rightarrow> ''undefined'' | Some s \<Rightarrow> s)"

text \<open>\<^verbatim>\<open>args.flag !== false\<close>\<close>

definition not_false :: "bool option \<Rightarrow> bool" where
  "not_false v = (v \<noteq> Some False)"

section \<open>The element actions: click, fill, select, hover\<close>

text \<open>
  The environment of an element action: the outcome of the action on the locator as given
  (strict: the driver rejects it when the locator matches more than one element) and the
  outcome of the same action on \<^verbatim>\<open>.first()\<close>.
\<close>

record act_env =
  act_all :: "unit outcome"
  act_first :: "unit outcome"

definition BrowserClick :: "act_env \<Rightarrow> tool_args \<Rightarrow> CallToolResult prog" where
  "BrowserClick env args =
     try_catch
       (bnd (click Primary AllMatches (act_all env)) (\<lambda>_.
        ret (text_result (''Clicked: '' @ show_opt (arg_selector args)) False)))
       (\<lambda>error.
          if str_includes error ''strict mode violation''
          then try_catch
                 (bnd (click Primary FirstMatch (act_first env)) (\<lambda>_.
                  ret (text_result (''Clicked: '' @ show_opt (arg_selector args)) False)))
                 (\<lambda>error. ret (text_result
                    (''Failed (twice) to click '' @ show_opt (arg_selector args) @ '': '' @ error)
                    True))
          else ret (text_result
                 (''Failed to click '' @ show_opt (arg_selector args) @ '': '' @ error) True))"

definition BrowserClickText :: "act_env \<Rightarrow> tool_args \<Rightarrow> CallToolResult prog" where
  "BrowserClickText env args =
     try_catch
       (bnd (click Primary AllMatches (act_all env)) (\<lambda>_.
        ret (text_result (''Clicked element with text: '' @ arg_text args) False)))
       (\<lambda>error.
          if str_includes error ''strict mode violation''
          then try_catch
                 (bnd (click Primary FirstMatch (act_first env)) (\<lambda>_.
                  ret (text_result (''Clicked element with text: '' @ arg_text args) False)))
                 (\<lambda>error. ret (text_result
                    (''Failed (twice) to click element with text '' @ arg_text args @ '': ''
                      @ error)
                    True))
          else ret (text_result
                 (''Failed to click element with text '' @ arg_text args @ '': '' @ error)
                 True))"

text \<open>
  The six other element actions have the same shape; they press keys, select or hover, so
  they record no \<open>Click\<close>.
\<close>

definition BrowserFill :: "act_env \<Rightarrow> tool_args \<Rightarrow> CallToolResult prog" where
  "BrowserFill env args =
     try_catch
       (bnd (await (act_all env)) (\<lambda>_.
        ret (text_result
              (''Filled '' @ show_opt (arg_selector args) @ '' with: '' @ arg_value args) False)))
       (\<lambda>error.
          if str_includes error ''strict mode violation''
          then try_catch
                 (bnd (await (act_first env)) (\<lambda>_.
                  ret (text_result
                        (''Filled '' @ show_opt (arg_selector args) @ '' with: '' @ arg_value args)
                        False)))
                 (\<lambda>error. ret (text_result
                    (''Failed (twice) to fill '' @ show_opt (arg_selector args) @ '': '' @ error)
                    True))
          else ret (text_result
                 (''Failed to fill '' @ show_opt (arg_selector args) @ '': '' @ error) True))"

definition BrowserSelect :: "act_env \<Rightarrow> tool_args \<Rightarrow> CallToolResult prog" where
  "BrowserSelect env args =
     try_catch
       (bnd (await (act_all env)) (\<lambda>_.
        ret (text_result
              (''Selected '' @ show_opt (arg_selector args) @ '' with: '' @ arg_value args)
              False)))
       (\<lambda>error.
          if str_includes error ''strict mode violation''
          then try_catch
                 (bnd (await (act_first env)) (\<lambda>_.
                  ret (text_result
                        (''Selected '' @ show_opt (arg_selector args) @ '' with: ''
                          @ arg_value args)
                        False)))
                 (\<lambda>error. ret (text_result
                    (''Failed (twice) to select '' @ show_opt (arg_selector args) @ '': '' @ error)
                    True))
          else ret (text_result
                 (''Failed to select '' @ show_opt (arg_selector args) @ '': '' @ error) True))"

definition BrowserSelectText :: "act_env \<Rightarrow> tool_args \<Rightarrow> CallToolResult prog" where
  "BrowserSelectText env args =
     try_catch
       (bnd (await (act_all env)) (\<lambda>_.
        ret (text_result
              (''Selected element with text '' @ arg_text args @ '' with value: ''
                @ arg_value args)
              False)))
       (\<lambda>error.
          if str_includes error ''strict mode violation''
          then try_catch
                 (bnd (await (act_first env)) (\<lambda>_.
                  ret (text_result
                        (''Selected element with text '' @ arg_text args @ '' with value: ''
                          @ arg_value args)
                        False)))
                 (\<lambda>error. ret (text_result
                    (''Failed (twice) to select element with text '' @ arg_text args @ '': ''
                      @ error)
                    True))
          else ret (text_result
                 (''Failed to select element with text '' @ arg_text args @ '': '' @ error)
                 True))"

definition BrowserHover :: "act_env \<Rightarrow> tool_args \<Rightarrow> CallToolResult prog" where
  "BrowserHover env args =
     try_catch
       (bnd (await (act_all env)) (\<lambda>_.
        ret (text_result (''Hovered '' @ show_opt (arg_selector args)) False)))
       (\<lambda>error.
          if str_includes error ''strict mode violation''
          then try_catch
                 (bnd (await (act_first env)) (\<lambda>_.
                  ret (text_result (''Hovered '' @ show_opt (arg_selector args)) False)))
                 (\<lambda>error. ret (text_result
                    (''Failed to hover '' @ show_opt (arg_selector args) @ '': '' @ error) True))
          else ret (text_result
                 (''Failed to hover '' @ show_opt (arg_selector args) @ '': '' @ error) True))"

definition BrowserHoverText :: "act_env \<Rightarrow> tool_args \<Rightarrow> CallToolResult prog" where
  "BrowserHoverText env args =
     try_catch
       (bnd (await (act_all env)) (\<lambda>_.
        ret (text_result (''Hovered element with text: '' @ arg_text args) False)))
       (\<lambda>error.
          if str_includes error ''strict mode violation''
          then try_catch
                 (bnd (await (act_first env)) (\<lambda>_.
                  ret (text_result (''Hovered element with text: '' @ arg_text args) False)))
                 (\<lambda>error. ret (text_result
                    (''Failed (twice) to hover element with text '' @ arg_text args @ '': ''
                      @ error)
                    True))
          else ret (text_result
                 (''Failed to hover element with text '' @ arg_text args @ '': '' @ error)
                 True))"

section \<open>Navigate, screenshot, evaluate\<close>

text \<open>
  \<^verbatim>\<open>BrowserNavigate\<close> and \<^verbatim>\<open>BrowserScreenshot\<close> have no \<^verbatim>\<open>try\<close> around their
  awaits: a rejection of \<^verbatim>\<open>page.goto\<close> or of \<^verbatim>\<open>screenshot()\<close> leaves the handler
  as an exception.
\<close>

definition BrowserNavigate :: "unit outcome \<Rightarrow> tool_args \<Rightarrow> CallToolResult prog" where
  "BrowserNavigate goto args =
     bnd (await goto) (\<lambda>_. ret (text_result (''Navigated to '' @ arg_url args) False))"

text \<open>The environment gives the screenshot already as its base64 text.\<close>

definition BrowserScreenshot :: "string outcome \<Rightarrow> tool_args \<Rightarrow> CallToolResult prog" where
  "BrowserScreenshot shot args =
     bnd (await shot) (\<lambda>base64Screenshot.
       if base64Screenshot = []
       then ret (text_result
              (if or_default_str (arg_selector args) [] \<noteq> []
               then ''Element not found: '' @ show_opt (arg_selector args)
               else ''Screenshot failed'')
              True)
       else bnd (modify (save_bytes_only (arg_name args) base64Screenshot)) (\<lambda>_.
            bnd notify_list_changed (\<lambda>_.
            ret \<lparr>content = [TextContent (''Screenshot '' @ [CHR 0x27] @ arg_name args
                                  @ [CHR 0x27] @ '' taken''),
                             ImageContent base64Screenshot ''image/png''],
                  isError = False\<rparr>)))"

text \<open>
  \<^verbatim>\<open>BrowserEvaluate\<close>: the environment gives the outcome of running the script in the
  page: the \<^verbatim>\<open>JSON.stringify\<close> text of the result and the console lines collected.
\<close>

definition BrowserEvaluate ::
  "(string \<times> string list) outcome \<Rightarrow> tool_args \<Rightarrow> CallToolResult prog" where
  "BrowserEvaluate evaluated args =
     try_catch
       (bnd (await evaluated) (\<lambda>(result, logs).
        ret (text_result
              (''Execution result:'' @ [CHR 0x0A] @ result @ [CHR 0x0A, CHR 0x0A]
                @ ''Console output:'' @ [CHR 0x0A] @ join_lines logs)
              False)))
       (\<lambda>error. ret (text_result (''Script execution failed: '' @ error) True))"

section \<open>Blocks shared by the acquisition handlers\<close>

text \<open>
  The click block every acquisition handler that clicks by selector repeats:
  \<^verbatim>\<open>try { await l.click() } catch (error) { if (error.message.includes("strict mode
  violation")) { await l.first().click() } else { throw error } }\<close>.
\<close>

definition click_or_first :: "surface \<Rightarrow> unit outcome \<Rightarrow> unit outcome \<Rightarrow> unit prog" where
  "click_or_first s c1 c2 =
     try_catch (click s AllMatches c1)
       (\<lambda>error. if str_includes error ''strict mode violation''
                 then click s FirstMatch c2
                 else throw error)"

text \<open>\<^verbatim>\<open>try { x = await call } catch { }\<close> with the value \<open>d\<close> kept on rejection.\<close>

definition await_or :: "'a outcome \<Rightarrow> 'a \<Rightarrow> 'a prog" where
  "await_or r d = try_catch (await r) (\<lambda>_. ret d)"

text \<open>
  The URL tests. A payload or a URL that may be \<^verbatim>\<open>null\<close> is a string here, with the
  empty string for \<^verbatim>\<open>null\<close>: the handlers only test such values for truthiness.
\<close>

definition is_pdf_url :: "string \<Rightarrow> bool" where
  "is_pdf_url u =
     (endsWith (toLowerCase u) ''.pdf'' \<or> str_includes (toLowerCase u) ''.pdf?''
      \<or> str_includes (toLowerCase u) ''/pdf/'')"

text \<open>
  The download tail the handlers share: \<^verbatim>\<open>download.path()\<close>, the test for a
  \<^verbatim>\<open>null\<close> path, \<^verbatim>\<open>fs.readFile(path)\<close> and the base64 text of the buffer.
\<close>

definition read_download :: "string option outcome \<Rightarrow> string outcome \<Rightarrow> string prog" where
  "read_download path readFile =
     bnd (await path) (\<lambda>p.
       case p of
         None \<Rightarrow> throw ''Download path is null''
       | Some path \<Rightarrow>
           if path = [] then throw ''Download path is null'' else await readFile)"

section \<open>BrowserClickAndCapture\<close>

record cc_env =
  cc_startUrl :: string
  cc_initialPages :: nat
  cc_click :: "unit outcome"
  cc_click_first :: "unit outcome"
  cc_newPage :: "(unit outcome \<times> string) option"
  cc_settle :: "unit outcome"
  cc_currentUrl :: string
  cc_finalPages :: nat
  cc_lastPage :: "unit outcome \<times> string"

text \<open>
  \<open>cc_newPage\<close>: what \<^verbatim>\<open>pagePromise\<close> resolves to, \<open>None\<close> for \<^verbatim>\<open>null\<close> (the
  timer won), otherwise the new page, given by the outcome of its
  \<^verbatim>\<open>waitForLoadState\<close> and its URL. \<open>cc_lastPage\<close>: the same for the last page of the
  context.
\<close>

definition BrowserClickAndCapture :: "cc_env \<Rightarrow> tool_args \<Rightarrow> CallToolResult prog" where
  "BrowserClickAndCapture env args =
     try_catch
       (bnd (arm NewPageListener Primary) (\<lambda>_.
        bnd (click_or_first Primary (cc_click env) (cc_click_first env)) (\<lambda>_.
        case cc_newPage env of
          Some (load, newUrl) \<Rightarrow>
            bnd (await load) (\<lambda>_.
            ret (text_result
                  (''Button clicked successfully. Redirected to new tab with URL: '' @ newUrl)
                  False))
        | None \<Rightarrow>
            bnd (await (cc_settle env)) (\<lambda>_.
            if cc_currentUrl env \<noteq> cc_startUrl env
            then ret (text_result
                   (''Button clicked successfully. Page redirected to: '' @ cc_currentUrl env)
                   False)
            else if cc_finalPages env > cc_initialPages env
            then bnd (await (fst (cc_lastPage env))) (\<lambda>_.
                 ret (text_result
                       (''Button clicked successfully. New tab detected with URL: ''
                         @ snd (cc_lastPage env))
                       False))
            else ret (text_result
                   (''Button clicked successfully, but no redirection was detected. Current URL: ''
                     @ cc_currentUrl env)
                   False)))))
       (\<lambda>error. ret (text_result
          (''Failed to click button or capture redirect: '' @ error) True))"

section \<open>BrowserDownloadPDF\<close>

record dp_env =
  dp_click :: "unit outcome"
  dp_click_first :: "unit outcome"
  dp_newPage :: bool
  dp_url :: string
  dp_networkidle :: "unit outcome"
  dp_closed1 :: bool
  dp_isPDF :: "bool outcome"
  dp_closed2 :: bool
  dp_contentType :: "string outcome"
  dp_closed3 :: bool
  dp_screenshot :: "string outcome"
  dp_closed4 :: bool
  dp_pdfBytes :: "string outcome"
  dp_newContext :: "unit outcome"
  dp_ctx_newPage :: "unit outcome"
  dp_ctx_goto :: "unit outcome"
  dp_emulateMedia :: "unit outcome"
  dp_download :: "unit outcome"
  dp_path :: "string option outcome"
  dp_readFile :: "string outcome"
  dp_closed5 :: bool
  dp_close_page :: "unit outcome"

text \<open>
  \<open>dp_newPage\<close>: whether \<^verbatim>\<open>pagePromise\<close> resolved to a page. \<open>dp_closed1\<close> to
  \<open>dp_closed5\<close> are the answers of \<^verbatim>\<open>newPage.isClosed()\<close> at its five call sites, in
  source order.
\<close>

text \<open>
  The fallback of \<^verbatim>\<open>BrowserDownloadPDF\<close>: a separate context, closed on the way out of
  both the \<^verbatim>\<open>try\<close> and the \<^verbatim>\<open>catch\<close>.
\<close>

definition dp_direct_download :: "dp_env \<Rightarrow> string prog" where
  "dp_direct_download env =
     bnd (new_context (dp_newContext env)) (\<lambda>_.
     try_catch
       (bnd (await (dp_ctx_newPage env)) (\<lambda>_.
        bnd (await (dp_ctx_goto env)) (\<lambda>_.
        bnd (arm DownloadWait Auxiliary) (\<lambda>_.
        bnd (await (dp_emulateMedia env)) (\<lambda>_.
        bnd (await (dp_download env)) (\<lambda>_.
        bnd (read_download (dp_path env) (dp_readFile env)) (\<lambda>pdfBytes.
        bnd close_context (\<lambda>_.
        ret pdfBytes))))))))
       (\<lambda>downloadErr.
          bnd close_context (\<lambda>_. throw (''Direct download failed: '' @ downloadErr))))"

text \<open>
  The inner \<^verbatim>\<open>try\<close> of the handler either returns from the handler (\<open>Inl\<close> of the
  result) or goes on with the PDF payload (\<open>Inr\<close>).
\<close>

definition dp_process :: "dp_env \<Rightarrow> tool_args \<Rightarrow> (CallToolResult + string) prog" where
  "dp_process env args =
     bnd (await_or (dp_networkidle env) ()) (\<lambda>_.
     bnd (if \<not> endsWith (toLowerCase (dp_url env)) ''.pdf'' \<and> \<not> dp_closed1 env
          then await_or (dp_isPDF env) False
          else ret (endsWith (toLowerCase (dp_url env)) ''.pdf'')) (\<lambda>isPDF.
     if \<not> isPDF
     then bnd (if \<not> dp_closed2 env then await_or (dp_contentType env) ''unknown''
               else ret ''unknown'') (\<lambda>contentType.
          bnd (if \<not> dp_closed3 env
               then try_catch
                      (bnd (await (dp_screenshot env)) (\<lambda>screenshot.
                       bnd (modify (save_bytes_only (arg_fileName args @ ''_not_pdf'') screenshot))
                         (\<lambda>_. notify_list_changed)))
                      (\<lambda>_. ret ())
               else ret ()) (\<lambda>_.
          ret (Inl (text_result
                 (''The new tab did not contain a PDF. URL: '' @ dp_url env
                   @ '', Content-Type: '' @ contentType)
                 True))))
     else if dp_closed4 env
     then throw ''Page was closed before PDF could be captured''
     else bnd (try_catch (await (dp_pdfBytes env)) (\<lambda>_. dp_direct_download env))
            (\<lambda>pdfBytes. ret (Inr pdfBytes))))"

definition BrowserDownloadPDF :: "dp_env \<Rightarrow> tool_args \<Rightarrow> CallToolResult prog" where
  "BrowserDownloadPDF env args =
     try_catch
       (bnd (arm NewPageListener Primary) (\<lambda>_.
        bnd (click_or_first Primary (dp_click env) (dp_click_first env)) (\<lambda>_.
        if \<not> dp_newPage env
        then ret (text_result
               (''Timeout or error waiting for PDF to load in new tab after clicking ''
                 @ [CHR 0x22] @ arg_buttonText args @ [CHR 0x22])
               True)
        else bnd (try_catch (dp_process env args)
                    (\<lambda>err. ret (Inl (text_result (''Error processing PDF: '' @ err) True))))
               (\<lambda>processed.
                  case processed of
                    Inl early \<Rightarrow> ret early
                  | Inr pdfBytes \<Rightarrow>
                      bnd (if \<not> dp_closed5 env then await_or (dp_close_page env) () else ret ())
                        (\<lambda>_.
                      if pdfBytes = []
                      then ret (text_result
                             (''Failed to capture PDF content from '' @ dp_url env) True)
                      else bnd (modify (save_bytes_only (arg_fileName args) pdfBytes)) (\<lambda>_.
                           bnd notify_list_changed (\<lambda>_.
                           ret (text_result
                                 (''Successfully downloaded PDF '' @ [CHR 0x22]
                                   @ arg_fileName args @ [CHR 0x22] @ '' from '' @ dp_url env)
                                 False))))))))
       (\<lambda>error. ret (text_result (''Failed to download PDF: '' @ error) True))"

section \<open>BrowserForceDownload\<close>

text \<open>\<^verbatim>\<open>t.trim()\<close>, on the ASCII white space.\<close>

definition is_space :: "char \<Rightarrow> bool" where
  "is_space c = (c \<in> set [CHR '' '', CHR 0x09, CHR 0x0A, CHR 0x0B, CHR 0x0C, CHR 0x0D])"

definition trim :: "string \<Rightarrow> string" where
  "trim s = rev (dropWhile is_space (rev (dropWhile is_space s)))"

text \<open>
  \<^verbatim>\<open>(args.fileTypes || 'pdf,doc,docx,xls,xlsx,ppt,pptx,zip').split(',').map(t => t.trim())\<close>
\<close>

definition fileTypes_of :: "tool_args \<Rightarrow> string list" where
  "fileTypes_of args =
     map trim
       (js_split (or_default_str (arg_fileTypes args) ''pdf,doc,docx,xls,xlsx,ppt,pptx,zip'')
          '','')"

record fd_env =
  fd_newContext :: "unit outcome"
  fd_newPage :: "unit outcome"
  fd_goto :: "unit outcome"
  fd_requestUrls :: "string list"
  fd_click :: "unit outcome"
  fd_click_first :: "unit outcome"
  fd_download :: "string option"
  fd_path :: "string option outcome"
  fd_readFile :: "string outcome"
  fd_pages :: nat
  fd_np_load :: "unit outcome"
  fd_np_url :: string
  fd_fetch :: "string outcome"
  fd_isPDF :: "bool outcome"
  fd_pdfBytes :: "string outcome"
  fd_filePage :: "unit outcome"
  fd_fileGoto :: "unit outcome"
  fd_fileContent :: "(string \<times> string) outcome"

text \<open>
  \<open>fd_download\<close>: the suggested file name of the download the armed wait delivers, \<open>None\<close>
  when the wait is rejected (the handler catches that and goes on with \<^verbatim>\<open>null\<close>).
  \<open>fd_requestUrls\<close>: the URLs the request listener has collected. \<open>fd_pages\<close>:
  \<^verbatim>\<open>context.pages().length\<close>. \<open>fd_fileContent\<close>: the payload and the blob type fetched
  from the file page.
\<close>

text \<open>Each strategy yields \<open>Some\<close> of the result the handler returns, or \<open>None\<close> to go on.\<close>

definition fd_strategy1 :: "fd_env \<Rightarrow> tool_args \<Rightarrow> CallToolResult option prog" where
  "fd_strategy1 env args =
     (case fd_download env of
        None \<Rightarrow> ret None
      | Some suggestedName \<Rightarrow>
          try_catch
            (bnd (read_download (fd_path env) (fd_readFile env)) (\<lambda>fileBytes.
             bnd (modify (save_artifact (arg_fileName args) fileBytes
                            (download_mime suggestedName))) (\<lambda>_.
             bnd notify_list_changed (\<lambda>_.
             bnd close_context (\<lambda>_.
             ret (Some (text_result
                    (''Successfully downloaded file '' @ [CHR 0x22] @ arg_fileName args
                      @ [CHR 0x22] @ '' (original name: '' @ suggestedName @ '')'')
                    False)))))))
            (\<lambda>_. ret None))"

definition fd_strategy2 :: "fd_env \<Rightarrow> tool_args \<Rightarrow> CallToolResult option prog" where
  "fd_strategy2 env args =
     (if fd_pages env > 1
      then try_catch
        (bnd (await (fd_np_load env)) (\<lambda>_.
         if list_ex (\<lambda>type. endsWith (toLowerCase (fd_np_url env)) (''.'' @ type))
              (fileTypes_of args)
         then bnd (await (fd_fetch env)) (\<lambda>response.
              bnd (modify (save_artifact (arg_fileName args) response
                             (mime_of_extension (extension_of (fd_np_url env))))) (\<lambda>_.
              bnd notify_list_changed (\<lambda>_.
              bnd close_context (\<lambda>_.
              ret (Some (text_result
                     (''Successfully downloaded file '' @ [CHR 0x22] @ arg_fileName args
                       @ [CHR 0x22] @ '' from URL: '' @ fd_np_url env)
                     False))))))
         else bnd (await_or (fd_isPDF env) False) (\<lambda>isPDF.
              if isPDF
              then bnd (await (fd_pdfBytes env)) (\<lambda>pdfBytes.
                   bnd (modify (save_artifact (arg_fileName args) pdfBytes ''application/pdf''))
                     (\<lambda>_.
                   bnd notify_list_changed (\<lambda>_.
                   bnd close_context (\<lambda>_.
                   ret (Some (text_result
                          (''Successfully downloaded PDF '' @ [CHR 0x22] @ arg_fileName args
                            @ [CHR 0x22] @ '' from URL: '' @ fd_np_url env)
                          False))))))
              else ret None)))
        (\<lambda>_. ret None)
      else ret None)"

definition fd_fileRequests :: "fd_env \<Rightarrow> tool_args \<Rightarrow> string list" where
  "fd_fileRequests env args =
     filter (\<lambda>url. list_ex (\<lambda>type. str_includes (toLowerCase url) (''.'' @ type))
                      (fileTypes_of args))
       (fd_requestUrls env)"

definition fd_strategy3 :: "fd_env \<Rightarrow> tool_args \<Rightarrow> CallToolResult option prog" where
  "fd_strategy3 env args =
     (if fd_fileRequests env args \<noteq> []
      then try_catch
        (bnd (await (fd_filePage env)) (\<lambda>_.
         bnd (await (fd_fileGoto env)) (\<lambda>_.
         bnd (await (fd_fileContent env)) (\<lambda>(data, type).
         bnd (modify (save_artifact (arg_fileName args) data
                        (if type = [] then ''application/octet-stream'' else type))) (\<lambda>_.
         bnd notify_list_changed (\<lambda>_.
         bnd close_context (\<lambda>_.
         ret (Some (text_result
                (''Successfully downloaded file '' @ [CHR 0x22] @ arg_fileName args
                  @ [CHR 0x22] @ '' from URL: '' @ last (fd_fileRequests env args))
                False)))))))))
        (\<lambda>_. ret None)
      else ret None)"

text \<open>\<^verbatim>\<open>`${n}`\<close> for a length: the decimal digits.\<close>

fun show_nat :: "nat \<Rightarrow> string" where
  "show_nat n =
     (if n < 10 then [''0123456789'' ! n]
      else show_nat (n div 10) @ [''0123456789'' ! (n mod 10)])"

declare show_nat.simps [simp del]

definition BrowserForceDownload :: "fd_env \<Rightarrow> tool_args \<Rightarrow> CallToolResult prog" where
  "BrowserForceDownload env args =
     try_catch
       (bnd (new_context (fd_newContext env)) (\<lambda>_.
        bnd (await (fd_newPage env)) (\<lambda>_.
        bnd (await (fd_goto env)) (\<lambda>_.
        bnd (arm RequestListener Auxiliary) (\<lambda>_.
        bnd (arm DownloadWait Auxiliary) (\<lambda>_.
        bnd (try_catch (click Auxiliary AllMatches (fd_click env))
               (\<lambda>error. if str_includes error ''strict mode violation''
                         then click Auxiliary FirstMatch (fd_click_first env)
                         else bnd close_context (\<lambda>_. throw error))) (\<lambda>_.
        bnd (fd_strategy1 env args) (\<lambda>r1.
          case r1 of
            Some result \<Rightarrow> ret result
          | None \<Rightarrow>
        bnd (fd_strategy2 env args) (\<lambda>r2.
          case r2 of
            Some result \<Rightarrow> ret result
          | None \<Rightarrow>
        bnd (fd_strategy3 env args) (\<lambda>r3.
          case r3 of
            Some result \<Rightarrow> ret result
          | None \<Rightarrow>
        bnd close_context (\<lambda>_.
        ret (text_result
              (''Failed to download file. No file download was detected after clicking ''
                @ [CHR 0x22] @ arg_buttonText args @ [CHR 0x22] @ ''. Requests captured: ''
                @ show_nat (length (fd_requestUrls env)))
              True))))))))))))
       (\<lambda>error. ret (text_result (''Failed to force download: '' @ error) True))"

section \<open>BrowserAuthenticatedDownload\<close>

record ad_env =
  ad_currentUrl :: string
  ad_cookies :: "unit outcome"
  ad_beforeLinks :: "string list outcome"
  ad_click :: "unit outcome"
  ad_click_first :: "unit outcome"
  ad_settle :: "unit outcome"
  ad_responseUrls :: "string list"
  ad_newPage :: bool
  ad_np_url :: string
  ad_np_contentType :: "string outcome"
  ad_np_hasEmbed :: "bool outcome"
  ad_np_pdfBytes :: "string outcome"
  ad_pageUrlAfter :: string
  ad_afterLinks :: "string list outcome"
  ad_newContext :: "unit outcome"
  ad_addCookies :: "unit outcome"
  ad_ctx_newPage :: "unit outcome"
  ad_goto :: "unit outcome"
  ad_extract :: "string outcome"
  ad_bodyClick :: "unit outcome"
  ad_download :: "unit outcome"
  ad_path :: "string option outcome"
  ad_readFile :: "string outcome"
  ad_np_closed :: bool
  ad_np_close :: "unit outcome"

text \<open>
  \<open>ad_responseUrls\<close>: the URLs the response listener collected before it was removed.
  \<open>ad_newPage\<close>: whether \<^verbatim>\<open>newPagePromise\<close> resolved to a page.
\<close>

text \<open>
  Strategy 1: the new page. The result is the pair \<^verbatim>\<open>(pdfBytes, foundPdfUrl)\<close>. Every
  await in it has its own \<^verbatim>\<open>.catch\<close> or \<^verbatim>\<open>try\<close>.
\<close>

definition ad_new_page :: "ad_env \<Rightarrow> (string \<times> string) prog" where
  "ad_new_page env =
     (if ad_newPage env
      then bnd (if endsWith (toLowerCase (ad_np_url env)) ''.pdf''
                then ret (ad_np_url env)
                else bnd (await_or (ad_np_contentType env) ''unknown'') (\<lambda>contentType.
                     if contentType = ''application/pdf''
                     then ret (ad_np_url env)
                     else bnd (await_or (ad_np_hasEmbed env) False) (\<lambda>hasPdfEmbed.
                          ret (if hasPdfEmbed then ad_np_url env else [])))) (\<lambda>foundPdfUrl.
           if foundPdfUrl \<noteq> []
           then bnd (await_or (ad_np_pdfBytes env) []) (\<lambda>pdfBytes. ret (pdfBytes, foundPdfUrl))
           else ret ([], foundPdfUrl))
      else ret ([], []))"

text \<open>Strategies 2 to 4: each runs only while there is neither a payload nor a URL.\<close>

definition ad_url_changed :: "ad_env \<Rightarrow> string \<times> string \<Rightarrow> string \<times> string" where
  "ad_url_changed env found =
     (if fst found = [] \<and> snd found = []
         \<and> ad_pageUrlAfter env \<noteq> ad_currentUrl env
         \<and> endsWith (toLowerCase (ad_pageUrlAfter env)) ''.pdf''
      then ([], ad_pageUrlAfter env)
      else found)"

definition ad_from_responses :: "ad_env \<Rightarrow> string \<times> string \<Rightarrow> string \<times> string" where
  "ad_from_responses env found =
     (if fst found = [] \<and> snd found = [] \<and> filter is_pdf_url (ad_responseUrls env) \<noteq> []
      then ([], last (filter is_pdf_url (ad_responseUrls env)))
      else found)"

definition ad_from_links ::
  "ad_env \<Rightarrow> string list \<Rightarrow> string \<times> string \<Rightarrow> (string \<times> string) prog" where
  "ad_from_links env beforeLinks found =
     (if fst found = [] \<and> snd found = []
      then bnd (await (ad_afterLinks env)) (\<lambda>afterLinks.
           case filter is_pdf_url (filter (\<lambda>link. link \<notin> set beforeLinks) afterLinks) of
             [] \<Rightarrow> ret found
           | pdfLink # _ \<Rightarrow> ret ([], pdfLink))
      else ret found)"

text \<open>
  The authenticated copy of the session: a new context seeded with the cookies. The cookies
  and the page are set up before the \<^verbatim>\<open>try\<close> that closes the context.
\<close>

definition ad_clone_download :: "ad_env \<Rightarrow> string prog" where
  "ad_clone_download env =
     bnd (new_context (ad_newContext env)) (\<lambda>_.
     bnd (await (ad_addCookies env)) (\<lambda>_.
     bnd (await (ad_ctx_newPage env)) (\<lambda>_.
     try_catch
       (bnd (await (ad_goto env)) (\<lambda>_.
        bnd (await_or (ad_extract env) []) (\<lambda>extracted.
        bnd (if extracted = []
             then try_catch
                    (bnd (arm DownloadWait Auxiliary) (\<lambda>_.
                     bnd (click Auxiliary Body (ad_bodyClick env)) (\<lambda>_.
                     bnd (await (ad_download env)) (\<lambda>_.
                     read_download (ad_path env) (ad_readFile env)))))
                    (\<lambda>_. ret extracted)
             else ret extracted) (\<lambda>pdfBytes.
        bnd close_context (\<lambda>_.
        ret pdfBytes)))))
       (\<lambda>_. bnd close_context (\<lambda>_. ret [])))))"

definition BrowserAuthenticatedDownload :: "ad_env \<Rightarrow> tool_args \<Rightarrow> CallToolResult prog" where
  "BrowserAuthenticatedDownload env args =
     try_catch
       (bnd (await (ad_cookies env)) (\<lambda>_.
        bnd (await (ad_beforeLinks env)) (\<lambda>beforeLinks.
        bnd (arm ResponseListener Primary) (\<lambda>_.
        bnd (arm NewPageListener Primary) (\<lambda>_.
        bnd (click_or_first Primary (ad_click env) (ad_click_first env)) (\<lambda>_.
        bnd (await (ad_settle env)) (\<lambda>_.
        bnd (ad_new_page env) (\<lambda>found1.
        bnd (ad_from_links env beforeLinks
               (ad_from_responses env (ad_url_changed env found1))) (\<lambda>(pdfBytes0, foundPdfUrl).
        bnd (if foundPdfUrl \<noteq> [] \<and> pdfBytes0 = []
             then ad_clone_download env
             else ret pdfBytes0) (\<lambda>pdfBytes.
        bnd (if not_false (arg_closeNewTabs args) \<and> ad_newPage env \<and> \<not> ad_np_closed env
             then await_or (ad_np_close env) ()
             else ret ()) (\<lambda>_.
        if pdfBytes \<noteq> []
        then bnd (modify (save_artifact (arg_fileName args) pdfBytes ''application/pdf'')) (\<lambda>_.
             bnd notify_list_changed (\<lambda>_.
             ret (text_result
                   (if foundPdfUrl \<noteq> []
                    then ''Successfully downloaded PDF '' @ [CHR 0x22] @ arg_fileName args
                           @ [CHR 0x22] @ '' from '' @ foundPdfUrl
                    else ''Successfully downloaded PDF '' @ [CHR 0x22] @ arg_fileName args
                           @ [CHR 0x22])
                   False)))
        else if foundPdfUrl \<noteq> []
        then ret (text_result
               (''Found PDF URL but couldn'' @ [CHR 0x27]
                 @ ''t download automatically. Manual download URL: '' @ foundPdfUrl)
               True)
        else ret (text_result
               (''Failed to find or download PDF after clicking '' @ [CHR 0x22]
                 @ arg_buttonText args @ [CHR 0x22]
                 @ ''. No PDF content or link was detected.'')
               True))))))))))))
       (\<lambda>error. ret (text_result (''Error during authenticated download: '' @ error) True))"

section \<open>BrowserCaptureRequest\<close>

record request =
  rq_url :: string
  rq_resourceType :: string
  rq_method :: string

record response =
  rs_url :: string
  rs_status :: nat
  rs_headers :: "(string \<times> string) list"

text \<open>\<^verbatim>\<open>r.headers['content-type']?.toLowerCase().includes('pdf')\<close>\<close>

definition content_type_has_pdf :: "response \<Rightarrow> bool" where
  "content_type_has_pdf r =
     (case map_of (rs_headers r) ''content-type'' of
        None \<Rightarrow> False
      | Some ct \<Rightarrow> str_includes (toLowerCase ct) ''pdf'')"

text \<open>The filter of strategy 1 on the recorded responses.\<close>

definition is_pdf_response :: "response \<Rightarrow> bool" where
  "is_pdf_response r =
     (rs_status r \<ge> 200 \<and> rs_status r < 300 \<and>
      (content_type_has_pdf r
       \<or> endsWith (toLowerCase (rs_url r)) ''.pdf''
       \<or> str_includes (toLowerCase (rs_url r)) ''.pdf?''
       \<or> str_includes (toLowerCase (rs_url r)) ''/pdf/''))"

definition is_pdf_link :: "string \<Rightarrow> bool" where
  "is_pdf_link link =
     (endsWith (toLowerCase link) ''.pdf''
      \<or> str_includes (toLowerCase link) ''.pdf?''
      \<or> str_includes (toLowerCase link) ''/pdf/''
      \<or> str_includes (toLowerCase link) ''/download/'')"

definition is_potential_request :: "request \<Rightarrow> bool" where
  "is_potential_request r =
     ((rq_resourceType r = ''xhr'' \<or> rq_resourceType r = ''fetch'') \<and>
      (str_includes (toLowerCase (rq_url r)) ''pdf''
       \<or> str_includes (toLowerCase (rq_url r)) ''download''
       \<or> str_includes (toLowerCase (rq_url r)) ''export''
       \<or> str_includes (toLowerCase (rq_url r)) ''file''))"

record cr_env =
  cr_addInitScript :: "unit outcome"
  cr_beforeLinks :: "string list outcome"
  cr_click :: "unit outcome"
  cr_click_first :: "unit outcome"
  cr_wait :: "unit outcome"
  cr_responses :: "response list"
  cr_fetch_response :: "nat \<Rightarrow> string outcome"
  cr_afterLinks :: "string list outcome"
  cr_fetch_link :: "nat \<Rightarrow> string outcome"
  cr_requests :: "request list"
  cr_fetch_xhr :: "nat \<Rightarrow> string outcome"
  cr_responses_late :: "response list"

text \<open>
  \<open>cr_responses\<close> and \<open>cr_requests\<close>: what the two listeners have recorded when the
  handler filters them (\<open>cr_responses_late\<close>: the responses when strategy 3 looks one up).
  \<open>cr_fetch_response i\<close>, \<open>cr_fetch_link i\<close>, \<open>cr_fetch_xhr i\<close>: the outcome of the
  in-page fetch for the candidate at index \<open>i\<close> of its list; the payload is empty when the
  in-page code returned \<^verbatim>\<open>null\<close>.
\<close>

text \<open>
  The three candidate loops. Each takes the candidates with their indices, in the order
  the loop visits them, and yields \<open>Some\<close> of the result the handler returns or \<open>None\<close>
  when the list is exhausted.
\<close>

fun cr_try_responses ::
  "cr_env \<Rightarrow> tool_args \<Rightarrow> (nat \<times> response) list \<Rightarrow> CallToolResult option prog" where
  "cr_try_responses env args [] = ret None"
| "cr_try_responses env args (c # rest) =
     bnd (log (''Attempting to download PDF from response: '' @ rs_url (snd c))) (\<lambda>_.
     bnd (try_catch
            (bnd (await (cr_fetch_response env (fst c))) (\<lambda>pdfBytes.
             if pdfBytes \<noteq> []
             then bnd (log (''Successfully downloaded PDF from '' @ rs_url (snd c))) (\<lambda>_.
                  bnd (modify (save_artifact (arg_fileName args) pdfBytes ''application/pdf''))
                    (\<lambda>_.
                  bnd notify_list_changed (\<lambda>_.
                  ret (Some (text_result
                         (''Successfully downloaded PDF '' @ [CHR 0x22] @ arg_fileName args
                           @ [CHR 0x22] @ '' from network request to '' @ rs_url (snd c))
                         False)))))
             else ret None))
            (\<lambda>err. bnd (log (''Error downloading PDF from response: '' @ err)) (\<lambda>_. ret None)))
       (\<lambda>done. case done of
                  Some result \<Rightarrow> ret (Some result)
                | None \<Rightarrow> cr_try_responses env args rest))"

fun cr_try_links ::
  "cr_env \<Rightarrow> tool_args \<Rightarrow> (nat \<times> string) list \<Rightarrow> CallToolResult option prog" where
  "cr_try_links env args [] = ret None"
| "cr_try_links env args (c # rest) =
     bnd (log (''Attempting to download PDF from link: '' @ snd c)) (\<lambda>_.
     bnd (try_catch
            (bnd (await (cr_fetch_link env (fst c))) (\<lambda>pdfBytes.
             if pdfBytes \<noteq> []
             then bnd (log (''Successfully downloaded PDF from '' @ snd c)) (\<lambda>_.
                  bnd (modify (save_artifact (arg_fileName args) pdfBytes ''application/pdf''))
                    (\<lambda>_.
                  bnd notify_list_changed (\<lambda>_.
                  ret (Some (text_result
                         (''Successfully downloaded PDF '' @ [CHR 0x22] @ arg_fileName args
                           @ [CHR 0x22] @ '' from link: '' @ snd c)
                         False)))))
             else ret None))
            (\<lambda>err. bnd (log (''Error downloading PDF from link: '' @ err)) (\<lambda>_. ret None)))
       (\<lambda>done. case done of
                  Some result \<Rightarrow> ret (Some result)
                | None \<Rightarrow> cr_try_links env args rest))"

text \<open>The MIME type strategy 3 records for a payload fetched from a request URL.\<close>

definition cr_xhr_mime :: "cr_env \<Rightarrow> string \<Rightarrow> string" where
  "cr_xhr_mime env url =
     (case find (\<lambda>r. rs_url r = url) (cr_responses_late env) of
        None \<Rightarrow> if endsWith (toLowerCase url) ''.pdf'' then ''application/pdf''
                else ''application/octet-stream''
      | Some response \<Rightarrow>
          (case map_of (rs_headers response) ''content-type'' of
             None \<Rightarrow> if endsWith (toLowerCase url) ''.pdf'' then ''application/pdf''
                     else ''application/octet-stream''
           | Some ct \<Rightarrow>
               if ct \<noteq> [] then hd (js_split ct '';'')
               else if endsWith (toLowerCase url) ''.pdf'' then ''application/pdf''
               else ''application/octet-stream''))"

fun cr_try_requests ::
  "cr_env \<Rightarrow> tool_args \<Rightarrow> (nat \<times> request) list \<Rightarrow> CallToolResult option prog" where
  "cr_try_requests env args [] = ret None"
| "cr_try_requests env args (c # rest) =
     bnd (log (''Attempting to download from XHR request: '' @ rq_url (snd c))) (\<lambda>_.
     bnd (try_catch
            (bnd (await (cr_fetch_xhr env (fst c))) (\<lambda>pdfBytes.
             if pdfBytes \<noteq> []
             then bnd (log (''Successfully downloaded content from XHR request to ''
                             @ rq_url (snd c))) (\<lambda>_.
                  bnd (modify (save_artifact (arg_fileName args) pdfBytes
                                 (cr_xhr_mime env (rq_url (snd c))))) (\<lambda>_.
                  bnd notify_list_changed (\<lambda>_.
                  ret (Some (text_result
                         (''Successfully downloaded file '' @ [CHR 0x22] @ arg_fileName args
                           @ [CHR 0x22] @ '' (type: '' @ cr_xhr_mime env (rq_url (snd c))
                           @ '') from XHR request to '' @ rq_url (snd c))
                         False)))))
             else ret None))
            (\<lambda>err. bnd (log (''Error downloading from XHR request: '' @ err)) (\<lambda>_. ret None)))
       (\<lambda>done. case done of
                  Some result \<Rightarrow> ret (Some result)
                | None \<Rightarrow> cr_try_requests env args rest))"

text \<open>\<open>indexed xs\<close>: the elements of an array with their indices.\<close>

definition indexed :: "'a list \<Rightarrow> (nat \<times> 'a) list" where
  "indexed xs = zip [0 ..< length xs] xs"

definition cr_pdfResponses :: "cr_env \<Rightarrow> response list" where
  "cr_pdfResponses env = filter is_pdf_response (cr_responses env)"

definition cr_pdfLinks :: "string list \<Rightarrow> string list \<Rightarrow> string list" where
  "cr_pdfLinks beforeLinks afterLinks =
     filter is_pdf_link (filter (\<lambda>link. link \<notin> set beforeLinks) afterLinks)"

definition cr_potentialPdfRequests :: "cr_env \<Rightarrow> request list" where
  "cr_potentialPdfRequests env = filter is_potential_request (cr_requests env)"

text \<open>The failure the handler returns when the three strategies have given nothing.\<close>

definition cr_failure :: "cr_env \<Rightarrow> tool_args \<Rightarrow> string list \<Rightarrow> CallToolResult" where
  "cr_failure env args pdfLinks =
     (if cr_pdfResponses env \<noteq> []
      then text_result
             (''Found PDF URL but couldn'' @ [CHR 0x27]
               @ ''t download automatically. Manual download URL: ''
               @ rs_url (last (cr_pdfResponses env)))
             True
      else if pdfLinks \<noteq> []
      then text_result
             (''Found PDF link but couldn'' @ [CHR 0x27]
               @ ''t download automatically. Manual download URL: '' @ hd pdfLinks)
             True
      else if cr_potentialPdfRequests env \<noteq> []
      then text_result
             (''Found potential download request but couldn'' @ [CHR 0x27]
               @ ''t extract file. URL: '' @ rq_url (last (cr_potentialPdfRequests env)))
             True
      else text_result
             (''No PDF content was detected in network traffic after clicking '' @ [CHR 0x22]
               @ arg_buttonText args @ [CHR 0x22]
               @ ''. Try examining the network activity in browser devtools manually.'')
             True)"

text \<open>
  The part of the handler after the click and the wait: the scan of what was recorded.
\<close>

definition cr_scan :: "cr_env \<Rightarrow> tool_args \<Rightarrow> string list \<Rightarrow> CallToolResult prog" where
  "cr_scan env args beforeLinks =
     bnd (cr_try_responses env args (rev (indexed (cr_pdfResponses env)))) (\<lambda>r1.
       case r1 of
         Some result \<Rightarrow> ret result
       | None \<Rightarrow>
     bnd (await (cr_afterLinks env)) (\<lambda>afterLinks.
     bnd (cr_try_links env args (indexed (cr_pdfLinks beforeLinks afterLinks))) (\<lambda>r2.
       case r2 of
         Some result \<Rightarrow> ret result
       | None \<Rightarrow>
     bnd (cr_try_requests env args (rev (indexed (cr_potentialPdfRequests env)))) (\<lambda>r3.
       case r3 of
         Some result \<Rightarrow> ret result
       | None \<Rightarrow> ret (cr_failure env args (cr_pdfLinks beforeLinks afterLinks))))))"

definition BrowserCaptureRequest :: "cr_env \<Rightarrow> tool_args \<Rightarrow> CallToolResult prog" where
  "BrowserCaptureRequest env args =
     try_catch
       (bnd (arm RequestListener Primary) (\<lambda>_.
        bnd (arm ResponseListener Primary) (\<lambda>_.
        bnd (if not_false (arg_blockWindowOpen args) then await (cr_addInitScript env)
             else ret ()) (\<lambda>_.
        bnd (await (cr_beforeLinks env)) (\<lambda>beforeLinks.
        bnd (click_or_first Primary (cr_click env) (cr_click_first env)) (\<lambda>_.
        bnd (await (cr_wait env)) (\<lambda>_.
        cr_scan env args beforeLinks)))))))
       (\<lambda>error. ret (text_result (''Error capturing requests: '' @ error) True))"

section \<open>BrowserInterceptTabs\<close>

text \<open>The URL patterns the tab interceptor keeps.\<close>

definition is_download_url :: "string \<Rightarrow> bool" where
  "is_download_url url =
     (url \<noteq> [] \<and>
      (endsWith (toLowerCase url) ''.pdf''
       \<or> str_includes (toLowerCase url) ''.pdf?''
       \<or> str_includes (toLowerCase url) ''/pdf/''
       \<or> str_includes (toLowerCase url) ''/download/''
       \<or> str_includes (toLowerCase url) ''/report/''
       \<or> str_includes (toLowerCase url) ''/generate/''))"

record it_env =
  it_visible :: "bool outcome"
  it_buttonInfo :: "unit outcome"
  it_install :: "unit outcome"
  it_click :: "unit outcome"
  it_wait :: "unit outcome"
  it_intercepted :: "(string list \<times> string) outcome"
  it_jsURLs :: "string list outcome"
  it_newContext :: "unit outcome"
  it_cookies :: "unit outcome"
  it_addCookies :: "unit outcome"
  it_ctx_newPage :: "unit outcome"
  it_goto :: "unit outcome"
  it_extract :: "string outcome"
  it_bodyClick :: "unit outcome"
  it_download :: "unit outcome"
  it_path :: "string option outcome"
  it_readFile :: "string outcome"

text \<open>
  \<open>it_intercepted\<close>: the URLs the injected hooks stored in the page and the last of them
  (empty for \<^verbatim>\<open>null\<close>), as the later \<^verbatim>\<open>page.evaluate\<close> reads them back.
\<close>

definition it_download_in_clone :: "it_env \<Rightarrow> tool_args \<Rightarrow> string \<Rightarrow> CallToolResult prog" where
  "it_download_in_clone env args pdfUrl =
     try_catch
       (bnd (new_context (it_newContext env)) (\<lambda>_.
        bnd (await (it_cookies env)) (\<lambda>_.
        bnd (await (it_addCookies env)) (\<lambda>_.
        bnd (await (it_ctx_newPage env)) (\<lambda>_.
        try_catch
          (bnd (await (it_goto env)) (\<lambda>_.
           bnd (await_or (it_extract env) []) (\<lambda>extracted.
           bnd (if extracted = []
                then try_catch
                       (bnd (arm DownloadWait Auxiliary) (\<lambda>_.
                        bnd (try_catch (click Auxiliary Body (it_bodyClick env))
                               (\<lambda>_. ret ())) (\<lambda>_.
                        bnd (await (it_download env)) (\<lambda>_.
                        read_download (it_path env) (it_readFile env)))))
                       (\<lambda>_. ret extracted)
                else ret extracted) (\<lambda>pdfBytes.
           bnd close_context (\<lambda>_.
           if pdfBytes \<noteq> []
           then bnd (modify (save_artifact (arg_fileName args) pdfBytes ''application/pdf''))
                  (\<lambda>_.
                bnd notify_list_changed (\<lambda>_.
                ret (text_result
                      (''Successfully downloaded PDF '' @ [CHR 0x22] @ arg_fileName args
                        @ [CHR 0x22] @ '' from intercepted URL: '' @ pdfUrl)
                      False)))
           else ret (text_result
                  (''Found PDF URL but couldn'' @ [CHR 0x27]
                    @ ''t download automatically. Direct download URL: '' @ pdfUrl)
                  False))))))
          (\<lambda>err.
             bnd close_context (\<lambda>_.
             ret (text_result
                   (''Found PDF URL but failed to access/download it. URL: '' @ pdfUrl
                     @ '', Error: '' @ err)
                   True))))))))
       (\<lambda>err. ret (text_result
          (''Found PDF URL but couldn'' @ [CHR 0x27]
            @ ''t initiate download. Direct download URL: '' @ pdfUrl)
          False))"

definition BrowserInterceptTabs :: "it_env \<Rightarrow> tool_args \<Rightarrow> CallToolResult prog" where
  "BrowserInterceptTabs env args =
     try_catch
       (bnd (await (it_visible env)) (\<lambda>visible.
        if \<not> visible
        then throw (''Button with text '' @ [CHR 0x22] @ arg_buttonText args @ [CHR 0x22]
                     @ '' not found or not visible.'')
        else
        bnd (await (it_buttonInfo env)) (\<lambda>_.
        bnd (await (it_install env)) (\<lambda>_.
        bnd (arm NavigationHook Primary) (\<lambda>_.
        bnd (click Primary FirstMatch (it_click env)) (\<lambda>_.
        bnd (await (it_wait env)) (\<lambda>_.
        bnd (await (it_intercepted env)) (\<lambda>(urls, lastUrl).
        bnd (await (it_jsURLs env)) (\<lambda>jsURLs.
        case rev (filter is_download_url (filter (\<lambda>u. u \<noteq> []) (urls @ jsURLs))) of
          pdfUrl # _ \<Rightarrow> it_download_in_clone env args pdfUrl
        | [] \<Rightarrow>
            if lastUrl \<noteq> []
            then ret (text_result
                   (''No PDF URL found, but intercepted this URL: '' @ lastUrl
                     @ ''. Check button diagnostics in logs.'')
                   True)
            else ret (text_result
                   (''No URLs were intercepted after clicking '' @ [CHR 0x22]
                     @ arg_buttonText args @ [CHR 0x22] @ ''. Check button diagnostics in logs.'')
                   True))))))))))
       (\<lambda>error. ret (text_result (''Error intercepting tab: '' @ error) True))"

section \<open>BrowserClickAndExtractUrl\<close>

text \<open>
  \<^verbatim>\<open>isTargetUrl\<close>, the test the injected hook applies before it calls back, and the
  filter of the fallback scan (the same patterns).
\<close>

definition isTargetUrl :: "string \<Rightarrow> bool" where
  "isTargetUrl url =
     (url \<noteq> [] \<and>
      (endsWith (toLowerCase url) ''.pdf''
       \<or> str_includes (toLowerCase url) ''.pdf?''
       \<or> str_includes (toLowerCase url) ''/pdf/''
       \<or> str_includes (toLowerCase url) ''/download/''
       \<or> str_includes (toLowerCase url) ''/report/''
       \<or> str_includes (toLowerCase url) ''/generate/''
       \<or> str_includes (toLowerCase url) ''blob:''))"

record ce_env =
  ce_visible :: "bool outcome"
  ce_expose :: "unit outcome"
  ce_install :: "unit outcome"
  ce_click :: "unit outcome"
  ce_captured :: "(nat \<times> string) list"
  ce_intercepted :: "(string list \<times> string) outcome"
  ce_jsURLs :: "string list outcome"

text \<open>
  \<open>ce_captured\<close>: the URLs the injected \<^verbatim>\<open>captureUrl\<close> sees, in the order it sees them,
  each with the time in milliseconds, counted from the start of the race, at which the
  hook's call reaches the server (0 when it came in while the click was still awaited).
  The hook calls \<^verbatim>\<open>__reportUrlFound__\<close> only for the URLs that pass \<^verbatim>\<open>isTargetUrl\<close>,
  and the promise takes the first call.
\<close>

definition ce_first_report :: "ce_env \<Rightarrow> (nat \<times> string) option" where
  "ce_first_report env =
     (case filter (\<lambda>c. isTargetUrl (snd c)) (ce_captured env) of
        [] \<Rightarrow> None
      | r # _ \<Rightarrow> Some r)"

text \<open>
  \<^verbatim>\<open>await Promise.race([urlFoundPromise, timeoutPromise])\<close>: the reported URL if the
  report is in before the timer of \<open>waitTime\<close> milliseconds fires, else \<^verbatim>\<open>null\<close> (the
  empty string here) when the timer fires. The time spent is recorded.
\<close>

definition ce_race :: "ce_env \<Rightarrow> nat \<Rightarrow> string prog" where
  "ce_race env waitTime =
     (case ce_first_report env of
        None \<Rightarrow> bnd (emit (Waited waitTime)) (\<lambda>_. ret [])
      | Some (t, url) \<Rightarrow>
          if t < waitTime then bnd (emit (Waited t)) (\<lambda>_. ret url)
          else bnd (emit (Waited waitTime)) (\<lambda>_. ret []))"

text \<open>The fallback: the scan of the collected URLs and of the script text.\<close>

definition ce_fallback :: "ce_env \<Rightarrow> tool_args \<Rightarrow> CallToolResult prog" where
  "ce_fallback env args =
     bnd (await (ce_intercepted env)) (\<lambda>(urls, lastUrl).
     bnd (await (ce_jsURLs env)) (\<lambda>jsURLs.
     case rev (filter isTargetUrl (filter (\<lambda>u. u \<noteq> []) (urls @ jsURLs))) of
       extractedUrl # _ \<Rightarrow> ret (text_result extractedUrl False)
     | [] \<Rightarrow>
         if lastUrl \<noteq> []
         then ret (text_result lastUrl False)
         else ret (text_result
                (''No URL was intercepted after clicking '' @ [CHR 0x22]
                  @ arg_buttonText args @ [CHR 0x22] @ ''. Timeout occurred.'')
                True)))"

text \<open>
  The handler. Overwriting the exposed callback with a no-op, which the handler does after
  the race and in its \<^verbatim>\<open>catch\<close> with the rejection swallowed, has no outcome the
  handler reads and is not recorded.
\<close>

definition BrowserClickAndExtractUrl :: "ce_env \<Rightarrow> tool_args \<Rightarrow> CallToolResult prog" where
  "BrowserClickAndExtractUrl env args =
     try_catch
       (bnd (await (ce_visible env)) (\<lambda>visible.
        if \<not> visible
        then throw (''Button with text '' @ [CHR 0x22] @ arg_buttonText args @ [CHR 0x22]
                     @ '' not found or not visible.'')
        else
        bnd (await (ce_expose env)) (\<lambda>_.
        bnd (arm HookCallback Primary) (\<lambda>_.
        bnd (await (ce_install env)) (\<lambda>_.
        bnd (arm NavigationHook Primary) (\<lambda>_.
        bnd (click Primary FirstMatch (ce_click env)) (\<lambda>_.
        bnd (ce_race env (or_default_nat (arg_waitTime args) 5000)) (\<lambda>foundUrl.
        if foundUrl \<noteq> []
        then ret (text_result foundUrl False)
        else ce_fallback env args))))))))
       (\<lambda>error. ret (text_result (''Error during URL extraction: '' @ error) True))"

section \<open>BrowserClickAndDownloadAuthenticated\<close>

definition months :: "string list" where
  "months = [''January'', ''February'', ''March'', ''April'', ''May'', ''June'', ''July'',
             ''August'', ''September'', ''October'', ''November'', ''December'']"

record cd_env =
  cd_click :: "unit outcome"
  cd_click_first :: "unit outcome"
  cd_download :: "string outcome"
  cd_path :: "string option outcome"
  cd_readFile :: "string outcome"
  cd_extname :: "string \<Rightarrow> string"
  cd_join :: "string \<Rightarrow> string \<Rightarrow> string"
  cd_month :: nat
  cd_date :: nat
  cd_year :: nat
  cd_mkdir :: "unit outcome"
  cd_writeFile :: "unit outcome"
  cd_unlink :: "unit outcome"

text \<open>
  \<open>cd_download\<close>: the suggested file name of the download the wait delivers, or the
  rejection of the wait. \<open>cd_readFile\<close>: the content of the temporary file.
  \<open>cd_extname\<close> and \<open>cd_join\<close> stand for Node's \<^verbatim>\<open>path.extname\<close> and
  \<^verbatim>\<open>path.join\<close>. \<open>cd_month\<close>, \<open>cd_date\<close>, \<open>cd_year\<close>: \<^verbatim>\<open>getMonth()\<close>,
  \<^verbatim>\<open>getDate()\<close> and \<^verbatim>\<open>getFullYear()\<close> of \<^verbatim>\<open>new Date()\<close>.
\<close>

definition downloadsPath :: string where
  "downloadsPath = ''/app/Downloads''"

definition autoFileName :: "cd_env \<Rightarrow> string \<Rightarrow> string" where
  "autoFileName env suggestedName =
     ''eps_'' @ show_opt (at_index months (cd_month env)) @ ''_'' @ show_nat (cd_date env)
       @ ''_'' @ show_nat (cd_year env)
       @ (if cd_extname env suggestedName = [] then ''.unknown''
          else cd_extname env suggestedName)"

definition finalSavePath :: "cd_env \<Rightarrow> string \<Rightarrow> string" where
  "finalSavePath env suggestedName = cd_join env downloadsPath (autoFileName env suggestedName)"

definition BrowserClickAndDownloadAuthenticated ::
  "cd_env \<Rightarrow> tool_args \<Rightarrow> CallToolResult prog" where
  "BrowserClickAndDownloadAuthenticated env args =
     try_catch
       (bnd (arm DownloadWait Primary) (\<lambda>_.
        bnd (click_or_first Primary (cd_click env) (cd_click_first env)) (\<lambda>_.
        bnd (await (cd_download env)) (\<lambda>suggestedName.
        bnd (await (cd_path env)) (\<lambda>path.
        case path of
          None \<Rightarrow> throw ''Download failed: Playwright did not provide a temporary path.''
        | Some tempPath \<Rightarrow>
        if tempPath = []
        then throw ''Download failed: Playwright did not provide a temporary path.''
        else
        bnd (await (cd_readFile env)) (\<lambda>fileBuffer.
        bnd (await (cd_mkdir env)) (\<lambda>_.
        bnd (emit (Mkdir downloadsPath)) (\<lambda>_.
        bnd (await (cd_writeFile env)) (\<lambda>_.
        bnd (emit (WriteFile (finalSavePath env suggestedName) fileBuffer)) (\<lambda>_.
        bnd (try_catch
               (bnd (await (cd_unlink env)) (\<lambda>_. emit (Unlink tempPath)))
               (\<lambda>err. log (''Failed to delete temp file '' @ tempPath @ '': '' @ err))) (\<lambda>_.
        ret (text_result
              (''File successfully saved to '' @ finalSavePath env suggestedName)
              False))))))))))))
       (\<lambda>error.
          if str_includes error ''Timeout''
          then ret (text_result
                 (''Failed to download: No download started within the time limit after clicking ''
                   @ [CHR 0x22] @ arg_buttonText args @ [CHR 0x22] @ ''.'')
                 True)
          else ret (text_result (''Error during download: '' @ error) True))"

section \<open>The dispatcher\<close>

datatype ToolName =
  BrowserNavigateTool
  | BrowserScreenshotTool
  | BrowserClickTool
  | BrowserClickTextTool
  | BrowserFillTool
  | BrowserSelectTool
  | BrowserSelectTextTool
  | BrowserHoverTool
  | BrowserHoverTextTool
  | BrowserEvaluateTool
  | BrowserClickAndCaptureTool
  | BrowserDownloadPDFTool
  | BrowserForceDownloadTool
  | BrowserAuthenticatedDownloadTool
  | BrowserCaptureRequestTool
  | BrowserInterceptTabsTool
  | BrowserClickAndExtractUrlTool
  | BrowserClickAndDownloadAuthenticatedTool
  | UnknownTool string

text \<open>
  The environment of one call of \<^verbatim>\<open>handleToolCall\<close>: the outcome of
  \<^verbatim>\<open>ensureBrowser()\<close> (launching the browser or opening the page may reject) and the
  environment of each handler.
\<close>

record tool_env =
  te_ensureBrowser :: "unit outcome"
  te_goto :: "unit outcome"
  te_screenshot :: "string outcome"
  te_act :: act_env
  te_evaluate :: "(string \<times> string list) outcome"
  te_cc :: cc_env
  te_dp :: dp_env
  te_fd :: fd_env
  te_ad :: ad_env
  te_cr :: cr_env
  te_it :: it_env
  te_ce :: ce_env
  te_cd :: cd_env

text \<open>
  \<^verbatim>\<open>handleToolCall\<close>. \<open>Threw\<close> as its outcome is an exception that leaves the
  function, to the request handler of the dispatch layer.
\<close>

definition handleToolCall :: "tool_env \<Rightarrow> ToolName \<Rightarrow> tool_args \<Rightarrow> CallToolResult prog" where
  "handleToolCall env name args =
     bnd (await (te_ensureBrowser env)) (\<lambda>_.
       case name of
         BrowserNavigateTool \<Rightarrow> BrowserNavigate (te_goto env) args
       | BrowserScreenshotTool \<Rightarrow> BrowserScreenshot (te_screenshot env) args
       | BrowserClickTool \<Rightarrow> BrowserClick (te_act env) args
       | BrowserClickTextTool \<Rightarrow> BrowserClickText (te_act env) args
       | BrowserFillTool \<Rightarrow> BrowserFill (te_act env) args
       | BrowserSelectTool \<Rightarrow> BrowserSelect (te_act env) args
       | BrowserSelectTextTool \<Rightarrow> BrowserSelectText (te_act env) args
       | BrowserHoverTool \<Rightarrow> BrowserHover (te_act env) args
       | BrowserHoverTextTool \<Rightarrow> BrowserHoverText (te_act env) args
       | BrowserEvaluateTool \<Rightarrow> BrowserEvaluate (te_evaluate env) args
       | BrowserClickAndCaptureTool \<Rightarrow> BrowserClickAndCapture (te_cc env) args
       | BrowserDownloadPDFTool \<Rightarrow> BrowserDownloadPDF (te_dp env) args
       | BrowserForceDownloadTool \<Rightarrow> BrowserForceDownload (te_fd env) args
       | BrowserAuthenticatedDownloadTool \<Rightarrow> BrowserAuthenticatedDownload (te_ad env) args
       | BrowserCaptureRequestTool \<Rightarrow> BrowserCaptureRequest (te_cr env) args
       | BrowserInterceptTabsTool \<Rightarrow> BrowserInterceptTabs (te_it env) args
       | BrowserClickAndExtractUrlTool \<Rightarrow> BrowserClickAndExtractUrl (te_ce env) args
       | BrowserClickAndDownloadAuthenticatedTool \<Rightarrow>
           BrowserClickAndDownloadAuthenticated (te_cd env) args
       | UnknownTool n \<Rightarrow> ret (text_result (''Unknown tool: '' @ n) True))"

section \<open>Reading a run\<close>

definition is_failure :: "CallToolResult outcome \<Rightarrow> bool" where
  "is_failure r = (case r of Returned res \<Rightarrow> isError res | Threw _ \<Rightarrow> False)"

definition is_success :: "CallToolResult outcome \<Rightarrow> bool" where
  "is_success r = (case r of Returned res \<Rightarrow> \<not> isError res | Threw _ \<Rightarrow> False)"

text \<open>An argument bag used in the examples.\<close>

definition sample_args :: tool_args where
  "sample_args =
     \<lparr>arg_url = ''https://portal.example/login'', arg_name = ''shot'',
      arg_selector = None, arg_fullPage = None, arg_text = ''Download'', arg_value = [],
      arg_script = [], arg_buttonText = ''Download Certificate'', arg_fileName = ''report'',
      arg_waitTime = None, arg_fileTypes = None, arg_closeNewTabs = None,
      arg_blockWindowOpen = None\<rparr>"

text \<open>The message the driver rejects a strict action with when the locator is ambiguous.\<close>

definition strict_violation :: string where
  "strict_violation =
     ''locator.click: Error: strict mode violation: locator resolved to 2 elements''"

text \<open>A program that returns a value whatever the store: no exception leaves it.\<close>

definition never_throws :: "'a prog \<Rightarrow> bool" where
  "never_throws p = (\<forall>st. \<exists>r. result_of (p st) = Returned r)"

text \<open>
  An environment for \<^verbatim>\<open>BrowserClickAndDownloadAuthenticated\<close>: the download arrives on
  3 May 2025 and the temporary file cannot be deleted.
\<close>

definition cd_sample :: cd_env where
  "cd_sample =
     \<lparr>cd_click = Returned (), cd_click_first = Returned (),
      cd_download = Returned ''certificado.pdf'',
      cd_path = Returned (Some ''/tmp/playwright-artifacts/4f2a''),
      cd_readFile = Returned ''%PDF-1.7'',
      cd_extname = (\<lambda>n. ''.pdf''),
      cd_join = (\<lambda>a b. a @ ''/'' @ b),
      cd_month = 4, cd_date = 3, cd_year = 2025,
      cd_mkdir = Returned (), cd_writeFile = Returned (),
      cd_unlink = Threw ''EPERM: operation not permitted''\<rparr>"

text \<open>
  An environment for \<^verbatim>\<open>BrowserClickAndExtractUrl\<close>: the hook sees a login page first and
  reports the PDF 120 ms into the race; the page can no longer be read afterwards.
\<close>

definition ce_sample :: ce_env where
  "ce_sample =
     \<lparr>ce_visible = Returned True, ce_expose = Returned (), ce_install = Returned (),
      ce_click = Returned (),
      ce_captured = [(0, ''https://portal.example/session''),
                     (120, ''https://portal.example/docs/file.pdf'')],
      ce_intercepted = Threw ''Execution context was destroyed'',
      ce_jsURLs = Returned []\<rparr>"

text \<open>
  A candidate fetch delivers when it returns a payload the handler accepts: a non-empty
  one.
\<close>

definition delivers :: "string outcome \<Rightarrow> bool" where
  "delivers r = (case r of Returned bytes \<Rightarrow> bytes \<noteq> [] | Threw _ \<Rightarrow> False)"

text \<open>
  Reading the attempts back from a trace: the rests of the logged lines that start with a
  given text, in the order they were logged.
\<close>

fun strip_prefix :: "string \<Rightarrow> string \<Rightarrow> string option" where
  "strip_prefix [] s = Some s"
| "strip_prefix (p # ps) [] = None"
| "strip_prefix (p # ps) (c # cs) = (if p = c then strip_prefix ps cs else None)"

fun logged_after :: "string \<Rightarrow> event list \<Rightarrow> string list" where
  "logged_after pre [] = []"
| "logged_after pre (Log l # es) =
     (case strip_prefix pre l of
        Some rest \<Rightarrow> rest # logged_after pre es
      | None \<Rightarrow> logged_after pre es)"
| "logged_after pre (e # es) = logged_after pre es"

definition response_attempts :: "event list \<Rightarrow> string list" where
  "response_attempts es = logged_after ''Attempting to download PDF from response: '' es"

definition link_attempts :: "event list \<Rightarrow> string list" where
  "link_attempts es = logged_after ''Attempting to download PDF from link: '' es"

definition request_attempts :: "event list \<Rightarrow> string list" where
  "request_attempts es = logged_after ''Attempting to download from XHR request: '' es"

text \<open>
  An environment for \<^verbatim>\<open>BrowserCaptureRequest\<close>: one PDF response was recorded, the
  in-page fetch of its URL gives nothing, and the page cannot be read when the handler
  collects the links after the click. An export request was recorded too, and fetching it
  would deliver.
\<close>

definition cr_sample :: cr_env where
  "cr_sample =
     \<lparr>cr_addInitScript = Returned (), cr_beforeLinks = Returned [],
      cr_click = Returned (), cr_click_first = Returned (), cr_wait = Returned (),
      cr_responses =
        [\<lparr>rs_url = ''https://portal.example/cert/42.pdf'', rs_status = 200,
          rs_headers = [(''content-type'', ''application/pdf'')]\<rparr>],
      cr_fetch_response = (\<lambda>i. Returned []),
      cr_afterLinks = Threw ''Execution context was destroyed'',
      cr_fetch_link = (\<lambda>i. Returned []),
      cr_requests =
        [\<lparr>rq_url = ''https://portal.example/api/export'', rq_resourceType = ''xhr'',
          rq_method = ''POST''\<rparr>],
      cr_fetch_xhr = (\<lambda>i. Returned ''JVBERi0=''),
      cr_responses_late = []\<rparr>"

section \<open>The order of arming and clicking\<close>

text \<open>The observers a trace registers, each with the surface it is set on, in order.\<close>

fun observers :: "event list \<Rightarrow> (observer \<times> surface) list" where
  "observers [] = []"
| "observers (Armed ob s # es) = (ob, s) # observers es"
| "observers (e # es) = observers es"

text \<open>
  \<open>after_click S es\<close>: what a trace does after its first click on a surface of \<open>S\<close> (nothing
  when there is no such click). With \<open>S = UNIV\<close> that is the first click of the run, the
  triggering click of the handler.
\<close>

fun after_click :: "surface set \<Rightarrow> event list \<Rightarrow> event list" where
  "after_click S [] = []"
| "after_click S (Click s t # es) = (if s \<in> S then es else after_click S es)"
| "after_click S (e # es) = after_click S es"

text \<open>Whether a trace clicks on a surface of \<open>S\<close>.\<close>

fun clicks_on :: "surface set \<Rightarrow> event list \<Rightarrow> bool" where
  "clicks_on S [] = False"
| "clicks_on S (Click s t # es) = (s \<in> S \<or> clicks_on S es)"
| "clicks_on S (e # es) = clicks_on S es"

text \<open>
  \<open>late S b es\<close>: the observers that \<open>es\<close> registers after a click on \<open>S\<close>, where \<open>b\<close> tells
  whether such a click was issued before \<open>es\<close> starts.
\<close>

definition late :: "surface set \<Rightarrow> bool \<Rightarrow> event list \<Rightarrow> (observer \<times> surface) list" where
  "late S b es = observers (if b then es else after_click S es)"

text \<open>
  \<open>ordered S A b p b'\<close>: whatever the store, the observers that \<open>p\<close> registers after a click
  on \<open>S\<close> are among \<open>A\<close>, and \<open>b'\<close> holds at the end when a click on \<open>S\<close> was issued before
  \<open>p\<close> or by \<open>p\<close>.
\<close>

definition ordered ::
  "surface set \<Rightarrow> (observer \<times> surface) set \<Rightarrow> bool \<Rightarrow> 'a prog \<Rightarrow> bool \<Rightarrow> bool" where
  "ordered S A b p b' =
     (\<forall>st. set (late S b (trace_of (p st))) \<subseteq> A
           \<and> (b \<or> clicks_on S (trace_of (p st)) \<longrightarrow> b'))"

text \<open>
  Environments for the other handlers. \<^verbatim>\<open>BrowserAuthenticatedDownload\<close>: no tab opens,
  the response listener has seen a PDF, and in the session copy the page yields nothing
  to the in-page fetch, so the handler falls back to the download wait.
  \<^verbatim>\<open>BrowserInterceptTabs\<close>: the hook has stored a report URL, and the session copy goes
  the same way.
\<close>

definition ad_sample :: ad_env where
  "ad_sample =
     \<lparr>ad_currentUrl = ''https://portal.example/home'', ad_cookies = Returned (),
      ad_beforeLinks = Returned [], ad_click = Returned (), ad_click_first = Returned (),
      ad_settle = Returned (), ad_responseUrls = [''https://portal.example/docs/file.pdf''],
      ad_newPage = False, ad_np_url = [], ad_np_contentType = Threw ''no page'',
      ad_np_hasEmbed = Threw ''no page'', ad_np_pdfBytes = Threw ''no page'',
      ad_pageUrlAfter = ''https://portal.example/home'', ad_afterLinks = Returned [],
      ad_newContext = Returned (), ad_addCookies = Returned (), ad_ctx_newPage = Returned (),
      ad_goto = Returned (), ad_extract = Returned [], ad_bodyClick = Returned (),
      ad_download = Returned (), ad_path = Returned (Some ''/tmp/playwright-artifacts/77aa''),
      ad_readFile = Returned ''JVBERi0='', ad_np_closed = True, ad_np_close = Returned ()\<rparr>"

definition it_sample :: it_env where
  "it_sample =
     \<lparr>it_visible = Returned True, it_buttonInfo = Returned (), it_install = Returned (),
      it_click = Returned (), it_wait = Returned (),
      it_intercepted = Returned ([''https://portal.example/report/7''],
                                 ''https://portal.example/report/7''),
      it_jsURLs = Returned [], it_newContext = Returned (), it_cookies = Returned (),
      it_addCookies = Returned (), it_ctx_newPage = Returned (), it_goto = Returned (),
      it_extract = Returned [], it_bodyClick = Returned (), it_download = Returned (),
      it_path = Returned (Some ''/tmp/playwright-artifacts/12bc''),
      it_readFile = Returned ''JVBERi0=''\<rparr>"

definition act_sample :: act_env where
  "act_sample = \<lparr>act_all = Returned (), act_first = Returned ()\<rparr>"

definition cc_sample :: cc_env where
  "cc_sample =
     \<lparr>cc_startUrl = ''https://portal.example/home'', cc_initialPages = 1,
      cc_click = Returned (), cc_click_first = Returned (), cc_newPage = None,
      cc_settle = Returned (), cc_currentUrl = ''https://portal.example/docs'',
      cc_finalPages = 1, cc_lastPage = (Returned (), ''https://portal.example/docs'')\<rparr>"

text \<open>
  An environment for \<^verbatim>\<open>BrowserForceDownload\<close>: the click starts a native download whose
  suggested name is \<^verbatim>\<open>Informe.PDF\<close>.
\<close>

definition fd_sample :: fd_env where
  "fd_sample =
     \<lparr>fd_newContext = Returned (), fd_newPage = Returned (), fd_goto = Returned (),
      fd_requestUrls = [], fd_click = Returned (), fd_click_first = Returned (),
      fd_download = Some ''Informe.PDF'',
      fd_path = Returned (Some ''/tmp/playwright-artifacts/9c1e''),
      fd_readFile = Returned ''JVBERi0='',
      fd_pages = 1, fd_np_load = Returned (), fd_np_url = ''about:blank'',
      fd_fetch = Threw ''no fetch'', fd_isPDF = Returned False,
      fd_pdfBytes = Threw ''no page'', fd_filePage = Threw ''no page'',
      fd_fileGoto = Threw ''no page'', fd_fileContent = Threw ''no page''\<rparr>"

text \<open>
  An environment for \<^verbatim>\<open>BrowserDownloadPDF\<close>: the click opens a tab whose URL does not
  end in \<^verbatim>\<open>.pdf\<close>, the tab never goes idle, its content type is PDF and the page prints.
\<close>

definition dp_sample :: dp_env where
  "dp_sample =
     \<lparr>dp_click = Returned (), dp_click_first = Returned (), dp_newPage = True,
      dp_url = ''https://x.example/v?id=7'', dp_networkidle = Threw ''Timeout 10000ms exceeded'',
      dp_closed1 = False, dp_isPDF = Returned True, dp_closed2 = False,
      dp_contentType = Returned ''application/pdf'', dp_closed3 = False,
      dp_screenshot = Threw ''no screenshot'', dp_closed4 = False,
      dp_pdfBytes = Returned ''JVBERi0='', dp_newContext = Returned (),
      dp_ctx_newPage = Returned (), dp_ctx_goto = Returned (), dp_emulateMedia = Returned (),
      dp_download = Threw ''Timeout 10000ms exceeded'', dp_path = Returned None,
      dp_readFile = Threw ''ENOENT'', dp_closed5 = False, dp_close_page = Returned ()\<rparr>"

text \<open>One call environment made of the environments above.\<close>

definition sample_env :: tool_env where
  "sample_env =
     \<lparr>te_ensureBrowser = Returned (), te_goto = Returned (),
      te_screenshot = Returned ''iVBORw0KGgo='', te_act = act_sample,
      te_evaluate = Returned (''2'', []), te_cc = cc_sample, te_dp = dp_sample,
      te_fd = fd_sample, te_ad = ad_sample, te_cr = cr_sample, te_it = it_sample,
      te_ce = ce_sample, te_cd = cd_sample\<rparr>"
section \<open>Properties of the artifact store\<close>

lemma js_split_from_none:
  "sep \<noteq> [] \<Longrightarrow> \<not> str_includes s sep \<Longrightarrow> js_split_from sep acc s = [rev acc @ s]"
  by (induction s arbitrary: acc) auto

lemma js_split_resource_uri:
  "\<not> str_includes name ''://'' \<Longrightarrow>
     at_index (js_split (resource_uri name) ''://'') (Suc 0) = Some name"
  by (simp add: js_split_def resource_uri_def at_index_def js_split_from_none)

lemma resource_uri_not_console: "resource_uri name \<noteq> ''console://logs''"
  by (simp add: resource_uri_def)

lemma resource_uri_startsWith: "startsWith (resource_uri name) ''screenshot://''"
  by (simp add: resource_uri_def startsWith_def)

lemma ReadResource_stored:
  assumes "\<not> str_includes name ''://''" and "map_of (screenshots st) name = Some bytes"
    and "bytes \<noteq> []"
  shows "ReadResource st (resource_uri name) =
           Inr (BlobResource (resource_uri name) (read_mime st name) bytes)"
  using assms
  by (simp add: ReadResource_def resource_uri_not_console resource_uri_startsWith
      js_split_resource_uri)

lemma entries_update:
  "distinct (map fst al) \<Longrightarrow> filter (\<lambda>p. fst p = k) (AList.update k v al) = [(k, v)]"
proof (induction al)
  case Nil
  then show ?case by simp
next
  case (Cons p ps)
  show ?case
  proof (cases "fst p = k")
    case True
    with Cons.prems have "k \<notin> fst ` set ps" by auto
    then have "filter (\<lambda>p. fst p = k) ps = []" by (auto simp: filter_empty_conv)
    with True show ?thesis by simp
  next
    case False
    with Cons show ?thesis by simp
  qed
qed

text \<open>
  The store keeps one entry per name: it starts empty and both writes keep the keys distinct.
\<close>

lemma distinct_empty_store: "distinct (map fst (screenshots empty_store))"
  by (simp add: empty_store_def)

lemma distinct_save_artifact:
  "distinct (map fst (screenshots st)) \<Longrightarrow>
     distinct (map fst (screenshots (save_artifact name bytes mimeType st)))"
  by (simp add: save_artifact_def distinct_update)

lemma distinct_save_bytes_only:
  "distinct (map fst (screenshots st)) \<Longrightarrow>
     distinct (map fst (screenshots (save_bytes_only name bytes st)))"
  by (simp add: save_bytes_only_def distinct_update)

text \<open>
  C4, as stated, fails on the code. Reading goes through the resource URI, and the reader
  takes the name to be \<^verbatim>\<open>uri.split("://")[1]\<close>: a name that itself contains
  \<^verbatim>\<open>://\<close> is cut short and the artifact is not found. The reader also tests the payload
  and the recorded MIME type for truthiness: an empty payload is reported as not found, and
  an empty MIME type is replaced by the default.
\<close>

theorem artifact_roundtrip_counterexample:
  "ReadResource (save_artifact ''a://b'' ''QUJD'' ''application/pdf'' empty_store)
       (resource_uri ''a://b'')
     = Inl ''Resource not found: screenshot://a://b''
   \<and> ReadResource (save_artifact ''report'' [] ''application/pdf'' empty_store)
       (resource_uri ''report'')
     = Inl ''Resource not found: screenshot://report''
   \<and> ReadResource (save_artifact ''report'' ''QUJD'' [] empty_store) (resource_uri ''report'')
     = Inr (BlobResource ''screenshot://report'' ''image/png'' ''QUJD'')"
  by (simp add: ReadResource_def save_artifact_def empty_store_def resource_uri_def startsWith_def
      js_split_def at_index_def read_mime_def endsWith_def toLowerCase_def toLowerChar_def)

text \<open>
  C4 (amended): for every name that does not contain \<^verbatim>\<open>://\<close>, every non-empty payload
  and every non-empty MIME type, writing the artifact and reading it back through its
  resource URI yields exactly that payload and that MIME type; writing a second payload
  under the same name leaves exactly one entry for the name, holding the second payload,
  and the second payload is what is read back.
\<close>

theorem artifact_roundtrip:
  assumes "\<not> str_includes name ''://''" and "bytes \<noteq> []" and "mimeType \<noteq> []"
    and "bytes2 \<noteq> []" and "mimeType2 \<noteq> []"
    and "distinct (map fst (screenshots st))"
  shows "ReadResource (save_artifact name bytes mimeType st) (resource_uri name) =
           Inr (BlobResource (resource_uri name) mimeType bytes)
       \<and> filter (\<lambda>p. fst p = name)
            (screenshots (save_artifact name bytes2 mimeType2
                (save_artifact name bytes mimeType st))) =
           [(name, bytes2)]
       \<and> ReadResource (save_artifact name bytes2 mimeType2 (save_artifact name bytes mimeType st))
            (resource_uri name) =
           Inr (BlobResource (resource_uri name) mimeType2 bytes2)"
proof -
  have r: "\<And>b m s. b \<noteq> [] \<Longrightarrow> m \<noteq> [] \<Longrightarrow>
      ReadResource (save_artifact name b m s) (resource_uri name) =
        Inr (BlobResource (resource_uri name) m b)"
    using assms(1)
    by (subst ReadResource_stored [where bytes = b])
       (simp_all add: save_artifact_def update_conv' read_mime_def)
  have d: "distinct (map fst (screenshots (save_artifact name bytes mimeType st)))"
    using assms(6) by (rule distinct_save_artifact)
  have e: "filter (\<lambda>p. fst p = name)
            (screenshots (save_artifact name bytes2 mimeType2
                (save_artifact name bytes mimeType st))) =
           [(name, bytes2)]"
    using entries_update [OF d, of name bytes2] by (simp add: save_artifact_def)
  show ?thesis using r assms e by simp
qed

theorem artifact_roundtrip_witness:
  "ReadResource (save_artifact ''report'' ''QUJD'' ''application/pdf'' empty_store)
       (resource_uri ''report'') =
     Inr (BlobResource (resource_uri ''report'') ''application/pdf'' ''QUJD'')
   \<and> filter (\<lambda>p. fst p = ''report'')
        (screenshots (save_artifact ''report'' ''REVG'' ''application/pdf''
            (save_artifact ''report'' ''QUJD'' ''application/pdf'' empty_store))) =
       [(''report'', ''REVG'')]
   \<and> ReadResource (save_artifact ''report'' ''REVG'' ''application/pdf''
          (save_artifact ''report'' ''QUJD'' ''application/pdf'' empty_store))
        (resource_uri ''report'') =
       Inr (BlobResource (resource_uri ''report'') ''application/pdf'' ''REVG'')"
  using artifact_roundtrip [of "''report''" "''QUJD''" "''application/pdf''" "''REVG''"
      "''application/pdf''" empty_store]
  by (simp add: empty_store_def)

text \<open>
  C10, as stated, fails on the code for the same reason as C4: a stored name that contains
  \<^verbatim>\<open>://\<close> is cut at that point by the reader. Below, the artifact stored under
  \<^verbatim>\<open>x://y.pdf\<close> ends in \<^verbatim>\<open>.pdf\<close> and has no recorded MIME type, yet reading its
  resource returns the entry stored under \<^verbatim>\<open>x\<close> with \<^verbatim>\<open>image/png\<close>; and an entry
  whose payload is empty is reported as not found.
\<close>

theorem unmapped_mime_counterexample:
  "ReadResource (save_bytes_only ''x://y.pdf'' ''QUJD'' (save_bytes_only ''x'' ''AAAA'' empty_store))
       (resource_uri ''x://y.pdf'')
     = Inr (BlobResource ''screenshot://x://y.pdf'' ''image/png'' ''AAAA'')
   \<and> ReadResource (save_bytes_only ''e.pdf'' [] empty_store) (resource_uri ''e.pdf'')
     = Inl ''Resource not found: screenshot://e.pdf''"
  by (simp add: ReadResource_def save_bytes_only_def empty_store_def resource_uri_def
      startsWith_def js_split_def at_index_def read_mime_def endsWith_def toLowerCase_def
      toLowerChar_def)

text \<open>Reading an entry for which no MIME type is recorded.\<close>

lemma read_unmapped:
  assumes "\<not> str_includes name ''://''" and "map_of (fileTypeMappings st) name = None"
    and "bytes \<noteq> []"
  shows "(map_of (screenshots st) name = Some bytes \<longrightarrow>
            ReadResource st (resource_uri name) =
              Inr (BlobResource (resource_uri name)
                    (if endsWith (toLowerCase name) ''.pdf'' then ''application/pdf''
                     else ''image/png'')
                    bytes))
       \<and> (\<not> endsWith (toLowerCase name) ''.pdf'' \<longrightarrow>
            ReadResource (save_bytes_only name bytes st) (resource_uri name) =
              Inr (BlobResource (resource_uri name) ''image/png'' bytes))"
proof -
  have "map_of (screenshots (save_bytes_only name bytes st)) name = Some bytes"
    by (simp add: save_bytes_only_def update_conv')
  moreover have "read_mime (save_bytes_only name bytes st) name = read_mime st name"
    by (simp add: save_bytes_only_def read_mime_def)
  ultimately have "ReadResource (save_bytes_only name bytes st) (resource_uri name) =
      Inr (BlobResource (resource_uri name) (read_mime st name) bytes)"
    using assms ReadResource_stored [of name "save_bytes_only name bytes st" bytes] by simp
  then show ?thesis
    using assms by (simp add: ReadResource_stored read_mime_def)
qed

section \<open>Properties of the MIME table\<close>






text \<open>Every name has one of the two shapes.\<close>

lemma suggested_name_shape:
  "\<exists>base ext. CHR ''.'' \<notin> set ext \<and> (name = base @ ''.'' @ ext \<or> name = ext)"
proof (cases "CHR ''.'' \<in> set name")
  case False
  then show ?thesis by blast
next
  case True
  then obtain ys zs where "name = ys @ CHR ''.'' # zs" and "CHR ''.'' \<notin> set zs"
    by (meson split_list_last)
  then have "CHR ''.'' \<notin> set zs \<and> name = ys @ ''.'' @ zs" by simp
  then show ?thesis by blast
qed

section \<open>Properties of the handlers\<close>

lemmas prog_defs = bnd_def try_catch_def ret_def throw_def await_def emit_def modify_def
  log_def click_def arm_def close_context_def new_context_def notify_list_changed_def
  result_of_def store_of_def trace_of_def await_or_def

lemma strict_violation_includes: "str_includes strict_violation ''strict mode violation''"
  by (simp add: strict_violation_def)



text \<open>
  C2 fails on the code: \<^verbatim>\<open>BrowserNavigate\<close> and \<^verbatim>\<open>BrowserScreenshot\<close> await the
  driver outside any \<^verbatim>\<open>try\<close>, and \<^verbatim>\<open>ensureBrowser()\<close> is awaited before the
  \<^verbatim>\<open>switch\<close>. When \<^verbatim>\<open>page.goto\<close> rejects (an invalid URL, say), when the
  screenshot rejects, or when the browser cannot be launched, \<^verbatim>\<open>handleToolCall\<close> ends
  with the exception and no result object.
\<close>

theorem navigate_rejection_propagates:
  "result_of (handleToolCall (env\<lparr>te_ensureBrowser := Returned (), te_goto := Threw m\<rparr>)
       BrowserNavigateTool args st) = Threw m
   \<and> result_of (handleToolCall
         (env\<lparr>te_ensureBrowser := Returned (), te_screenshot := Threw m\<rparr>)
         BrowserScreenshotTool args st) = Threw m
   \<and> result_of (handleToolCall (env\<lparr>te_ensureBrowser := Threw m\<rparr>) name args st) = Threw m"
  by (simp add: handleToolCall_def BrowserNavigate_def BrowserScreenshot_def prog_defs)

text \<open>
  The other handlers end in a \<^verbatim>\<open>catch\<close> that returns a failure result: once the
  browser is there, they return a result object whatever the driver answers.
\<close>

lemma never_throws_try_catch:
  "(\<And>e. never_throws (h e)) \<Longrightarrow> never_throws (try_catch m h)"
  unfolding never_throws_def try_catch_def result_of_def
  by (auto split: prod.splits outcome.splits) (metis fst_conv)

lemma never_throws_ret: "never_throws (ret x)"
  by (simp add: never_throws_def ret_def result_of_def)

lemma never_throws_if:
  "never_throws p \<Longrightarrow> never_throws q \<Longrightarrow> never_throws (if b then p else q)"
  by simp

lemmas never_throws_intros = never_throws_try_catch never_throws_ret never_throws_if

lemma handlers_never_throw:
  "never_throws (BrowserClick a args)" "never_throws (BrowserClickText a args)"
  "never_throws (BrowserFill a args)" "never_throws (BrowserSelect a args)"
  "never_throws (BrowserSelectText a args)" "never_throws (BrowserHover a args)"
  "never_throws (BrowserHoverText a args)" "never_throws (BrowserEvaluate ev args)"
  "never_throws (BrowserClickAndCapture cc args)" "never_throws (BrowserDownloadPDF dp args)"
  "never_throws (BrowserForceDownload fd args)"
  "never_throws (BrowserAuthenticatedDownload ad args)"
  "never_throws (BrowserCaptureRequest cr args)" "never_throws (BrowserInterceptTabs it args)"
  "never_throws (BrowserClickAndExtractUrl ce args)"
  "never_throws (BrowserClickAndDownloadAuthenticated cd args)"
  unfolding BrowserClick_def BrowserClickText_def BrowserFill_def BrowserSelect_def
    BrowserSelectText_def BrowserHover_def BrowserHoverText_def BrowserEvaluate_def
    BrowserClickAndCapture_def BrowserDownloadPDF_def BrowserForceDownload_def
    BrowserAuthenticatedDownload_def BrowserCaptureRequest_def BrowserInterceptTabs_def
    BrowserClickAndExtractUrl_def BrowserClickAndDownloadAuthenticated_def
  by (intro never_throws_intros)+

lemma bnd_await_Returned: "bnd (await (Returned x)) f = f x"
  by (rule ext) (simp add: bnd_def await_def split: prod.splits)

lemma other_tools_return:
  assumes "te_ensureBrowser env = Returned ()"
    and "name \<noteq> BrowserNavigateTool" and "name \<noteq> BrowserScreenshotTool"
  shows "\<exists>r. result_of (handleToolCall env name args st) = Returned r"
proof -
  have "never_throws (handleToolCall env name args)"
    using assms
    by (cases name)
       (simp_all add: handleToolCall_def bnd_await_Returned handlers_never_throw
          never_throws_ret)
  then show ?thesis by (simp add: never_throws_def)
qed

text \<open>
  C1 fails on the code. \<^verbatim>\<open>BrowserForceDownload\<close> opens its context first. When the
  strict click is rejected for another reason than ambiguity the handler closes the
  context before it rethrows; when the click is ambiguous and the retry on the first match
  is rejected, the exception goes straight to the outer \<^verbatim>\<open>catch\<close>, which returns the
  failure result with the context still open.
\<close>

theorem force_download_leaks_context:
  "result_of (BrowserForceDownload
       (env\<lparr>fd_newContext := Returned (), fd_newPage := Returned (), fd_goto := Returned (),
            fd_click := Threw strict_violation, fd_click_first := Threw m\<rparr>) args st)
     = Returned (text_result (''Failed to force download: '' @ m) True)
   \<and> open_contexts (trace_of (BrowserForceDownload
       (env\<lparr>fd_newContext := Returned (), fd_newPage := Returned (), fd_goto := Returned (),
            fd_click := Threw strict_violation, fd_click_first := Threw m\<rparr>) args st)) = 1"
  using strict_violation_includes
  by (simp add: BrowserForceDownload_def prog_defs open_contexts_def)

text \<open>The sibling path: a rejection that is not an ambiguity closes the context first.\<close>

lemma force_download_closes_on_other_error:
  assumes "\<not> str_includes m ''strict mode violation''"
  shows "open_contexts (trace_of (BrowserForceDownload
       (env\<lparr>fd_newContext := Returned (), fd_newPage := Returned (), fd_goto := Returned (),
            fd_click := Threw m\<rparr>) args st)) = 0"
  using assms by (simp add: BrowserForceDownload_def prog_defs open_contexts_def)

text \<open>
  The same happens when \<^verbatim>\<open>context.newPage()\<close> or \<^verbatim>\<open>goto\<close> is rejected in
  \<^verbatim>\<open>BrowserForceDownload\<close>, when \<^verbatim>\<open>addCookies\<close> is rejected in
  \<^verbatim>\<open>BrowserAuthenticatedDownload\<close>, and when reading the cookies is rejected in
  \<^verbatim>\<open>BrowserInterceptTabs\<close>: the context is open when the handler returns.
\<close>

lemma force_download_leaks_on_goto:
  "open_contexts (trace_of (BrowserForceDownload
       (env\<lparr>fd_newContext := Returned (), fd_newPage := Returned (), fd_goto := Threw m\<rparr>)
       args st)) = 1"
  by (simp add: BrowserForceDownload_def prog_defs open_contexts_def)

lemma intercept_tabs_leaks_on_cookies:
  "open_contexts (trace_of (it_download_in_clone
       (env\<lparr>it_newContext := Returned (), it_cookies := Threw m\<rparr>) args pdfUrl st)) = 1"
  by (simp add: it_download_in_clone_def prog_defs open_contexts_def)

lemma authenticated_download_leaks_on_cookies:
  "open_contexts (trace_of (ad_clone_download
       (env\<lparr>ad_newContext := Returned (), ad_addCookies := Threw m\<rparr>) st)) = 1"
  by (simp add: ad_clone_download_def prog_defs open_contexts_def)

text \<open>
  C8: \<^verbatim>\<open>BrowserClickAndDownloadAuthenticated\<close>, when the click goes through (at once or
  on the retry on the first match), the download arrives, its temporary path is there and
  the file-system calls up to the write succeed: the handler creates \<^verbatim>\<open>/app/Downloads\<close>
  (\<^verbatim>\<open>mkdir\<close> with \<^verbatim>\<open>recursive: true\<close>), writes the downloaded bytes there under
  \<^verbatim>\<open>eps_<Month>_<day>_<year>\<close> followed by the extension of the suggested name
  (\<^verbatim>\<open>.unknown\<close> when it has none), then deletes the temporary file; if the deletion is
  rejected the handler logs it, and the call succeeds either way.
\<close>

theorem direct_download_saves:
  assumes clicked: "cd_click env = Returned ()
      \<or> (\<exists>e. cd_click env = Threw e \<and> str_includes e ''strict mode violation''
            \<and> cd_click_first env = Returned ())"
    and "cd_download env = Returned suggestedName"
    and "cd_path env = Returned (Some tempPath)" and "tempPath \<noteq> []"
    and "cd_readFile env = Returned fileBuffer"
    and "cd_mkdir env = Returned ()" and "cd_writeFile env = Returned ()"
    and "cd_month env < 12"
    and "dest = cd_join env ''/app/Downloads''
           (''eps_'' @ months ! cd_month env @ ''_'' @ show_nat (cd_date env) @ ''_''
             @ show_nat (cd_year env)
             @ (if cd_extname env suggestedName = [] then ''.unknown''
                else cd_extname env suggestedName))"
    and "run = BrowserClickAndDownloadAuthenticated env args st"
  shows "result_of run = Returned (text_result (''File successfully saved to '' @ dest) False)
       \<and> filter (\<lambda>e. \<not> is_click e) (trace_of run) =
           [Armed DownloadWait Primary, Mkdir ''/app/Downloads'', WriteFile dest fileBuffer,
            (case cd_unlink env of
               Returned _ \<Rightarrow> Unlink tempPath
             | Threw err \<Rightarrow> Log (''Failed to delete temp file '' @ tempPath @ '': '' @ err))]"
proof -
  have dest: "finalSavePath env suggestedName = dest"
    using assms(8,9) by (simp add: finalSavePath_def autoFileName_def downloadsPath_def
        at_index_def show_opt_def months_def)
  from clicked show ?thesis
  proof
    assume "cd_click env = Returned ()"
    then show ?thesis
      using assms(2-7,10) dest
      by (cases "cd_unlink env")
         (simp_all add: BrowserClickAndDownloadAuthenticated_def click_or_first_def prog_defs
            is_click_def downloadsPath_def)
  next
    assume "\<exists>e. cd_click env = Threw e \<and> str_includes e ''strict mode violation''
            \<and> cd_click_first env = Returned ()"
    then show ?thesis
      using assms(2-7,10) dest
      by (cases "cd_unlink env")
         (auto simp: BrowserClickAndDownloadAuthenticated_def click_or_first_def prog_defs
            is_click_def downloadsPath_def)
  qed
qed

theorem direct_download_saves_witness:
  "result_of (BrowserClickAndDownloadAuthenticated cd_sample sample_args empty_store) =
     Returned (text_result ''File successfully saved to /app/Downloads/eps_May_3_2025.pdf'' False)
   \<and> filter (\<lambda>e. \<not> is_click e)
        (trace_of (BrowserClickAndDownloadAuthenticated cd_sample sample_args empty_store)) =
       [Armed DownloadWait Primary, Mkdir ''/app/Downloads'',
        WriteFile ''/app/Downloads/eps_May_3_2025.pdf'' ''%PDF-1.7'',
        Log (''Failed to delete temp file /tmp/playwright-artifacts/4f2a: ''
              @ ''EPERM: operation not permitted'')]"
  using direct_download_saves [of cd_sample "''certificado.pdf''"
      "''/tmp/playwright-artifacts/4f2a''" "''%PDF-1.7''" _ _ sample_args empty_store,
      OF _ _ _ _ _ _ _ _ refl refl]
  by (simp add: cd_sample_def months_def show_nat.simps)

lemma first_report_target: "ce_first_report env = Some (t, url) \<Longrightarrow> isTargetUrl url"
proof -
  assume a: "ce_first_report env = Some (t, url)"
  then obtain rest where "filter (\<lambda>c. isTargetUrl (snd c)) (ce_captured env) = (t, url) # rest"
    by (auto simp: ce_first_report_def split: list.splits)
  then have "(t, url) \<in> set (filter (\<lambda>c. isTargetUrl (snd c)) (ce_captured env))"
    by simp
  then show ?thesis by simp
qed

text \<open>
  C6: \<^verbatim>\<open>BrowserClickAndExtractUrl\<close>, once the button is visible, the callback and the
  hooks are installed and the click has gone through. If the first URL the hook reports
  (a target-pattern URL) comes in \<open>t\<close> milliseconds into the race with \<open>t\<close> below the
  deadline, the call waits \<open>t\<close> only and returns that URL, whatever the later page reads
  would answer. If there is no report before the deadline, the call waits the whole
  deadline and its result is that of the fallback scan.
\<close>

theorem hook_report_ends_wait:
  assumes "ce_visible env = Returned True" and "ce_expose env = Returned ()"
    and "ce_install env = Returned ()" and "ce_click env = Returned ()"
    and "waitTime = or_default_nat (arg_waitTime args) 5000"
    and "run = BrowserClickAndExtractUrl env args st"
  shows "(\<forall>t url. ce_first_report env = Some (t, url) \<and> t < waitTime \<longrightarrow>
            result_of run = Returned (text_result url False)
            \<and> trace_of run =
                [Armed HookCallback Primary, Armed NavigationHook Primary,
                 Click Primary FirstMatch, Waited t])
       \<and> ((ce_first_report env = None
            \<or> (\<exists>t url. ce_first_report env = Some (t, url) \<and> waitTime \<le> t)) \<longrightarrow>
            trace_of run =
                [Armed HookCallback Primary, Armed NavigationHook Primary,
                 Click Primary FirstMatch, Waited waitTime]
            \<and> result_of run =
                result_of (try_catch (ce_fallback env args)
                  (\<lambda>error. ret (text_result (''Error during URL extraction: '' @ error) True))
                  st))"
proof (intro conjI allI impI)
  fix t url
  assume a: "ce_first_report env = Some (t, url) \<and> t < waitTime"
  then have "url \<noteq> []" using first_report_target [of env t url] by (simp add: isTargetUrl_def)
  with a assms show "result_of run = Returned (text_result url False)"
    by (simp add: BrowserClickAndExtractUrl_def ce_race_def prog_defs)
  from a assms \<open>url \<noteq> []\<close> show "trace_of run =
                [Armed HookCallback Primary, Armed NavigationHook Primary,
                 Click Primary FirstMatch, Waited t]"
    by (simp add: BrowserClickAndExtractUrl_def ce_race_def prog_defs)
next
  assume b: "ce_first_report env = None
            \<or> (\<exists>t url. ce_first_report env = Some (t, url) \<and> waitTime \<le> t)"
  have tr: "trace_of (ce_fallback env args st) = []"
    by (auto simp: ce_fallback_def prog_defs split: outcome.splits list.splits prod.splits)
  from b assms tr show "trace_of run =
                [Armed HookCallback Primary, Armed NavigationHook Primary,
                 Click Primary FirstMatch, Waited waitTime]"
    by (auto simp: BrowserClickAndExtractUrl_def ce_race_def prog_defs
        split: prod.splits outcome.splits)
  from b assms show "result_of run =
                result_of (try_catch (ce_fallback env args)
                  (\<lambda>error. ret (text_result (''Error during URL extraction: '' @ error) True))
                  st)"
    by (auto simp: BrowserClickAndExtractUrl_def ce_race_def prog_defs
        split: prod.splits outcome.splits)
qed

lemma ce_sample_first_report:
  "ce_first_report ce_sample = Some (120, ''https://portal.example/docs/file.pdf'')"
  by (simp add: ce_first_report_def ce_sample_def isTargetUrl_def endsWith_def toLowerCase_def
      toLowerChar_def)

theorem hook_report_ends_wait_witness:
  "result_of (BrowserClickAndExtractUrl ce_sample sample_args empty_store) =
     Returned (text_result ''https://portal.example/docs/file.pdf'' False)
   \<and> trace_of (BrowserClickAndExtractUrl ce_sample sample_args empty_store) =
       [Armed HookCallback Primary, Armed NavigationHook Primary, Click Primary FirstMatch,
        Waited 120]
   \<and> trace_of (BrowserClickAndExtractUrl (ce_sample\<lparr>ce_captured := []\<rparr>) sample_args
        empty_store) =
       [Armed HookCallback Primary, Armed NavigationHook Primary, Click Primary FirstMatch,
        Waited 5000]"
  using hook_report_ends_wait [of ce_sample 5000 sample_args _ empty_store, OF _ _ _ _ _ refl]
    hook_report_ends_wait [of "ce_sample\<lparr>ce_captured := []\<rparr>" 5000 sample_args _ empty_store,
      OF _ _ _ _ _ refl]
    ce_sample_first_report
  by (simp add: ce_sample_def sample_args_def or_default_nat_def ce_first_report_def)

section \<open>Properties of the network scan\<close>

text \<open>
  A run of \<^verbatim>\<open>BrowserCaptureRequest\<close>: one PDF response was recorded and its fetch gives
  nothing; the read of the links that follows is rejected. The handler returns at once:
  the recorded export request, whose fetch would deliver, is never tried.
\<close>

lemma capture_request_sample_run:
  "BrowserCaptureRequest cr_sample sample_args empty_store =
     (Returned (text_result ''Error capturing requests: Execution context was destroyed'' True),
      empty_store,
      [Armed RequestListener Primary, Armed ResponseListener Primary,
       Click Primary AllMatches,
       Log ''Attempting to download PDF from response: https://portal.example/cert/42.pdf''])"
  by (simp add: BrowserCaptureRequest_def cr_scan_def cr_sample_def sample_args_def
      click_or_first_def prog_defs not_false_def cr_pdfResponses_def is_pdf_response_def
      content_type_has_pdf_def indexed_def toLowerCase_def toLowerChar_def)

lemma logged_after_append:
  "logged_after pre (xs @ ys) = logged_after pre xs @ logged_after pre ys"
  by (induction pre xs rule: logged_after.induct) (auto split: option.splits)

lemma strip_prefix_append: "strip_prefix p (p @ s) = Some s"
  by (induction p) auto

lemmas attempt_defs = response_attempts_def link_attempts_def request_attempts_def

text \<open>The projections of a sequence.\<close>

lemma result_of_bnd:
  "result_of (bnd p f st) =
     (case result_of (p st) of
        Returned x \<Rightarrow> result_of (f x (store_of (p st)))
      | Threw e \<Rightarrow> Threw e)"
  by (simp add: prog_defs split: prod.splits outcome.splits)

lemma store_of_bnd:
  "store_of (bnd p f st) =
     (case result_of (p st) of
        Returned x \<Rightarrow> store_of (f x (store_of (p st)))
      | Threw e \<Rightarrow> store_of (p st))"
  by (simp add: prog_defs split: prod.splits outcome.splits)

lemma trace_of_bnd:
  "trace_of (bnd p f st) =
     trace_of (p st) @
     (case result_of (p st) of
        Returned x \<Rightarrow> trace_of (f x (store_of (p st)))
      | Threw e \<Rightarrow> [])"
  by (simp add: prog_defs split: prod.splits outcome.splits)

lemma resp_all_fail:
  assumes "\<forall>c \<in> set cs. \<not> delivers (cr_fetch_response env (fst c))"
  shows "result_of (cr_try_responses env args cs st) = Returned None
       \<and> store_of (cr_try_responses env args cs st) = st
       \<and> response_attempts (trace_of (cr_try_responses env args cs st)) = map (rs_url \<circ> snd) cs
       \<and> link_attempts (trace_of (cr_try_responses env args cs st)) = []
       \<and> request_attempts (trace_of (cr_try_responses env args cs st)) = []"
  using assms
proof (induction cs arbitrary: st)
  case Nil
  then show ?case
    by (simp add: prog_defs attempt_defs)
next
  case (Cons c cs)
  then have ih: "result_of (cr_try_responses env args cs st) = Returned None
       \<and> store_of (cr_try_responses env args cs st) = st
       \<and> response_attempts (trace_of (cr_try_responses env args cs st)) = map (rs_url \<circ> snd) cs
       \<and> link_attempts (trace_of (cr_try_responses env args cs st)) = []
       \<and> request_attempts (trace_of (cr_try_responses env args cs st)) = []"
    by simp
  from Cons.prems have nd: "\<not> delivers (cr_fetch_response env (fst c))" by simp
  obtain r s t where run: "cr_try_responses env args cs st = (r, s, t)"
    by (cases "cr_try_responses env args cs st")
  with ih have r: "r = Returned None" "s = st" "response_attempts t = map (rs_url \<circ> snd) cs"
     "link_attempts t = []" "request_attempts t = []"
    by (simp_all add: result_of_def store_of_def trace_of_def)
  show ?case
    using nd run r
    by (cases "cr_fetch_response env (fst c)")
       (simp_all add: prog_defs delivers_def attempt_defs strip_prefix_append
          logged_after_append)
qed

lemma resp_first_success:
  assumes "\<forall>c \<in> set pre. \<not> delivers (cr_fetch_response env (fst c))"
    and "cr_fetch_response env (fst c) = Returned bytes" and "bytes \<noteq> []"
  shows "\<exists>t. cr_try_responses env args (pre @ c # post) st =
           (Returned (Some (text_result
              (''Successfully downloaded PDF '' @ [CHR 0x22] @ arg_fileName args @ [CHR 0x22]
                @ '' from network request to '' @ rs_url (snd c)) False)),
            save_artifact (arg_fileName args) bytes ''application/pdf'' st, t)
         \<and> response_attempts t = map (rs_url \<circ> snd) (pre @ [c])
         \<and> link_attempts t = [] \<and> request_attempts t = []"
  using assms
proof (induction pre arbitrary: st)
  case Nil
  then show ?case
    by (simp add: prog_defs attempt_defs strip_prefix_append)
next
  case (Cons p pre)
  then obtain t where t: "cr_try_responses env args (pre @ c # post) st =
           (Returned (Some (text_result
              (''Successfully downloaded PDF '' @ [CHR 0x22] @ arg_fileName args @ [CHR 0x22]
                @ '' from network request to '' @ rs_url (snd c)) False)),
            save_artifact (arg_fileName args) bytes ''application/pdf'' st, t)"
     "response_attempts t = map (rs_url \<circ> snd) (pre @ [c])"
     "link_attempts t = []" "request_attempts t = []"
    by fastforce
  from Cons.prems have nd: "\<not> delivers (cr_fetch_response env (fst p))" by simp
  show ?case
    using nd t
    by (cases "cr_fetch_response env (fst p)")
       (simp_all add: prog_defs delivers_def attempt_defs strip_prefix_append
          logged_after_append)
qed

lemma link_all_fail:
  assumes "\<forall>c \<in> set cs. \<not> delivers (cr_fetch_link env (fst c))"
  shows "result_of (cr_try_links env args cs st) = Returned None
       \<and> store_of (cr_try_links env args cs st) = st
       \<and> response_attempts (trace_of (cr_try_links env args cs st)) = []
       \<and> link_attempts (trace_of (cr_try_links env args cs st)) = map snd cs
       \<and> request_attempts (trace_of (cr_try_links env args cs st)) = []"
  using assms
proof (induction cs arbitrary: st)
  case Nil
  then show ?case
    by (simp add: prog_defs attempt_defs)
next
  case (Cons c cs)
  then have ih: "result_of (cr_try_links env args cs st) = Returned None
       \<and> store_of (cr_try_links env args cs st) = st
       \<and> response_attempts (trace_of (cr_try_links env args cs st)) = []
       \<and> link_attempts (trace_of (cr_try_links env args cs st)) = map snd cs
       \<and> request_attempts (trace_of (cr_try_links env args cs st)) = []"
    by simp
  from Cons.prems have nd: "\<not> delivers (cr_fetch_link env (fst c))" by simp
  obtain r s t where run: "cr_try_links env args cs st = (r, s, t)"
    by (cases "cr_try_links env args cs st")
  with ih have r: "r = Returned None" "s = st" "response_attempts t = []"
     "link_attempts t = map snd cs" "request_attempts t = []"
    by (simp_all add: result_of_def store_of_def trace_of_def)
  show ?case
    using nd run r
    by (cases "cr_fetch_link env (fst c)")
       (simp_all add: prog_defs delivers_def attempt_defs strip_prefix_append
          logged_after_append)
qed

lemma link_first_success:
  assumes "\<forall>c \<in> set pre. \<not> delivers (cr_fetch_link env (fst c))"
    and "cr_fetch_link env (fst c) = Returned bytes" and "bytes \<noteq> []"
  shows "\<exists>t. cr_try_links env args (pre @ c # post) st =
           (Returned (Some (text_result
              (''Successfully downloaded PDF '' @ [CHR 0x22] @ arg_fileName args @ [CHR 0x22]
                @ '' from link: '' @ snd c) False)),
            save_artifact (arg_fileName args) bytes ''application/pdf'' st, t)
         \<and> response_attempts t = []
         \<and> link_attempts t = map snd (pre @ [c]) \<and> request_attempts t = []"
  using assms
proof (induction pre arbitrary: st)
  case Nil
  then show ?case
    by (simp add: prog_defs attempt_defs strip_prefix_append)
next
  case (Cons p pre)
  then obtain t where t: "cr_try_links env args (pre @ c # post) st =
           (Returned (Some (text_result
              (''Successfully downloaded PDF '' @ [CHR 0x22] @ arg_fileName args @ [CHR 0x22]
                @ '' from link: '' @ snd c) False)),
            save_artifact (arg_fileName args) bytes ''application/pdf'' st, t)"
     "response_attempts t = []"
     "link_attempts t = map snd (pre @ [c])" "request_attempts t = []"
    by fastforce
  from Cons.prems have nd: "\<not> delivers (cr_fetch_link env (fst p))" by simp
  show ?case
    using nd t
    by (cases "cr_fetch_link env (fst p)")
       (simp_all add: prog_defs delivers_def attempt_defs strip_prefix_append
          logged_after_append)
qed

lemma request_all_fail:
  assumes "\<forall>c \<in> set cs. \<not> delivers (cr_fetch_xhr env (fst c))"
  shows "result_of (cr_try_requests env args cs st) = Returned None
       \<and> store_of (cr_try_requests env args cs st) = st
       \<and> response_attempts (trace_of (cr_try_requests env args cs st)) = []
       \<and> link_attempts (trace_of (cr_try_requests env args cs st)) = []
       \<and> request_attempts (trace_of (cr_try_requests env args cs st)) = map (rq_url \<circ> snd) cs"
  using assms
proof (induction cs arbitrary: st)
  case Nil
  then show ?case
    by (simp add: prog_defs attempt_defs)
next
  case (Cons c cs)
  then have ih: "result_of (cr_try_requests env args cs st) = Returned None
       \<and> store_of (cr_try_requests env args cs st) = st
       \<and> response_attempts (trace_of (cr_try_requests env args cs st)) = []
       \<and> link_attempts (trace_of (cr_try_requests env args cs st)) = []
       \<and> request_attempts (trace_of (cr_try_requests env args cs st)) = map (rq_url \<circ> snd) cs"
    by simp
  from Cons.prems have nd: "\<not> delivers (cr_fetch_xhr env (fst c))" by simp
  obtain r s t where run: "cr_try_requests env args cs st = (r, s, t)"
    by (cases "cr_try_requests env args cs st")
  with ih have r: "r = Returned None" "s = st" "response_attempts t = []"
     "link_attempts t = []" "request_attempts t = map (rq_url \<circ> snd) cs"
    by (simp_all add: result_of_def store_of_def trace_of_def)
  show ?case
    using nd run r
    by (cases "cr_fetch_xhr env (fst c)")
       (simp_all add: prog_defs delivers_def attempt_defs strip_prefix_append
          logged_after_append)
qed

lemma request_first_success:
  assumes "\<forall>c \<in> set pre. \<not> delivers (cr_fetch_xhr env (fst c))"
    and "cr_fetch_xhr env (fst c) = Returned bytes" and "bytes \<noteq> []"
  shows "\<exists>t. cr_try_requests env args (pre @ c # post) st =
           (Returned (Some (text_result
              (''Successfully downloaded file '' @ [CHR 0x22] @ arg_fileName args @ [CHR 0x22]
                @ '' (type: '' @ cr_xhr_mime env (rq_url (snd c))
                @ '') from XHR request to '' @ rq_url (snd c)) False)),
            save_artifact (arg_fileName args) bytes (cr_xhr_mime env (rq_url (snd c))) st, t)
         \<and> response_attempts t = []
         \<and> link_attempts t = [] \<and> request_attempts t = map (rq_url \<circ> snd) (pre @ [c])"
  using assms
proof (induction pre arbitrary: st)
  case Nil
  then show ?case
    by (simp add: prog_defs attempt_defs strip_prefix_append)
next
  case (Cons p pre)
  then obtain t where t: "cr_try_requests env args (pre @ c # post) st =
           (Returned (Some (text_result
              (''Successfully downloaded file '' @ [CHR 0x22] @ arg_fileName args @ [CHR 0x22]
                @ '' (type: '' @ cr_xhr_mime env (rq_url (snd c))
                @ '') from XHR request to '' @ rq_url (snd c)) False)),
            save_artifact (arg_fileName args) bytes (cr_xhr_mime env (rq_url (snd c))) st, t)"
     "response_attempts t = []"
     "link_attempts t = []" "request_attempts t = map (rq_url \<circ> snd) (pre @ [c])"
    by fastforce
  from Cons.prems have nd: "\<not> delivers (cr_fetch_xhr env (fst p))" by simp
  show ?case
    using nd t
    by (cases "cr_fetch_xhr env (fst p)")
       (simp_all add: prog_defs delivers_def attempt_defs strip_prefix_append
          logged_after_append)
qed


lemma is_failure_cr_failure: "isError (cr_failure env args links)"
  by (simp add: cr_failure_def text_result_def)

lemma scan_resp_success:
  assumes "rev (indexed (cr_pdfResponses env)) = pre @ c # post"
    and "\<forall>p \<in> set pre. \<not> delivers (cr_fetch_response env (fst p))"
    and "delivers (cr_fetch_response env (fst c))"
  shows "is_success (result_of (cr_scan env args beforeLinks st))
       \<and> response_attempts (trace_of (cr_scan env args beforeLinks st)) =
           map (rs_url \<circ> snd) (pre @ [c])
       \<and> link_attempts (trace_of (cr_scan env args beforeLinks st)) = []
       \<and> request_attempts (trace_of (cr_scan env args beforeLinks st)) = []"
proof -
  from assms(3) obtain bytes where b: "cr_fetch_response env (fst c) = Returned bytes"
      "bytes \<noteq> []"
    by (auto simp: delivers_def split: outcome.splits)
  from resp_first_success [OF assms(2) b, of args post st] assms(1)
  show ?thesis
    by (auto simp: cr_scan_def prog_defs is_success_def text_result_def)
qed

lemma scan_link_success:
  assumes "\<forall>p \<in> set (rev (indexed (cr_pdfResponses env))).
             \<not> delivers (cr_fetch_response env (fst p))"
    and "cr_afterLinks env = Returned afterLinks"
    and "indexed (cr_pdfLinks beforeLinks afterLinks) = pre @ c # post"
    and "\<forall>p \<in> set pre. \<not> delivers (cr_fetch_link env (fst p))"
    and "delivers (cr_fetch_link env (fst c))"
  shows "is_success (result_of (cr_scan env args beforeLinks st))
       \<and> response_attempts (trace_of (cr_scan env args beforeLinks st)) =
           map (rs_url \<circ> snd) (rev (indexed (cr_pdfResponses env)))
       \<and> link_attempts (trace_of (cr_scan env args beforeLinks st)) = map snd (pre @ [c])
       \<and> request_attempts (trace_of (cr_scan env args beforeLinks st)) = []"
proof -
  from assms(5) obtain bytes where b: "cr_fetch_link env (fst c) = Returned bytes" "bytes \<noteq> []"
    by (auto simp: delivers_def split: outcome.splits)
  obtain t1 where r: "cr_try_responses env args (rev (indexed (cr_pdfResponses env))) st =
      (Returned None, st, t1)"
      "response_attempts t1 = map (rs_url \<circ> snd) (rev (indexed (cr_pdfResponses env)))"
      "link_attempts t1 = []" "request_attempts t1 = []"
    using resp_all_fail [OF assms(1), of args st]
    by (cases "cr_try_responses env args (rev (indexed (cr_pdfResponses env))) st")
       (simp add: result_of_def store_of_def trace_of_def)
  from link_first_success [OF assms(4) b, of args post st] assms(2,3) r
  show ?thesis
    by (auto simp: cr_scan_def prog_defs is_success_def text_result_def attempt_defs
        logged_after_append)
qed

lemma scan_request_success:
  assumes "\<forall>p \<in> set (rev (indexed (cr_pdfResponses env))).
             \<not> delivers (cr_fetch_response env (fst p))"
    and "cr_afterLinks env = Returned afterLinks"
    and "\<forall>p \<in> set (indexed (cr_pdfLinks beforeLinks afterLinks)).
             \<not> delivers (cr_fetch_link env (fst p))"
    and "rev (indexed (cr_potentialPdfRequests env)) = pre @ c # post"
    and "\<forall>p \<in> set pre. \<not> delivers (cr_fetch_xhr env (fst p))"
    and "delivers (cr_fetch_xhr env (fst c))"
  shows "is_success (result_of (cr_scan env args beforeLinks st))
       \<and> response_attempts (trace_of (cr_scan env args beforeLinks st)) =
           map (rs_url \<circ> snd) (rev (indexed (cr_pdfResponses env)))
       \<and> link_attempts (trace_of (cr_scan env args beforeLinks st)) =
           map snd (indexed (cr_pdfLinks beforeLinks afterLinks))
       \<and> request_attempts (trace_of (cr_scan env args beforeLinks st)) =
           map (rq_url \<circ> snd) (pre @ [c])"
proof -
  from assms(6) obtain bytes where b: "cr_fetch_xhr env (fst c) = Returned bytes" "bytes \<noteq> []"
    by (auto simp: delivers_def split: outcome.splits)
  obtain t1 where r: "cr_try_responses env args (rev (indexed (cr_pdfResponses env))) st =
      (Returned None, st, t1)"
      "response_attempts t1 = map (rs_url \<circ> snd) (rev (indexed (cr_pdfResponses env)))"
      "link_attempts t1 = []" "request_attempts t1 = []"
    using resp_all_fail [OF assms(1), of args st]
    by (cases "cr_try_responses env args (rev (indexed (cr_pdfResponses env))) st")
       (simp add: result_of_def store_of_def trace_of_def)
  obtain t2 where l: "cr_try_links env args (indexed (cr_pdfLinks beforeLinks afterLinks)) st =
      (Returned None, st, t2)"
      "response_attempts t2 = []"
      "link_attempts t2 = map snd (indexed (cr_pdfLinks beforeLinks afterLinks))"
      "request_attempts t2 = []"
    using link_all_fail [OF assms(3), of args st]
    by (cases "cr_try_links env args (indexed (cr_pdfLinks beforeLinks afterLinks)) st")
       (simp add: result_of_def store_of_def trace_of_def)
  from request_first_success [OF assms(5) b, of args post st] assms(2,4) r l
  show ?thesis
    by (auto simp: cr_scan_def prog_defs is_success_def text_result_def attempt_defs
        logged_after_append)
qed

lemma scan_all_fail:
  assumes "\<forall>p \<in> set (rev (indexed (cr_pdfResponses env))).
             \<not> delivers (cr_fetch_response env (fst p))"
    and "cr_afterLinks env = Returned afterLinks"
    and "\<forall>p \<in> set (indexed (cr_pdfLinks beforeLinks afterLinks)).
             \<not> delivers (cr_fetch_link env (fst p))"
    and "\<forall>p \<in> set (rev (indexed (cr_potentialPdfRequests env))).
             \<not> delivers (cr_fetch_xhr env (fst p))"
  shows "result_of (cr_scan env args beforeLinks st) =
           Returned (cr_failure env args (cr_pdfLinks beforeLinks afterLinks))
       \<and> store_of (cr_scan env args beforeLinks st) = st
       \<and> response_attempts (trace_of (cr_scan env args beforeLinks st)) =
           map (rs_url \<circ> snd) (rev (indexed (cr_pdfResponses env)))
       \<and> link_attempts (trace_of (cr_scan env args beforeLinks st)) =
           map snd (indexed (cr_pdfLinks beforeLinks afterLinks))
       \<and> request_attempts (trace_of (cr_scan env args beforeLinks st)) =
           map (rq_url \<circ> snd) (rev (indexed (cr_potentialPdfRequests env)))"
proof -
  obtain t1 where r: "cr_try_responses env args (rev (indexed (cr_pdfResponses env))) st =
      (Returned None, st, t1)"
      "response_attempts t1 = map (rs_url \<circ> snd) (rev (indexed (cr_pdfResponses env)))"
      "link_attempts t1 = []" "request_attempts t1 = []"
    using resp_all_fail [OF assms(1), of args st]
    by (cases "cr_try_responses env args (rev (indexed (cr_pdfResponses env))) st")
       (simp add: result_of_def store_of_def trace_of_def)
  obtain t2 where l: "cr_try_links env args (indexed (cr_pdfLinks beforeLinks afterLinks)) st =
      (Returned None, st, t2)"
      "response_attempts t2 = []"
      "link_attempts t2 = map snd (indexed (cr_pdfLinks beforeLinks afterLinks))"
      "request_attempts t2 = []"
    using link_all_fail [OF assms(3), of args st]
    by (cases "cr_try_links env args (indexed (cr_pdfLinks beforeLinks afterLinks)) st")
       (simp add: result_of_def store_of_def trace_of_def)
  obtain t3 where q: "cr_try_requests env args (rev (indexed (cr_potentialPdfRequests env))) st =
      (Returned None, st, t3)"
      "response_attempts t3 = []" "link_attempts t3 = []"
      "request_attempts t3 = map (rq_url \<circ> snd) (rev (indexed (cr_potentialPdfRequests env)))"
    using request_all_fail [OF assms(4), of args st]
    by (cases "cr_try_requests env args (rev (indexed (cr_potentialPdfRequests env))) st")
       (simp add: result_of_def store_of_def trace_of_def)
  from assms(2) r l q show ?thesis
    by (simp add: cr_scan_def prog_defs attempt_defs logged_after_append)
qed


lemma indexed_all: "(\<forall>p \<in> set (indexed xs). P (fst p)) \<longleftrightarrow> (\<forall>i < length xs. P i)"
  by (auto simp: indexed_def set_zip)

lemma map_snd_indexed: "map snd (indexed xs) = xs"
  by (simp add: indexed_def)

lemma length_indexed: "length (indexed xs) = length xs"
  by (simp add: indexed_def)

lemma indexed_nth: "i < length xs \<Longrightarrow> indexed xs ! i = (i, xs ! i)"
  by (simp add: indexed_def)

lemma indexed_split:
  assumes "i < length xs"
  shows "rev (indexed xs) =
           rev (drop (Suc i) (indexed xs)) @ (i, xs ! i) # rev (take i (indexed xs))"
proof -
  have "indexed xs = take i (indexed xs) @ indexed xs ! i # drop (Suc i) (indexed xs)"
    using assms by (simp add: id_take_nth_drop length_indexed)
  then have "rev (indexed xs) =
      rev (take i (indexed xs) @ indexed xs ! i # drop (Suc i) (indexed xs))"
    by simp
  then show ?thesis using assms by (simp add: indexed_nth)
qed

lemma indexed_drop_fst:
  "p \<in> set (drop k (indexed xs)) \<Longrightarrow> k \<le> fst p \<and> fst p < length xs"
  by (auto simp: indexed_def drop_zip set_zip)

lemma indexed_drop_snd: "map snd (drop k (indexed xs)) = drop k xs"
  by (simp add: indexed_def drop_zip)

lemma is_success_not_failure: "is_success r \<Longrightarrow> \<not> is_failure r"
  by (auto simp: is_success_def is_failure_def split: outcome.splits)

lemma capture_scan:
  assumes al: "cr_afterLinks env = Returned afterLinks"
    and pr: "pdfResponses = cr_pdfResponses env"
    and pl: "pdfLinks = cr_pdfLinks beforeLinks afterLinks"
    and pq: "requests = cr_potentialPdfRequests env"
    and run: "run = cr_scan env args beforeLinks st"
  shows "set pdfResponses =
           {r \<in> set (cr_responses env). 200 \<le> rs_status r \<and> rs_status r < 300
              \<and> (content_type_has_pdf r \<or> is_pdf_url (rs_url r))}
       \<and> (\<forall>i < length pdfResponses.
             delivers (cr_fetch_response env i)
             \<and> (\<forall>j. i < j \<and> j < length pdfResponses \<longrightarrow> \<not> delivers (cr_fetch_response env j))
             \<longrightarrow> is_success (result_of run)
                 \<and> response_attempts (trace_of run) = rev (map rs_url (drop i pdfResponses))
                 \<and> link_attempts (trace_of run) = []
                 \<and> request_attempts (trace_of run) = [])
       \<and> (is_failure (result_of run) \<longleftrightarrow>
             (\<forall>i < length pdfResponses. \<not> delivers (cr_fetch_response env i))
             \<and> (\<forall>i < length pdfLinks. \<not> delivers (cr_fetch_link env i))
             \<and> (\<forall>i < length requests. \<not> delivers (cr_fetch_xhr env i)))
       \<and> (\<not> is_failure (result_of run) \<longrightarrow> is_success (result_of run))
       \<and> (is_failure (result_of run) \<longrightarrow>
             result_of run = Returned (cr_failure env args pdfLinks)
             \<and> response_attempts (trace_of run) = rev (map rs_url pdfResponses)
             \<and> link_attempts (trace_of run) = pdfLinks
             \<and> request_attempts (trace_of run) = rev (map rq_url requests))
       \<and> (pdfResponses \<noteq> [] \<longrightarrow>
             cr_failure env args pdfLinks =
               text_result
                 (''Found PDF URL but couldn'' @ [CHR 0x27]
                   @ ''t download automatically. Manual download URL: ''
                   @ rs_url (last pdfResponses))
                 True)
       \<and> (pdfResponses = [] \<and> pdfLinks \<noteq> [] \<longrightarrow>
             cr_failure env args pdfLinks =
               text_result
                 (''Found PDF link but couldn'' @ [CHR 0x27]
                   @ ''t download automatically. Manual download URL: '' @ hd pdfLinks)
                 True)
       \<and> (pdfResponses = [] \<and> pdfLinks = [] \<and> requests \<noteq> [] \<longrightarrow>
             cr_failure env args pdfLinks =
               text_result
                 (''Found potential download request but couldn'' @ [CHR 0x27]
                   @ ''t extract file. URL: '' @ rq_url (last requests))
                 True)"
proof -
  let ?R = "rev (indexed (cr_pdfResponses env))"
  let ?L = "indexed (cr_pdfLinks beforeLinks afterLinks)"
  let ?Q = "rev (indexed (cr_potentialPdfRequests env))"
  let ?allR = "\<forall>p \<in> set ?R. \<not> delivers (cr_fetch_response env (fst p))"
  let ?allL = "\<forall>p \<in> set ?L. \<not> delivers (cr_fetch_link env (fst p))"
  let ?allQ = "\<forall>p \<in> set ?Q. \<not> delivers (cr_fetch_xhr env (fst p))"
  let ?iR = "\<forall>i < length pdfResponses. \<not> delivers (cr_fetch_response env i)"
  let ?iL = "\<forall>i < length pdfLinks. \<not> delivers (cr_fetch_link env i)"
  let ?iQ = "\<forall>i < length requests. \<not> delivers (cr_fetch_xhr env i)"
  have filt: "set pdfResponses =
           {r \<in> set (cr_responses env). 200 \<le> rs_status r \<and> rs_status r < 300
              \<and> (content_type_has_pdf r \<or> is_pdf_url (rs_url r))}"
    unfolding pr by (auto simp: cr_pdfResponses_def is_pdf_response_def is_pdf_url_def)
  have recent: "\<forall>i < length pdfResponses.
             delivers (cr_fetch_response env i)
             \<and> (\<forall>j. i < j \<and> j < length pdfResponses \<longrightarrow> \<not> delivers (cr_fetch_response env j))
             \<longrightarrow> is_success (result_of run)
                 \<and> response_attempts (trace_of run) = rev (map rs_url (drop i pdfResponses))
                 \<and> link_attempts (trace_of run) = []
                 \<and> request_attempts (trace_of run) = []"
  proof (intro allI impI)
    fix i
    assume i: "i < length pdfResponses"
    assume "delivers (cr_fetch_response env i)
        \<and> (\<forall>j. i < j \<and> j < length pdfResponses \<longrightarrow> \<not> delivers (cr_fetch_response env j))"
    then have d: "delivers (cr_fetch_response env i)"
      and later: "\<And>j. i < j \<Longrightarrow> j < length pdfResponses \<Longrightarrow>
                     \<not> delivers (cr_fetch_response env j)"
      by simp_all
    have split: "?R = rev (drop (Suc i) (indexed pdfResponses))
        @ (i, pdfResponses ! i) # rev (take i (indexed pdfResponses))"
      using indexed_split [OF i] pr by simp
    have pre: "\<forall>p \<in> set (rev (drop (Suc i) (indexed pdfResponses))).
        \<not> delivers (cr_fetch_response env (fst p))"
    proof
      fix p
      assume "p \<in> set (rev (drop (Suc i) (indexed pdfResponses)))"
      then have "p \<in> set (drop (Suc i) (indexed pdfResponses))" by simp
      then have "Suc i \<le> fst p \<and> fst p < length pdfResponses" by (rule indexed_drop_fst)
      then show "\<not> delivers (cr_fetch_response env (fst p))" using later by simp
    qed
    have eq: "rev (map rs_url (drop i pdfResponses)) =
        map (rs_url \<circ> snd)
          (rev (drop (Suc i) (indexed pdfResponses)) @ [(i, pdfResponses ! i)])"
    proof -
      have "drop i pdfResponses = pdfResponses ! i # drop (Suc i) pdfResponses"
        using i by (simp add: Cons_nth_drop_Suc)
      moreover have "map (rs_url \<circ> snd) (rev (drop (Suc i) (indexed pdfResponses))) =
          map rs_url (rev (drop (Suc i) pdfResponses))"
        by (metis map_map indexed_drop_snd rev_map)
      ultimately show ?thesis by (simp add: rev_map)
    qed
    have d': "delivers (cr_fetch_response env (fst (i, pdfResponses ! i)))"
      using d by simp
    show "is_success (result_of run)
                 \<and> response_attempts (trace_of run) = rev (map rs_url (drop i pdfResponses))
                 \<and> link_attempts (trace_of run) = []
                 \<and> request_attempts (trace_of run) = []"
      unfolding run eq
      by (rule scan_resp_success [OF split pre d'])
  qed
  have allR: "?allR \<longleftrightarrow> ?iR"
    using indexed_all [of "cr_pdfResponses env" "\<lambda>i. \<not> delivers (cr_fetch_response env i)"]
    by (simp add: pr)
  have allL: "?allL \<longleftrightarrow> ?iL"
    using indexed_all [of "cr_pdfLinks beforeLinks afterLinks"
        "\<lambda>i. \<not> delivers (cr_fetch_link env i)"]
    by (simp add: pl)
  have allQ: "?allQ \<longleftrightarrow> ?iQ"
    using indexed_all [of "cr_potentialPdfRequests env" "\<lambda>i. \<not> delivers (cr_fetch_xhr env i)"]
    by (simp add: pq)
  have succ: "is_success (result_of run)" if "\<not> (?iR \<and> ?iL \<and> ?iQ)"
  proof (cases ?allR)
    case False
    then obtain pre c post where "?R = pre @ c # post"
        "delivers (cr_fetch_response env (fst c))"
        "\<forall>p \<in> set pre. \<not> delivers (cr_fetch_response env (fst p))"
      using split_list_first_prop [of ?R "\<lambda>p. delivers (cr_fetch_response env (fst p))"]
      by blast
    then show ?thesis using scan_resp_success [of env pre c post args beforeLinks st] run
      by simp
  next
    case aR: True
    show ?thesis
    proof (cases ?allL)
      case False
      then obtain pre c post where "?L = pre @ c # post"
          "delivers (cr_fetch_link env (fst c))"
          "\<forall>p \<in> set pre. \<not> delivers (cr_fetch_link env (fst p))"
        using split_list_first_prop [of ?L "\<lambda>p. delivers (cr_fetch_link env (fst p))"]
        by blast
      then show ?thesis
        using scan_link_success [OF aR al, of beforeLinks pre c post args st] run by simp
    next
      case aL: True
      from aR aL that allR allL allQ have "\<not> ?allQ" by blast
      then obtain pre c post where "?Q = pre @ c # post"
          "delivers (cr_fetch_xhr env (fst c))"
          "\<forall>p \<in> set pre. \<not> delivers (cr_fetch_xhr env (fst p))"
        using split_list_first_prop [of ?Q "\<lambda>p. delivers (cr_fetch_xhr env (fst p))"]
        by blast
      then show ?thesis
        using scan_request_success [OF aR al aL, of pre c post args st] run by simp
    qed
  qed
  have fail: "result_of run = Returned (cr_failure env args pdfLinks)
             \<and> response_attempts (trace_of run) = rev (map rs_url pdfResponses)
             \<and> link_attempts (trace_of run) = pdfLinks
             \<and> request_attempts (trace_of run) = rev (map rq_url requests)"
    if a: "?iR \<and> ?iL \<and> ?iQ"
  proof -
    have e1: "map (rs_url \<circ> snd) ?R = rev (map rs_url pdfResponses)"
      unfolding pr by (metis map_map map_snd_indexed rev_map)
    have e2: "map (rq_url \<circ> snd) ?Q = rev (map rq_url requests)"
      unfolding pq by (metis map_map map_snd_indexed rev_map)
    have e3: "map snd ?L = pdfLinks"
      unfolding pl by (rule map_snd_indexed)
    from a allR allL allQ have aR: ?allR and aL: ?allL and aQ: ?allQ by blast+
    show ?thesis
      unfolding run e1 [symmetric] e2 [symmetric] e3 [symmetric]
      using scan_all_fail [OF aR al aL aQ, of args st]
      by (simp add: pl map_snd_indexed)
  qed
  have iff: "is_failure (result_of run) \<longleftrightarrow> (?iR \<and> ?iL \<and> ?iQ)"
  proof
    assume f: "is_failure (result_of run)"
    show "?iR \<and> ?iL \<and> ?iQ"
    proof (rule ccontr)
      assume "\<not> (?iR \<and> ?iL \<and> ?iQ)"
      then have "is_success (result_of run)" by (rule succ)
      with f show False using is_success_not_failure by blast
    qed
  next
    assume a: "?iR \<and> ?iL \<and> ?iQ"
    have "result_of run = Returned (cr_failure env args pdfLinks)"
      using fail [OF a] by simp
    then show "is_failure (result_of run)"
      by (simp add: is_failure_def is_failure_cr_failure)
  qed
  have succ': "\<not> is_failure (result_of run) \<longrightarrow> is_success (result_of run)"
    using iff succ by blast
  have fail': "is_failure (result_of run) \<longrightarrow>
             result_of run = Returned (cr_failure env args pdfLinks)
             \<and> response_attempts (trace_of run) = rev (map rs_url pdfResponses)
             \<and> link_attempts (trace_of run) = pdfLinks
             \<and> request_attempts (trace_of run) = rev (map rq_url requests)"
    using iff fail by blast
  have carries: "(pdfResponses \<noteq> [] \<longrightarrow>
             cr_failure env args pdfLinks =
               text_result
                 (''Found PDF URL but couldn'' @ [CHR 0x27]
                   @ ''t download automatically. Manual download URL: ''
                   @ rs_url (last pdfResponses))
                 True)
       \<and> (pdfResponses = [] \<and> pdfLinks \<noteq> [] \<longrightarrow>
             cr_failure env args pdfLinks =
               text_result
                 (''Found PDF link but couldn'' @ [CHR 0x27]
                   @ ''t download automatically. Manual download URL: '' @ hd pdfLinks)
                 True)
       \<and> (pdfResponses = [] \<and> pdfLinks = [] \<and> requests \<noteq> [] \<longrightarrow>
             cr_failure env args pdfLinks =
               text_result
                 (''Found potential download request but couldn'' @ [CHR 0x27]
                   @ ''t extract file. URL: '' @ rq_url (last requests))
                 True)"
    by (simp add: cr_failure_def pr pq)
  show ?thesis
    by (rule conjI [OF filt conjI [OF recent conjI [OF iff conjI [OF succ'
        conjI [OF fail' carries]]]]])
qed


lemma capture_request_bridge:
  assumes "cr_addInitScript env = Returned ()"
    and "cr_beforeLinks env = Returned beforeLinks"
    and "cr_click env = Returned ()
      \<or> (\<exists>e. cr_click env = Threw e \<and> str_includes e ''strict mode violation''
            \<and> cr_click_first env = Returned ())"
    and "cr_wait env = Returned ()"
    and "result_of (cr_scan env args beforeLinks st) = Returned r"
  shows "result_of (BrowserCaptureRequest env args st) = Returned r
       \<and> response_attempts (trace_of (BrowserCaptureRequest env args st)) =
           response_attempts (trace_of (cr_scan env args beforeLinks st))
       \<and> link_attempts (trace_of (BrowserCaptureRequest env args st)) =
           link_attempts (trace_of (cr_scan env args beforeLinks st))
       \<and> request_attempts (trace_of (BrowserCaptureRequest env args st)) =
           request_attempts (trace_of (cr_scan env args beforeLinks st))"
proof -
  obtain s t where scan: "cr_scan env args beforeLinks st = (Returned r, s, t)"
    using assms(5) by (cases "cr_scan env args beforeLinks st") (simp add: result_of_def)
  from assms(3) show ?thesis
  proof
    assume "cr_click env = Returned ()"
    with assms(1,2,4) scan show ?thesis
      by (simp add: BrowserCaptureRequest_def click_or_first_def prog_defs attempt_defs)
  next
    assume "\<exists>e. cr_click env = Threw e \<and> str_includes e ''strict mode violation''
            \<and> cr_click_first env = Returned ()"
    with assms(1,2,4) scan show ?thesis
      by (auto simp: BrowserCaptureRequest_def click_or_first_def prog_defs attempt_defs)
  qed
qed

text \<open>
  The sibling path. When the read of the links after the click is not rejected, the
  handler does what its candidate loops and its last block are written for.
  \<^item> The response candidates are the recorded responses with a status from 200 to 299 whose
    content type contains \<^verbatim>\<open>pdf\<close> or whose URL matches the PDF patterns.
  \<^item> They are attempted from the most recent one backwards: if candidate \<open>i\<close> delivers and
    no later one does, the call succeeds and the logged attempts are exactly the
    candidates from the last down to \<open>i\<close>.
  \<^item> The call fails if and only if no response candidate, no new PDF link and no
    candidate request delivers; otherwise it succeeds.
  \<^item> When it fails, every candidate of the three lists has been attempted and logged (the
    responses and the requests most recent first, the links in document order), and the
    failure carries the URL of the most recent response candidate, else of the first new
    link, else of the most recent candidate request.
\<close>

lemma capture_request_candidates:
  assumes init: "cr_addInitScript env = Returned ()"
    and before: "cr_beforeLinks env = Returned beforeLinks"
    and clicked: "cr_click env = Returned ()
      \<or> (\<exists>e. cr_click env = Threw e \<and> str_includes e ''strict mode violation''
            \<and> cr_click_first env = Returned ())"
    and wait: "cr_wait env = Returned ()"
    and al: "cr_afterLinks env = Returned afterLinks"
    and pr: "pdfResponses = cr_pdfResponses env"
    and pl: "pdfLinks = cr_pdfLinks beforeLinks afterLinks"
    and pq: "requests = cr_potentialPdfRequests env"
    and run: "run = BrowserCaptureRequest env args st"
  shows "set pdfResponses =
           {r \<in> set (cr_responses env). 200 \<le> rs_status r \<and> rs_status r < 300
              \<and> (content_type_has_pdf r \<or> is_pdf_url (rs_url r))}
       \<and> (\<forall>i < length pdfResponses.
             delivers (cr_fetch_response env i)
             \<and> (\<forall>j. i < j \<and> j < length pdfResponses \<longrightarrow> \<not> delivers (cr_fetch_response env j))
             \<longrightarrow> is_success (result_of run)
                 \<and> response_attempts (trace_of run) = rev (map rs_url (drop i pdfResponses))
                 \<and> link_attempts (trace_of run) = []
                 \<and> request_attempts (trace_of run) = [])
       \<and> (is_failure (result_of run) \<longleftrightarrow>
             (\<forall>i < length pdfResponses. \<not> delivers (cr_fetch_response env i))
             \<and> (\<forall>i < length pdfLinks. \<not> delivers (cr_fetch_link env i))
             \<and> (\<forall>i < length requests. \<not> delivers (cr_fetch_xhr env i)))
       \<and> (\<not> is_failure (result_of run) \<longrightarrow> is_success (result_of run))
       \<and> (is_failure (result_of run) \<longrightarrow>
             result_of run = Returned (cr_failure env args pdfLinks)
             \<and> response_attempts (trace_of run) = rev (map rs_url pdfResponses)
             \<and> link_attempts (trace_of run) = pdfLinks
             \<and> request_attempts (trace_of run) = rev (map rq_url requests))
       \<and> (pdfResponses \<noteq> [] \<longrightarrow>
             cr_failure env args pdfLinks =
               text_result
                 (''Found PDF URL but couldn'' @ [CHR 0x27]
                   @ ''t download automatically. Manual download URL: ''
                   @ rs_url (last pdfResponses))
                 True)
       \<and> (pdfResponses = [] \<and> pdfLinks \<noteq> [] \<longrightarrow>
             cr_failure env args pdfLinks =
               text_result
                 (''Found PDF link but couldn'' @ [CHR 0x27]
                   @ ''t download automatically. Manual download URL: '' @ hd pdfLinks)
                 True)
       \<and> (pdfResponses = [] \<and> pdfLinks = [] \<and> requests \<noteq> [] \<longrightarrow>
             cr_failure env args pdfLinks =
               text_result
                 (''Found potential download request but couldn'' @ [CHR 0x27]
                   @ ''t extract file. URL: '' @ rq_url (last requests))
                 True)"
proof -
  note scan = capture_scan [OF al pr pl pq refl, of args st]
  from scan have "is_failure (result_of (cr_scan env args beforeLinks st))
      \<or> is_success (result_of (cr_scan env args beforeLinks st))"
    by blast
  then obtain r where "result_of (cr_scan env args beforeLinks st) = Returned r"
    by (auto simp: is_failure_def is_success_def split: outcome.splits)
  from capture_request_bridge [OF init before clicked wait this]
  have eqs: "result_of run = result_of (cr_scan env args beforeLinks st)"
    "response_attempts (trace_of run) =
       response_attempts (trace_of (cr_scan env args beforeLinks st))"
    "link_attempts (trace_of run) = link_attempts (trace_of (cr_scan env args beforeLinks st))"
    "request_attempts (trace_of run) =
       request_attempts (trace_of (cr_scan env args beforeLinks st))"
    using \<open>result_of (cr_scan env args beforeLinks st) = Returned r\<close> by (simp_all add: run)
  show ?thesis unfolding eqs by (rule scan)
qed

lemma capture_request_candidates_example:
  "is_success (result_of (BrowserCaptureRequest (cr_sample\<lparr>cr_afterLinks := Returned []\<rparr>)
       sample_args empty_store))
   \<and> result_of (BrowserCaptureRequest
         (cr_sample\<lparr>cr_afterLinks := Returned [],
                    cr_fetch_xhr := (\<lambda>i. Threw ''net::ERR_FAILED'')\<rparr>)
         sample_args empty_store) =
       Returned (text_result
         (''Found PDF URL but couldn'' @ [CHR 0x27]
           @ ''t download automatically. Manual download URL: ''
           @ ''https://portal.example/cert/42.pdf'')
         True)
   \<and> response_attempts (trace_of (BrowserCaptureRequest
         (cr_sample\<lparr>cr_afterLinks := Returned [],
                    cr_fetch_xhr := (\<lambda>i. Threw ''net::ERR_FAILED'')\<rparr>)
         sample_args empty_store)) = [''https://portal.example/cert/42.pdf'']"
proof -
  let ?e1 = "cr_sample\<lparr>cr_afterLinks := Returned []\<rparr>"
  let ?e2 = "cr_sample\<lparr>cr_afterLinks := Returned [],
                    cr_fetch_xhr := (\<lambda>i. Threw ''net::ERR_FAILED'')\<rparr>"
  let ?resp = "\<lparr>rs_url = ''https://portal.example/cert/42.pdf'', rs_status = 200,
          rs_headers = [(''content-type'', ''application/pdf'')]\<rparr>"
  let ?req = "\<lparr>rq_url = ''https://portal.example/api/export'', rq_resourceType = ''xhr'',
          rq_method = ''POST''\<rparr>"
  have resp: "is_pdf_response ?resp"
    by (simp add: is_pdf_response_def content_type_has_pdf_def toLowerCase_def toLowerChar_def)
  have req: "is_potential_request ?req"
    by (simp add: is_potential_request_def toLowerCase_def toLowerChar_def)
  have r: "cr_pdfResponses ?e1 = [?resp]" "cr_pdfResponses ?e2 = [?resp]"
    using resp by (simp_all add: cr_pdfResponses_def cr_sample_def)
  have q: "cr_potentialPdfRequests ?e1 = [?req]" "cr_potentialPdfRequests ?e2 = [?req]"
    using req by (simp_all add: cr_potentialPdfRequests_def cr_sample_def)
  have l: "cr_pdfLinks [] [] = []"
    by (simp add: cr_pdfLinks_def)
  have f: "cr_fetch_response ?e1 = (\<lambda>i. Returned [])" "cr_fetch_xhr ?e1 = (\<lambda>i. Returned ''JVBERi0='')"
    "cr_fetch_response ?e2 = (\<lambda>i. Returned [])" "cr_fetch_xhr ?e2 = (\<lambda>i. Threw ''net::ERR_FAILED'')"
    by (simp_all add: cr_sample_def)
  have h1: "cr_addInitScript ?e1 = Returned ()" "cr_beforeLinks ?e1 = Returned []"
    "cr_click ?e1 = Returned ()" "cr_wait ?e1 = Returned ()" "cr_afterLinks ?e1 = Returned []"
    by (simp_all add: cr_sample_def)
  have h2: "cr_addInitScript ?e2 = Returned ()" "cr_beforeLinks ?e2 = Returned []"
    "cr_click ?e2 = Returned ()" "cr_wait ?e2 = Returned ()" "cr_afterLinks ?e2 = Returned []"
    by (simp_all add: cr_sample_def)
  note t1 = capture_request_candidates [of ?e1 "[]" "[]" _ _ _ _ sample_args empty_store,
      OF h1(1) h1(2) disjI1 [OF h1(3)] h1(4) h1(5) refl refl refl refl, unfolded r q l f]
  note t2 = capture_request_candidates [of ?e2 "[]" "[]" _ _ _ _ sample_args empty_store,
      OF h2(1) h2(2) disjI1 [OF h2(3)] h2(4) h2(5) refl refl refl refl, unfolded r q l f]
  from t1 have a: "is_success (result_of (BrowserCaptureRequest ?e1 sample_args empty_store))"
    by (simp add: delivers_def)
  from t2 have b: "is_failure (result_of (BrowserCaptureRequest ?e2 sample_args empty_store))"
    by (simp add: delivers_def)
  from t2 b show ?thesis using a by simp
qed

text \<open>
  C5 fails on the code. Each candidate fetch of \<^verbatim>\<open>BrowserCaptureRequest\<close> is guarded by
  its own \<^verbatim>\<open>try\<close>, and the last block hands out the URL of a candidate that could not
  be fetched. The read of the page's links between the response candidates and the link
  candidates is not guarded. Whatever was recorded, when the click and the wait have gone
  through, no response candidate yields a payload and that read is rejected with \<open>m\<close>, the
  outer \<^verbatim>\<open>catch\<close> returns \<^verbatim>\<open>Error capturing requests\<close> at once: the response
  candidates have been attempted, no link and no candidate request is attempted (also
  when fetching one would deliver), nothing is stored and the failure carries no URL.
\<close>

theorem capture_request_links_read_aborts:
  "result_of (BrowserCaptureRequest
       (env\<lparr>cr_addInitScript := Returned (), cr_beforeLinks := Returned beforeLinks,
            cr_click := Returned (), cr_wait := Returned (),
            cr_fetch_response := (\<lambda>i. Returned []), cr_afterLinks := Threw m\<rparr>) args st)
     = Returned (text_result (''Error capturing requests: '' @ m) True)
   \<and> store_of (BrowserCaptureRequest
       (env\<lparr>cr_addInitScript := Returned (), cr_beforeLinks := Returned beforeLinks,
            cr_click := Returned (), cr_wait := Returned (),
            cr_fetch_response := (\<lambda>i. Returned []), cr_afterLinks := Threw m\<rparr>) args st) = st
   \<and> response_attempts (trace_of (BrowserCaptureRequest
       (env\<lparr>cr_addInitScript := Returned (), cr_beforeLinks := Returned beforeLinks,
            cr_click := Returned (), cr_wait := Returned (),
            cr_fetch_response := (\<lambda>i. Returned []), cr_afterLinks := Threw m\<rparr>) args st))
     = rev (map rs_url (filter is_pdf_response (cr_responses env)))
   \<and> link_attempts (trace_of (BrowserCaptureRequest
       (env\<lparr>cr_addInitScript := Returned (), cr_beforeLinks := Returned beforeLinks,
            cr_click := Returned (), cr_wait := Returned (),
            cr_fetch_response := (\<lambda>i. Returned []), cr_afterLinks := Threw m\<rparr>) args st)) = []
   \<and> request_attempts (trace_of (BrowserCaptureRequest
       (env\<lparr>cr_addInitScript := Returned (), cr_beforeLinks := Returned beforeLinks,
            cr_click := Returned (), cr_wait := Returned (),
            cr_fetch_response := (\<lambda>i. Returned []), cr_afterLinks := Threw m\<rparr>) args st)) = []"
proof -
  let ?e = "env\<lparr>cr_addInitScript := Returned (), cr_beforeLinks := Returned beforeLinks,
            cr_click := Returned (), cr_wait := Returned (),
            cr_fetch_response := (\<lambda>i. Returned []), cr_afterLinks := Threw m\<rparr>"
  let ?cs = "rev (indexed (filter is_pdf_response (cr_responses env)))"
  have pr: "cr_pdfResponses ?e = filter is_pdf_response (cr_responses env)"
    by (simp add: cr_pdfResponses_def)
  have nd: "\<forall>c \<in> set ?cs. \<not> delivers (cr_fetch_response ?e (fst c))"
    by (simp add: delivers_def)
  obtain t1 where r: "cr_try_responses ?e args ?cs st = (Returned None, st, t1)"
      "response_attempts t1 = map (rs_url \<circ> snd) ?cs"
      "link_attempts t1 = []" "request_attempts t1 = []"
    using resp_all_fail [OF nd, of args st]
    by (cases "cr_try_responses ?e args ?cs st")
       (simp add: result_of_def store_of_def trace_of_def)
  have at: "map (rs_url \<circ> snd) ?cs = rev (map rs_url (filter is_pdf_response (cr_responses env)))"
    by (metis map_map map_snd_indexed rev_map)
  have scan: "cr_scan ?e args beforeLinks st = (Threw m, st, t1)"
    using r(1) by (simp add: cr_scan_def pr bnd_def await_def)
  have run: "BrowserCaptureRequest ?e args st =
      (Returned (text_result (''Error capturing requests: '' @ m) True), st,
       [Armed RequestListener Primary, Armed ResponseListener Primary,
        Click Primary AllMatches] @ t1)"
    unfolding BrowserCaptureRequest_def
    using scan by (simp add: click_or_first_def prog_defs)
  show ?thesis
    unfolding run using r(2-4) at
    by (simp add: result_of_def store_of_def trace_of_def attempt_defs logged_after_append)
qed
section \<open>Properties of the order of arming and clicking\<close>

lemma observers_append: "observers (xs @ ys) = observers xs @ observers ys"
  by (induction xs rule: observers.induct) simp_all

lemma clicks_on_append: "clicks_on S (xs @ ys) = (clicks_on S xs \<or> clicks_on S ys)"
  by (induction S xs rule: clicks_on.induct) simp_all

lemma after_click_none: "\<not> clicks_on S xs \<Longrightarrow> after_click S xs = []"
  by (induction S xs rule: clicks_on.induct) simp_all

lemma after_click_append:
  "after_click S (xs @ ys) =
     (if clicks_on S xs then after_click S xs @ ys else after_click S ys)"
  by (induction S xs rule: after_click.induct) simp_all

lemma observers_after_click: "set (observers (after_click S es)) \<subseteq> set (observers es)"
  by (induction S es rule: after_click.induct) auto

lemma late_Nil: "late S b [] = []"
  by (simp add: late_def)

lemma late_append: "late S b (xs @ ys) = late S b xs @ late S (b \<or> clicks_on S xs) ys"
  by (simp add: late_def observers_append after_click_append after_click_none)

lemma late_mono: "(b \<Longrightarrow> b') \<Longrightarrow> set (late S b es) \<subseteq> set (late S b' es)"
  using observers_after_click [of S es] by (auto simp: late_def)

lemma orderedI:
  assumes "\<And>st. set (late S b (trace_of (p st))) \<subseteq> A"
    and "\<And>st. b \<or> clicks_on S (trace_of (p st)) \<Longrightarrow> b'"
  shows "ordered S A b p b'"
  using assms by (auto simp: ordered_def)

lemma orderedD1: "ordered S A b p b' \<Longrightarrow> set (late S b (trace_of (p st))) \<subseteq> A"
  by (simp add: ordered_def)

lemma orderedD2: "ordered S A b p b' \<Longrightarrow> b \<or> clicks_on S (trace_of (p st)) \<Longrightarrow> b'"
  by (auto simp: ordered_def)

lemma ordered_post: "ordered S A b p b' \<Longrightarrow> b \<Longrightarrow> b'"
  by (auto simp: ordered_def)

lemma ordered_seq:
  assumes xs: "set (late S b xs) \<subseteq> A" and b1: "b \<or> clicks_on S xs \<Longrightarrow> b1"
    and ys: "set (late S b1 ys) \<subseteq> A"
  shows "set (late S b (xs @ ys)) \<subseteq> A"
proof -
  have "set (late S (b \<or> clicks_on S xs) ys) \<subseteq> set (late S b1 ys)"
    by (rule late_mono) (rule b1)
  with xs ys show ?thesis by (auto simp: late_append)
qed

lemma ordered_ret: "ordered S A b (ret x) b"
  by (simp add: ordered_def late_def prog_defs)

lemma ordered_throw: "ordered S A b (throw e) b"
  by (simp add: ordered_def late_def prog_defs)

lemma ordered_await: "ordered S A b (await r) b"
  by (simp add: ordered_def late_def prog_defs)

lemma ordered_modify: "ordered S A b (modify f) b"
  by (simp add: ordered_def late_def prog_defs)

lemma ordered_log: "ordered S A b (log l) b"
  by (simp add: ordered_def late_def prog_defs)

lemma ordered_emit_other:
  "ordered S A b (emit ContextOpened) b" "ordered S A b (emit ContextClosed) b"
  "ordered S A b (emit Notified) b" "ordered S A b (emit (Mkdir d)) b"
  "ordered S A b (emit (WriteFile f c)) b" "ordered S A b (emit (Unlink f)) b"
  "ordered S A b (emit (Waited n)) b" "ordered S A b (emit (Log l)) b"
  by (simp_all add: ordered_def late_def prog_defs)

lemma ordered_close: "ordered S A b close_context b"
  by (simp add: ordered_def late_def prog_defs)

lemma ordered_notify: "ordered S A b notify_list_changed b"
  by (simp add: ordered_def late_def prog_defs)

text \<open>An observer may be registered when no click on \<open>S\<close> came before, or when it is in \<open>A\<close>.\<close>

lemma ordered_arm: "(b \<Longrightarrow> (ob, s) \<in> A) \<Longrightarrow> ordered S A b (arm ob s) b"
  by (auto simp: ordered_def late_def prog_defs)

lemma ordered_click: "ordered S A b (click s t r) (b \<or> s \<in> S)"
  by (cases r) (auto simp: ordered_def late_def prog_defs)

lemma trace_of_try_catch:
  "trace_of (try_catch p h st) =
     trace_of (p st) @
     (case result_of (p st) of
        Returned x \<Rightarrow> []
      | Threw e \<Rightarrow> trace_of (h e (store_of (p st))))"
  by (simp add: prog_defs split: prod.splits outcome.splits)

lemma ordered_bnd:
  assumes p: "ordered S A b p b1" and f: "\<And>x. ordered S A b1 (f x) b2"
  shows "ordered S A b (bnd p f) b2"
proof (rule orderedI)
  fix st
  let ?rest = "case result_of (p st) of
                 Returned x \<Rightarrow> trace_of (f x (store_of (p st)))
               | Threw e \<Rightarrow> []"
  have tr: "trace_of (bnd p f st) = trace_of (p st) @ ?rest"
    by (simp add: trace_of_bnd)
  have "set (late S b (trace_of (p st) @ ?rest)) \<subseteq> A"
  proof (rule ordered_seq)
    show "set (late S b (trace_of (p st))) \<subseteq> A" by (rule orderedD1 [OF p])
    show "b \<or> clicks_on S (trace_of (p st)) \<Longrightarrow> b1" by (rule orderedD2 [OF p])
    show "set (late S b1 ?rest) \<subseteq> A"
      using orderedD1 [OF f] by (simp add: late_Nil split: outcome.splits)
  qed
  then show "set (late S b (trace_of (bnd p f st))) \<subseteq> A" by (simp only: tr)
  assume "b \<or> clicks_on S (trace_of (bnd p f st))"
  then have "(b \<or> clicks_on S (trace_of (p st))) \<or> clicks_on S ?rest"
    by (auto simp: tr clicks_on_append)
  then show b2
  proof
    assume "b \<or> clicks_on S (trace_of (p st))"
    then have b1 by (rule orderedD2 [OF p])
    then show b2 by (rule ordered_post [OF f])
  next
    assume "clicks_on S ?rest"
    then show b2 using orderedD2 [OF f] by (auto split: outcome.splits)
  qed
qed

lemma ordered_try:
  assumes p: "ordered S A b p b1" and h: "\<And>e. ordered S A b1 (h e) b2"
  shows "ordered S A b (try_catch p h) b2"
proof (rule orderedI)
  fix st
  let ?rest = "case result_of (p st) of
                 Returned x \<Rightarrow> []
               | Threw e \<Rightarrow> trace_of (h e (store_of (p st)))"
  have tr: "trace_of (try_catch p h st) = trace_of (p st) @ ?rest"
    by (simp add: trace_of_try_catch)
  have "set (late S b (trace_of (p st) @ ?rest)) \<subseteq> A"
  proof (rule ordered_seq)
    show "set (late S b (trace_of (p st))) \<subseteq> A" by (rule orderedD1 [OF p])
    show "b \<or> clicks_on S (trace_of (p st)) \<Longrightarrow> b1" by (rule orderedD2 [OF p])
    show "set (late S b1 ?rest) \<subseteq> A"
      using orderedD1 [OF h] by (simp add: late_Nil split: outcome.splits)
  qed
  then show "set (late S b (trace_of (try_catch p h st))) \<subseteq> A" by (simp only: tr)
  assume "b \<or> clicks_on S (trace_of (try_catch p h st))"
  then have "(b \<or> clicks_on S (trace_of (p st))) \<or> clicks_on S ?rest"
    by (auto simp: tr clicks_on_append)
  then show b2
  proof
    assume "b \<or> clicks_on S (trace_of (p st))"
    then have b1 by (rule orderedD2 [OF p])
    then show b2 by (rule ordered_post [OF h])
  next
    assume "clicks_on S ?rest"
    then show b2 using orderedD2 [OF h] by (auto split: outcome.splits)
  qed
qed

lemma ordered_weaken: "ordered S A b p b1 \<Longrightarrow> (b1 \<Longrightarrow> b2) \<Longrightarrow> ordered S A b p b2"
  by (auto simp: ordered_def)

lemma ordered_if:
  "ordered S A b p b1 \<Longrightarrow> ordered S A b q b2 \<Longrightarrow>
   ordered S A b (if c then p else q) (b1 \<or> b2)"
  by (cases c) (auto intro: ordered_weaken)

lemma ordered_case_option:
  "ordered S A b p b1 \<Longrightarrow> (\<And>y. ordered S A b (q y) b2) \<Longrightarrow>
   ordered S A b (case x of None \<Rightarrow> p | Some y \<Rightarrow> q y) (b1 \<or> b2)"
  by (cases x) (auto intro: ordered_weaken)

lemma ordered_case_list:
  "ordered S A b p b1 \<Longrightarrow> (\<And>y ys. ordered S A b (q y ys) b2) \<Longrightarrow>
   ordered S A b (case x of [] \<Rightarrow> p | y # ys \<Rightarrow> q y ys) (b1 \<or> b2)"
  by (cases x) (auto intro: ordered_weaken)

lemma ordered_case_sum:
  "(\<And>y. ordered S A b (p y) b1) \<Longrightarrow> (\<And>y. ordered S A b (q y) b2) \<Longrightarrow>
   ordered S A b (case x of Inl y \<Rightarrow> p y | Inr y \<Rightarrow> q y) (b1 \<or> b2)"
  by (cases x) (auto intro: ordered_weaken)

lemma ordered_case_prod:
  "(\<And>y z. ordered S A b (f y z) b') \<Longrightarrow> ordered S A b (case x of (y, z) \<Rightarrow> f y z) b'"
  by (cases x) simp

lemma ordered_new_context: "ordered S A b (new_context r) b"
  unfolding new_context_def by (rule ordered_bnd ordered_await ordered_emit_other)+

lemma ordered_await_or: "ordered S A b (await_or r d) b"
  unfolding await_or_def by (rule ordered_try ordered_await ordered_ret)+

lemma ordered_click_or_first: "ordered S A b (click_or_first s c1 c2) (b \<or> s \<in> S)"
  unfolding click_or_first_def
  by (rule ordered_try [OF ordered_click])
     (auto intro: ordered_weaken [OF ordered_click] ordered_throw)

lemma ordered_read_download: "ordered S A b (read_download p r) b"
  unfolding read_download_def
  by (rule ordered_bnd [OF ordered_await])
     (auto split: option.splits intro: ordered_throw ordered_await)

lemmas ordered_intros = ordered_bnd ordered_try ordered_if ordered_case_option
  ordered_case_list ordered_case_sum ordered_case_prod ordered_ret ordered_throw
  ordered_await ordered_modify ordered_log ordered_emit_other ordered_close ordered_notify
  ordered_click ordered_new_context ordered_await_or ordered_click_or_first
  ordered_read_download

lemma ordered_cr_try_responses: "ordered S A b (cr_try_responses env args cs) b"
proof (induction cs arbitrary: b)
  case Nil
  show ?case by (simp add: ordered_ret)
next
  case (Cons c cs)
  show ?case
    unfolding cr_try_responses.simps
    by (rule ordered_weaken, (rule ordered_intros Cons)+, simp)
qed

lemma ordered_cr_try_links: "ordered S A b (cr_try_links env args cs) b"
proof (induction cs arbitrary: b)
  case Nil
  show ?case by (simp add: ordered_ret)
next
  case (Cons c cs)
  show ?case
    unfolding cr_try_links.simps
    by (rule ordered_weaken, (rule ordered_intros Cons)+, simp)
qed

lemma ordered_cr_try_requests: "ordered S A b (cr_try_requests env args cs) b"
proof (induction cs arbitrary: b)
  case Nil
  show ?case by (simp add: ordered_ret)
next
  case (Cons c cs)
  show ?case
    unfolding cr_try_requests.simps
    by (rule ordered_weaken, (rule ordered_intros Cons)+, simp)
qed

lemmas ordered_loops = ordered_cr_try_responses ordered_cr_try_links ordered_cr_try_requests

text \<open>
  The handlers that register every observer before their first click: the judgement holds
  for every set of surfaces and with no observer allowed late.
\<close>

lemma ordered_element_actions:
  "\<exists>b'. ordered S A False (BrowserClick a args) b'"
  "\<exists>b'. ordered S A False (BrowserClickText a args) b'"
  "\<exists>b'. ordered S A False (BrowserFill a args) b'"
  "\<exists>b'. ordered S A False (BrowserSelect a args) b'"
  "\<exists>b'. ordered S A False (BrowserSelectText a args) b'"
  "\<exists>b'. ordered S A False (BrowserHover a args) b'"
  "\<exists>b'. ordered S A False (BrowserHoverText a args) b'"
  unfolding BrowserClick_def BrowserClickText_def BrowserFill_def BrowserSelect_def
    BrowserSelectText_def BrowserHover_def BrowserHoverText_def
  by ((rule exI, (rule ordered_intros)+)+)

lemma ordered_basic:
  "\<exists>b'. ordered S A False (BrowserNavigate g args) b'"
  "\<exists>b'. ordered S A False (BrowserScreenshot sh args) b'"
  "\<exists>b'. ordered S A False (BrowserEvaluate ev args) b'"
  unfolding BrowserNavigate_def BrowserScreenshot_def BrowserEvaluate_def
  by ((rule exI, (rule ordered_intros)+)+)

lemma ordered_BrowserClickAndCapture:
  "\<exists>b'. ordered S A False (BrowserClickAndCapture env args) b'"
  unfolding BrowserClickAndCapture_def
  by (rule exI) (rule ordered_intros ordered_arm | simp)+

lemma ordered_BrowserForceDownload:
  "\<exists>b'. ordered S A False (BrowserForceDownload env args) b'"
  unfolding BrowserForceDownload_def fd_strategy1_def fd_strategy2_def fd_strategy3_def
  by (rule exI) (rule ordered_intros ordered_arm | simp)+

lemma ordered_BrowserCaptureRequest:
  "\<exists>b'. ordered S A False (BrowserCaptureRequest env args) b'"
  unfolding BrowserCaptureRequest_def cr_scan_def
  by (rule exI) (rule ordered_intros ordered_loops ordered_arm | simp)+

lemma ordered_BrowserClickAndExtractUrl:
  "\<exists>b'. ordered S A False (BrowserClickAndExtractUrl env args) b'"
  unfolding BrowserClickAndExtractUrl_def ce_race_def ce_fallback_def
  by (rule exI) (rule ordered_intros ordered_arm | simp)+

lemma ordered_BrowserClickAndDownloadAuthenticated:
  "\<exists>b'. ordered S A False (BrowserClickAndDownloadAuthenticated env args) b'"
  unfolding BrowserClickAndDownloadAuthenticated_def
  by (rule exI) (rule ordered_intros ordered_arm | simp)+

lemmas ordered_early = ordered_element_actions ordered_basic ordered_BrowserClickAndCapture
  ordered_BrowserForceDownload ordered_BrowserCaptureRequest
  ordered_BrowserClickAndExtractUrl ordered_BrowserClickAndDownloadAuthenticated

text \<open>
  The three handlers that go on in a separate context after the click on the primary
  page: the download wait they set on the page of that context comes after that click.
\<close>

lemma ordered_BrowserDownloadPDF:
  assumes "Primary \<in> S \<Longrightarrow> (DownloadWait, Auxiliary) \<in> A"
  shows "\<exists>b'. ordered S A False (BrowserDownloadPDF env args) b'"
  unfolding BrowserDownloadPDF_def dp_process_def dp_direct_download_def
  by (rule exI) (rule ordered_intros ordered_arm | simp add: assms)+

lemma ordered_BrowserAuthenticatedDownload:
  assumes "Primary \<in> S \<Longrightarrow> (DownloadWait, Auxiliary) \<in> A"
  shows "\<exists>b'. ordered S A False (BrowserAuthenticatedDownload env args) b'"
  unfolding BrowserAuthenticatedDownload_def ad_new_page_def ad_from_links_def
    ad_clone_download_def
  by (rule exI) (rule ordered_intros ordered_arm | simp add: assms)+

lemma ordered_BrowserInterceptTabs:
  assumes "Primary \<in> S \<Longrightarrow> (DownloadWait, Auxiliary) \<in> A"
  shows "\<exists>b'. ordered S A False (BrowserInterceptTabs env args) b'"
  unfolding BrowserInterceptTabs_def it_download_in_clone_def
  by (rule exI) (rule ordered_intros ordered_arm | simp add: assms)+

lemma ordered_after_ensure:
  assumes "\<exists>b'. ordered S A False p b'"
  shows "\<exists>b'. ordered S A False (bnd (await r) (\<lambda>_. p)) b'"
proof -
  from assms obtain b' where "ordered S A False p b'" ..
  then have "ordered S A False (bnd (await r) (\<lambda>_. p)) b'"
    by (intro ordered_bnd [OF ordered_await])
  then show ?thesis ..
qed

lemma ordered_handleToolCall:
  assumes "Primary \<in> S \<Longrightarrow> (DownloadWait, Auxiliary) \<in> A"
  shows "\<exists>b'. ordered S A False (handleToolCall env name args) b'"
  unfolding handleToolCall_def
  by (rule ordered_after_ensure)
     (cases name;
      simp add: ordered_early ordered_BrowserDownloadPDF [OF assms]
        ordered_BrowserAuthenticatedDownload [OF assms] ordered_BrowserInterceptTabs [OF assms];
      rule exI; rule ordered_ret)

lemma ordered_handleToolCall_early:
  assumes "name \<noteq> BrowserDownloadPDFTool" and "name \<noteq> BrowserAuthenticatedDownloadTool"
    and "name \<noteq> BrowserInterceptTabsTool"
  shows "\<exists>b'. ordered S A False (handleToolCall env name args) b'"
  unfolding handleToolCall_def
  using assms
  by (intro ordered_after_ensure)
     (cases name; simp add: ordered_early; rule exI; rule ordered_ret)

lemma late_observers:
  assumes "\<exists>b'. ordered S A False p b'"
  shows "set (observers (after_click S (trace_of (p st)))) \<subseteq> A"
  using assms orderedD1 [of S A False p _ st] by (auto simp: late_def)

text \<open>Runs of the three handlers that go on in a separate context.\<close>

lemma ad_sample_url: "is_pdf_url ''https://portal.example/docs/file.pdf''"
  by (simp add: is_pdf_url_def toLowerCase_def toLowerChar_def endsWith_def)

lemma ad_sample_found:
  "ad_from_links ad_sample [] (ad_from_responses ad_sample (ad_url_changed ad_sample ([], []))) st
     = (Returned ([], ''https://portal.example/docs/file.pdf''), st, [])"
  using ad_sample_url
  by (simp add: ad_from_links_def ad_from_responses_def ad_url_changed_def ad_sample_def ret_def)

lemma ad_sample_clone:
  "ad_clone_download ad_sample st =
     (Returned ''JVBERi0='', st,
      [ContextOpened, Armed DownloadWait Auxiliary, Click Auxiliary Body, ContextClosed])"
  by (simp add: ad_clone_download_def ad_sample_def read_download_def await_or_def prog_defs)

lemma ad_sample_run:
  "trace_of (BrowserAuthenticatedDownload ad_sample sample_args empty_store) =
     [Armed ResponseListener Primary, Armed NewPageListener Primary, Click Primary AllMatches,
      ContextOpened, Armed DownloadWait Auxiliary, Click Auxiliary Body, ContextClosed,
      Notified]"
proof -
  have np: "ad_new_page ad_sample st = (Returned ([], []), st, [])" for st
    by (simp add: ad_new_page_def ad_sample_def ret_def)
  have h: "ad_cookies ad_sample = Returned ()" "ad_beforeLinks ad_sample = Returned []"
    "ad_click ad_sample = Returned ()" "ad_settle ad_sample = Returned ()"
    "ad_newPage ad_sample = False"
    by (simp_all add: ad_sample_def)
  show ?thesis
    unfolding BrowserAuthenticatedDownload_def
    by (simp add: h np ad_sample_found ad_sample_clone click_or_first_def prog_defs)
qed

lemma it_sample_url: "is_download_url ''https://portal.example/report/7''"
  by (simp add: is_download_url_def toLowerCase_def toLowerChar_def endsWith_def)

lemma it_sample_clone:
  "trace_of (it_download_in_clone it_sample args pdfUrl st) =
     [ContextOpened, Armed DownloadWait Auxiliary, Click Auxiliary Body, ContextClosed,
      Notified]"
  by (simp add: it_download_in_clone_def it_sample_def read_download_def await_or_def prog_defs)

lemma it_sample_run:
  "trace_of (BrowserInterceptTabs it_sample sample_args empty_store) =
     [Armed NavigationHook Primary, Click Primary FirstMatch, ContextOpened,
      Armed DownloadWait Auxiliary, Click Auxiliary Body, ContextClosed, Notified]"
proof -
  have h: "it_visible it_sample = Returned True" "it_buttonInfo it_sample = Returned ()"
    "it_install it_sample = Returned ()" "it_click it_sample = Returned ()"
    "it_wait it_sample = Returned ()"
    "it_intercepted it_sample = Returned ([''https://portal.example/report/7''],
                                 ''https://portal.example/report/7'')"
    "it_jsURLs it_sample = Returned []"
    by (simp_all add: it_sample_def)
  obtain r s where c: "it_download_in_clone it_sample sample_args
      ''https://portal.example/report/7'' empty_store =
      (r, s, [ContextOpened, Armed DownloadWait Auxiliary, Click Auxiliary Body, ContextClosed,
      Notified])"
    using it_sample_clone [of sample_args "''https://portal.example/report/7''" empty_store]
    by (cases "it_download_in_clone it_sample sample_args
      ''https://portal.example/report/7'' empty_store") (simp add: trace_of_def)
  show ?thesis
    unfolding BrowserInterceptTabs_def
    using it_sample_url
    by (cases r) (simp_all add: h c prog_defs)
qed

lemma dp_fallback_run:
  "trace_of (BrowserDownloadPDF
       (dp_sample\<lparr>dp_pdfBytes := Threw ''Protocol error (Page.printToPDF)'',
                  dp_download := Returned (),
                  dp_path := Returned (Some ''/tmp/playwright-artifacts/5d0f''),
                  dp_readFile := Returned ''JVBERi0=''\<rparr>) sample_args empty_store) =
     [Armed NewPageListener Primary, Click Primary AllMatches, ContextOpened,
      Armed DownloadWait Auxiliary, ContextClosed, Notified]"
proof -
  let ?e = "dp_sample\<lparr>dp_pdfBytes := Threw ''Protocol error (Page.printToPDF)'',
                  dp_download := Returned (),
                  dp_path := Returned (Some ''/tmp/playwright-artifacts/5d0f''),
                  dp_readFile := Returned ''JVBERi0=''\<rparr>"
  have d: "dp_direct_download ?e st =
      (Returned ''JVBERi0='', st, [ContextOpened, Armed DownloadWait Auxiliary, ContextClosed])"
    for st
    by (simp add: dp_direct_download_def dp_sample_def read_download_def prog_defs)
  have u: "\<not> endsWith (toLowerCase (dp_url ?e)) ''.pdf''"
    by (simp add: dp_sample_def toLowerCase_def toLowerChar_def endsWith_def)
  have h: "dp_networkidle ?e = Threw ''Timeout 10000ms exceeded''" "\<not> dp_closed1 ?e"
    "dp_isPDF ?e = Returned True" "\<not> dp_closed4 ?e"
    "dp_pdfBytes ?e = Threw ''Protocol error (Page.printToPDF)''"
    "dp_click ?e = Returned ()" "dp_newPage ?e" "\<not> dp_closed5 ?e"
    "dp_close_page ?e = Returned ()"
    by (simp_all add: dp_sample_def)
  have p: "dp_process ?e sample_args st =
      (Returned (Inr ''JVBERi0=''), st,
       [ContextOpened, Armed DownloadWait Auxiliary, ContextClosed])" for st
    unfolding dp_process_def
    by (simp add: u h d prog_defs)
  show ?thesis
    unfolding BrowserDownloadPDF_def
    by (simp add: h p click_or_first_def prog_defs)
qed

lemma sample_dispatch:
  "handleToolCall sample_env BrowserAuthenticatedDownloadTool args st =
     BrowserAuthenticatedDownload ad_sample args st"
  "handleToolCall sample_env BrowserInterceptTabsTool args st =
     BrowserInterceptTabs it_sample args st"
  "handleToolCall (sample_env\<lparr>te_dp := e\<rparr>) BrowserDownloadPDFTool args st =
     BrowserDownloadPDF e args st"
  "handleToolCall sample_env BrowserCaptureRequestTool args st =
     BrowserCaptureRequest cr_sample args st"
  by (simp_all add: handleToolCall_def sample_env_def bnd_def await_def split: prod.splits)

text \<open>
  C7, as stated, fails on the code. In the run of \<^verbatim>\<open>BrowserAuthenticatedDownload\<close> below
  the response listener has seen a PDF and the in-page fetch in the session copy gives
  nothing: the handler registers a download wait on the page of the session copy, after
  the triggering click on the primary page. \<^verbatim>\<open>BrowserInterceptTabs\<close> does the same, and
  \<^verbatim>\<open>BrowserDownloadPDF\<close> does it in its direct download, when printing the new tab is
  rejected.
\<close>

theorem download_wait_after_click_counterexample:
  "trace_of (handleToolCall sample_env BrowserAuthenticatedDownloadTool sample_args empty_store) =
     [Armed ResponseListener Primary, Armed NewPageListener Primary, Click Primary AllMatches,
      ContextOpened, Armed DownloadWait Auxiliary, Click Auxiliary Body, ContextClosed,
      Notified]
   \<and> observers (after_click UNIV
        (trace_of (handleToolCall sample_env BrowserAuthenticatedDownloadTool sample_args
           empty_store))) = [(DownloadWait, Auxiliary)]
   \<and> observers (after_click UNIV
        (trace_of (handleToolCall sample_env BrowserInterceptTabsTool sample_args
           empty_store))) = [(DownloadWait, Auxiliary)]
   \<and> observers (after_click UNIV
        (trace_of (handleToolCall
           (sample_env\<lparr>te_dp :=
              dp_sample\<lparr>dp_pdfBytes := Threw ''Protocol error (Page.printToPDF)'',
                        dp_download := Returned (),
                        dp_path := Returned (Some ''/tmp/playwright-artifacts/5d0f''),
                        dp_readFile := Returned ''JVBERi0=''\<rparr>\<rparr>)
           BrowserDownloadPDFTool sample_args empty_store))) = [(DownloadWait, Auxiliary)]"
  by (simp add: sample_dispatch ad_sample_run it_sample_run dp_fallback_run)

text \<open>
  C7 (amended): whatever the tool, the arguments and the answers of the browser, in the
  trace of \<^verbatim>\<open>handleToolCall\<close>
  \<^item> the only observer registered after the triggering click (the first click of the run)
    is the download wait on the page of a separate context;
  \<^item> for every tool but \<^verbatim>\<open>BrowserDownloadPDF\<close>, \<^verbatim>\<open>BrowserAuthenticatedDownload\<close> and
    \<^verbatim>\<open>BrowserInterceptTabs\<close>, no observer at all is registered after the triggering
    click: the download wait, the new-page listener, the request and response listeners,
    the injected hooks and their callback are all registered before it;
  \<^item> no observer is registered after a click on a page of a separate context: the late
    download wait of the three handlers comes before any click on its own page.

  The observers are the ones the claim lists. The \<^verbatim>\<open>close\<close> listener that
  \<^verbatim>\<open>BrowserDownloadPDF\<close> sets on the new tab when the tab opens, and the no-op that
  \<^verbatim>\<open>BrowserClickAndExtractUrl\<close> installs over its callback when the race is over, are
  not among them and are not events of the trace.
\<close>

theorem observers_and_triggering_click:
  "set (observers (after_click UNIV (trace_of (handleToolCall env name args st))))
     \<subseteq> {(DownloadWait, Auxiliary)}
   \<and> (name \<noteq> BrowserDownloadPDFTool \<and> name \<noteq> BrowserAuthenticatedDownloadTool
        \<and> name \<noteq> BrowserInterceptTabsTool \<longrightarrow>
          observers (after_click UNIV (trace_of (handleToolCall env name args st))) = [])
   \<and> observers (after_click {Auxiliary} (trace_of (handleToolCall env name args st))) = []"
proof (intro conjI impI)
  show "set (observers (after_click UNIV (trace_of (handleToolCall env name args st))))
      \<subseteq> {(DownloadWait, Auxiliary)}"
    by (rule late_observers, rule ordered_handleToolCall) simp
next
  assume "name \<noteq> BrowserDownloadPDFTool \<and> name \<noteq> BrowserAuthenticatedDownloadTool
        \<and> name \<noteq> BrowserInterceptTabsTool"
  then have "\<exists>b'. ordered UNIV {} False (handleToolCall env name args) b'"
    by (intro ordered_handleToolCall_early) simp_all
  then have "set (observers (after_click UNIV (trace_of (handleToolCall env name args st))))
      \<subseteq> {}"
    by (rule late_observers)
  then show "observers (after_click UNIV (trace_of (handleToolCall env name args st))) = []"
    by simp
next
  have "set (observers (after_click {Auxiliary} (trace_of (handleToolCall env name args st))))
      \<subseteq> {}"
    by (rule late_observers, rule ordered_handleToolCall) simp
  then show "observers (after_click {Auxiliary} (trace_of (handleToolCall env name args st))) = []"
    by simp
qed

theorem observers_and_triggering_click_witness:
  "observers (trace_of (handleToolCall sample_env BrowserCaptureRequestTool sample_args
       empty_store)) = [(RequestListener, Primary), (ResponseListener, Primary)]
   \<and> clicks_on UNIV (trace_of (handleToolCall sample_env BrowserCaptureRequestTool sample_args
       empty_store))
   \<and> observers (after_click UNIV (trace_of (handleToolCall sample_env BrowserCaptureRequestTool
       sample_args empty_store))) = []
   \<and> observers (after_click UNIV (trace_of (handleToolCall sample_env
       BrowserClickAndDownloadAuthenticatedTool sample_args empty_store))) = []"
  using observers_and_triggering_click [of sample_env BrowserCaptureRequestTool sample_args
      empty_store]
    observers_and_triggering_click [of sample_env BrowserClickAndDownloadAuthenticatedTool
      sample_args empty_store]
  by (simp add: sample_dispatch capture_request_sample_run trace_of_def)


section \<open>What the download handlers leave in the store\<close>

lemma bnd_silent:
  "p st = (Returned x, st', []) \<Longrightarrow> bnd p f st = f x st'"
  by (simp add: bnd_def split: prod.splits)

text \<open>
  \<^verbatim>\<open>BrowserDownloadPDF\<close> on the path where the new tab holds a PDF and \<^verbatim>\<open>newPage.pdf()\<close>
  resolves: the inner block hands the payload on and leaves the store alone.
\<close>

lemma dp_process_pdf:
  assumes "endsWith (toLowerCase (dp_url env)) ''.pdf''
      \<or> (\<not> dp_closed1 env \<and> dp_isPDF env = Returned True)"
    and "\<not> dp_closed4 env" and "dp_pdfBytes env = Returned bytes"
  shows "dp_process env args st = (Returned (Inr bytes), st, [])"
proof -
  have "await_or (dp_networkidle env) () st = (Returned (), st, [])"
    by (cases "dp_networkidle env") (simp_all add: await_or_def prog_defs)
  then have a: "bnd (await_or (dp_networkidle env) ()) f st = f () st" for f
    by (rule bnd_silent)
  have "(if \<not> endsWith (toLowerCase (dp_url env)) ''.pdf'' \<and> \<not> dp_closed1 env
          then await_or (dp_isPDF env) False
          else ret (endsWith (toLowerCase (dp_url env)) ''.pdf'')) st = (Returned True, st, [])"
    using assms(1) by (auto simp: await_or_def prog_defs)
  then have b: "bnd (if \<not> endsWith (toLowerCase (dp_url env)) ''.pdf'' \<and> \<not> dp_closed1 env
          then await_or (dp_isPDF env) False
          else ret (endsWith (toLowerCase (dp_url env)) ''.pdf'')) f st = f True st" for f
    by (rule bnd_silent)
  show ?thesis
    unfolding dp_process_def
    apply (simp only: a)
    apply (simp only: b)
    using assms(2,3) apply (simp add: prog_defs)
    done
qed

lemma download_pdf_stores_bytes_only:
  assumes "dp_click env = Returned ()
      \<or> (\<exists>e. dp_click env = Threw e \<and> str_includes e ''strict mode violation''
            \<and> dp_click_first env = Returned ())"
    and "dp_newPage env"
    and "endsWith (toLowerCase (dp_url env)) ''.pdf''
      \<or> (\<not> dp_closed1 env \<and> dp_isPDF env = Returned True)"
    and "\<not> dp_closed4 env" and "dp_pdfBytes env = Returned bytes" and "bytes \<noteq> []"
  shows "store_of (BrowserDownloadPDF env args st) = save_bytes_only (arg_fileName args) bytes st
       \<and> is_success (result_of (BrowserDownloadPDF env args st))"
proof -
  note p = dp_process_pdf [OF assms(3,4,5)]
  have c: "(if \<not> dp_closed5 env then await_or (dp_close_page env) () else ret ()) s
      = (Returned (), s, [])" for s
    by (cases "dp_close_page env") (simp_all add: await_or_def prog_defs)
  have "\<exists>t. click_or_first Primary (dp_click env) (dp_click_first env) st = (Returned (), st, t)"
    using assms(1) by (auto simp: click_or_first_def prog_defs)
  then obtain t where k: "click_or_first Primary (dp_click env) (dp_click_first env) st
      = (Returned (), st, t)"
    by blast
  show ?thesis
    unfolding BrowserDownloadPDF_def
    using assms(2,6)
    by (simp add: try_catch_def bnd_def arm_def emit_def k p c modify_def notify_list_changed_def
        ret_def store_of_def result_of_def is_success_def text_result_def)
qed


text \<open>
  C10 (amended): for every stored name that does not contain \<^verbatim>\<open>://\<close>, whose payload is
  not empty and for which no MIME type is recorded, reading the resource reports
  \<^verbatim>\<open>application/pdf\<close> if the lower-cased name ends in \<^verbatim>\<open>.pdf\<close> and
  \<^verbatim>\<open>image/png\<close> otherwise. In particular, when \<^verbatim>\<open>BrowserDownloadPDF\<close> captures the PDF
  of the new tab under such a name that does not end in \<^verbatim>\<open>.pdf\<close>, the resource it leaves
  is read back as \<^verbatim>\<open>image/png\<close>.
\<close>

theorem unmapped_mime:
  assumes "\<not> str_includes name ''://''" and "map_of (fileTypeMappings st) name = None"
    and "bytes \<noteq> []"
  shows "(map_of (screenshots st) name = Some bytes \<longrightarrow>
            ReadResource st (resource_uri name) =
              Inr (BlobResource (resource_uri name)
                    (if endsWith (toLowerCase name) ''.pdf'' then ''application/pdf''
                     else ''image/png'')
                    bytes))
       \<and> ((dp_click env = Returned ()
             \<or> (\<exists>e. dp_click env = Threw e \<and> str_includes e ''strict mode violation''
                   \<and> dp_click_first env = Returned ()))
          \<and> dp_newPage env
          \<and> (endsWith (toLowerCase (dp_url env)) ''.pdf''
               \<or> (\<not> dp_closed1 env \<and> dp_isPDF env = Returned True))
          \<and> \<not> dp_closed4 env \<and> dp_pdfBytes env = Returned bytes
          \<and> arg_fileName args = name \<and> \<not> endsWith (toLowerCase name) ''.pdf'' \<longrightarrow>
            is_success (result_of (BrowserDownloadPDF env args st))
            \<and> ReadResource (store_of (BrowserDownloadPDF env args st)) (resource_uri name) =
                Inr (BlobResource (resource_uri name) ''image/png'' bytes))"
proof (intro conjI impI)
  assume "map_of (screenshots st) name = Some bytes"
  then show "ReadResource st (resource_uri name) =
      Inr (BlobResource (resource_uri name)
            (if endsWith (toLowerCase name) ''.pdf'' then ''application/pdf'' else ''image/png'')
            bytes)"
    using read_unmapped [OF assms] by simp
next
  assume h: "(dp_click env = Returned ()
             \<or> (\<exists>e. dp_click env = Threw e \<and> str_includes e ''strict mode violation''
                   \<and> dp_click_first env = Returned ()))
          \<and> dp_newPage env
          \<and> (endsWith (toLowerCase (dp_url env)) ''.pdf''
               \<or> (\<not> dp_closed1 env \<and> dp_isPDF env = Returned True))
          \<and> \<not> dp_closed4 env \<and> dp_pdfBytes env = Returned bytes
          \<and> arg_fileName args = name \<and> \<not> endsWith (toLowerCase name) ''.pdf''"
  then have d: "store_of (BrowserDownloadPDF env args st) = save_bytes_only name bytes st
      \<and> is_success (result_of (BrowserDownloadPDF env args st))"
    using download_pdf_stores_bytes_only [of env bytes args st] assms(3) by blast
  then show "is_success (result_of (BrowserDownloadPDF env args st))" by simp
  show "ReadResource (store_of (BrowserDownloadPDF env args st)) (resource_uri name) =
      Inr (BlobResource (resource_uri name) ''image/png'' bytes)"
    using d h read_unmapped [OF assms] by simp
qed

theorem unmapped_mime_witness:
  "ReadResource (save_bytes_only ''Cert.PDF'' ''QUJD'' empty_store) (resource_uri ''Cert.PDF'') =
     Inr (BlobResource ''screenshot://Cert.PDF'' ''application/pdf'' ''QUJD'')
   \<and> is_success (result_of (BrowserDownloadPDF dp_sample sample_args empty_store))
   \<and> ReadResource (store_of (BrowserDownloadPDF dp_sample sample_args empty_store))
        (resource_uri ''report'') =
     Inr (BlobResource ''screenshot://report'' ''image/png'' ''JVBERi0='')"
  using unmapped_mime [where name = "''Cert.PDF''"
      and st = "save_bytes_only ''Cert.PDF'' ''QUJD'' empty_store" and bytes = "''QUJD''"
      and env = dp_sample and args = sample_args]
    unmapped_mime [where name = "''report''" and st = empty_store and bytes = "''JVBERi0=''"
      and env = dp_sample and args = sample_args]
  by (simp add: save_bytes_only_def empty_store_def resource_uri_def endsWith_def toLowerCase_def
      toLowerChar_def dp_sample_def sample_args_def)




end
